theory Spec2Isabelle
  imports Complex_Main "HOL-Library.Sublist" "HOL-Library.Log_Nat"
begin

section \<open>Scaling decision engine (app/services/auto\_scaling\_service.py)\<close>

text \<open>
  A metrics snapshot is the Python dict built by \<open>get_cloudwatch_metrics\<close>: keys are
  strings, values are numbers (CloudWatch averages and sums are floats, the ECS running
  count is an int). Numbers are modelled as exact rationals; the rounding of IEEE
  arithmetic is not modelled.
\<close>

type_synonym metrics = "string \<rightharpoonup> rat"

text \<open>\<open>d.get(k, default)\<close> of a Python dict.\<close>

definition dict_get :: "('k \<rightharpoonup> 'v) \<Rightarrow> 'k \<Rightarrow> 'v \<Rightarrow> 'v" where
  "dict_get d k dflt = (case d k of None \<Rightarrow> dflt | Some v \<Rightarrow> v)"

text \<open>
  The reason of a decision is an f-string in the source. Its three shapes and the numbers
  they render are kept; the rendering of a float with \<open>:.1f\<close> is not modelled.
  \<^item> \<open>High_utilization cpu mem\<close>: "High resource utilization: CPU ..\%, Memory ..\%"
  \<^item> \<open>Low_utilization cpu mem\<close>: "Low resource utilization: CPU ..\%, Memory ..\%"
  \<^item> \<open>Normal_range\<close>: "Resource utilization within normal range"
  \<^item> \<open>Analysis_failed e\<close>: "Metrics analysis failed: " followed by \<open>str(e)\<close>
\<close>

datatype reason =
    High_utilization rat rat
  | Low_utilization rat rat
  | Normal_range
  | Analysis_failed string

record ScalingDecision =
  direction :: string
  target_capacity :: rat
  reason :: reason
  confidence :: rat
  metrics :: metrics

text \<open>
  The boto3 clients the service calls. Each call either raises (\<open>Inl\<close> the message of
  the exception) or returns a response, of which the model keeps what the service reads:
  for \<open>get_metric_statistics\<close> the requested statistic of each datapoint, in order, and
  for \<open>describe_services\<close> the \<open>runningCount\<close> of each service, in order.
\<close>

record aws =
  get_metric_statistics :: "string \<Rightarrow> string \<Rightarrow> string \<Rightarrow> string + rat list"
  describe_services :: "string \<Rightarrow> string \<Rightarrow> string + rat list"

text \<open>The body of the \<open>try\<close> block of \<open>get_cloudwatch_metrics\<close>.\<close>

definition get_cloudwatch_metrics_try :: "aws \<Rightarrow> string \<Rightarrow> string \<Rightarrow> string + metrics" where
  "get_cloudwatch_metrics_try cl resource_id resource_type =
     (if resource_type = ''ecs'' then
        (case get_metric_statistics cl ''AWS/ECS'' ''CPUUtilization'' resource_id of
           Inl e \<Rightarrow> Inl e
         | Inr cpu_points \<Rightarrow>
            (let m1 = (if cpu_points \<noteq> [] then Map.empty(''cpu_utilization'' \<mapsto> last cpu_points)
                       else Map.empty)
             in case get_metric_statistics cl ''AWS/ECS'' ''MemoryUtilization'' resource_id of
                  Inl e \<Rightarrow> Inl e
                | Inr mem_points \<Rightarrow>
                   (let m2 = (if mem_points \<noteq> [] then m1(''memory_utilization'' \<mapsto> last mem_points)
                              else m1)
                    in case describe_services cl ''default'' resource_id of
                         Inl e \<Rightarrow> Inl e
                       | Inr services \<Rightarrow>
                           Inr (if services \<noteq> [] then m2(''current_capacity'' \<mapsto> hd services)
                                else m2))))
      else if resource_type = ''lambda'' then
        (case get_metric_statistics cl ''AWS/Lambda'' ''Duration'' resource_id of
           Inl e \<Rightarrow> Inl e
         | Inr dur_points \<Rightarrow>
            (let m1 = (if dur_points \<noteq> [] then Map.empty(''duration'' \<mapsto> last dur_points)
                       else Map.empty)
             in case get_metric_statistics cl ''AWS/Lambda'' ''Invocations'' resource_id of
                  Inl e \<Rightarrow> Inl e
                | Inr inv_points \<Rightarrow>
                    Inr (if inv_points \<noteq> []
                         then m1(''request_count'' \<mapsto> last inv_points,
                                 ''current_capacity'' \<mapsto> min (last inv_points) 100)
                         else m1)))
      else Inr Map.empty)"

text \<open>
  \<open>get_cloudwatch_metrics\<close>: the \<open>except Exception\<close> clause logs the error and
  returns the empty dict, so the function never raises.
\<close>

definition get_cloudwatch_metrics :: "aws \<Rightarrow> string \<Rightarrow> string \<Rightarrow> metrics" where
  "get_cloudwatch_metrics cl resource_id resource_type =
     (case get_cloudwatch_metrics_try cl resource_id resource_type of
        Inl e \<Rightarrow> Map.empty
      | Inr m \<Rightarrow> m)"

text \<open>
  The body of \<open>analyze_scaling_metrics\<close>, given what the awaited call of
  \<open>get_cloudwatch_metrics\<close> yields: \<open>Inr\<close> its return value, or \<open>Inl\<close> the message of
  an exception it raised, which the \<open>except Exception\<close> clause turns into the
  degraded decision.
\<close>

definition analyze_scaling_metrics_on :: "string + metrics \<Rightarrow> ScalingDecision" where
  "analyze_scaling_metrics_on r =
     (case r of
        Inl e \<Rightarrow>
          \<lparr>direction = ''none'', target_capacity = 1, reason = Analysis_failed e,
           confidence = 0, metrics = Map.empty\<rparr>
      | Inr m \<Rightarrow>
          (let cpu_utilization = dict_get m ''cpu_utilization'' 0;
               memory_utilization = dict_get m ''memory_utilization'' 0;
               request_count = dict_get m ''request_count'' 0
           in if cpu_utilization > 80 \<or> memory_utilization > 85 then
                (let current_capacity = dict_get m ''current_capacity'' 1
                 in \<lparr>direction = ''up'', target_capacity = min (current_capacity * 2) 20,
                     reason = High_utilization cpu_utilization memory_utilization,
                     confidence = 9 / 10, metrics = m\<rparr>)
              else if cpu_utilization < 20 \<and> memory_utilization < 30 \<and> request_count < 10 then
                (let current_capacity = dict_get m ''current_capacity'' 1
                 in \<lparr>direction = ''down'',
                     target_capacity = max (of_int \<lfloor>current_capacity / 2\<rfloor>) 1,
                     reason = Low_utilization cpu_utilization memory_utilization,
                     confidence = 8 / 10, metrics = m\<rparr>)
              else
                \<lparr>direction = ''none'', target_capacity = dict_get m ''current_capacity'' 1,
                 reason = Normal_range, confidence = 7 / 10, metrics = m\<rparr>))"

text \<open>\<open>analyze_scaling_metrics\<close> as the service runs it, on its own metrics source.\<close>

definition analyze_scaling_metrics :: "aws \<Rightarrow> string \<Rightarrow> string \<Rightarrow> ScalingDecision" where
  "analyze_scaling_metrics cl resource_id resource_type =
     analyze_scaling_metrics_on (Inr (get_cloudwatch_metrics cl resource_id resource_type))"

text \<open>
  A snapshot in which every field the decision reads is present: a field that is missing
  from \<open>m\<close> is given the value \<open>0\<close>, except \<open>current_capacity\<close>, which is
  given \<open>cap\<close>. Written from the specification's sentence "missing fields default to
  0" (there \<open>cap = 0\<close>), to be compared with what the code reads.
\<close>

definition with_defaults :: "rat \<Rightarrow> metrics \<Rightarrow> metrics" where
  "with_defaults cap m =
     m(''cpu_utilization'' \<mapsto> dict_get m ''cpu_utilization'' 0,
       ''memory_utilization'' \<mapsto> dict_get m ''memory_utilization'' 0,
       ''request_count'' \<mapsto> dict_get m ''request_count'' 0,
       ''current_capacity'' \<mapsto> dict_get m ''current_capacity'' cap)"

text \<open>A client all of whose calls raise, and one that answers for a busy ECS service.\<close>

definition failing_aws :: aws where
  "failing_aws =
     \<lparr>get_metric_statistics = (\<lambda>ns name rid. Inl ''EndpointConnectionError''),
      describe_services = (\<lambda>cluster rid. Inl ''EndpointConnectionError'')\<rparr>"

definition snapshot_up :: metrics where
  "snapshot_up =
     [''cpu_utilization'' \<mapsto> 85, ''memory_utilization'' \<mapsto> 50, ''current_capacity'' \<mapsto> 2]"

definition snapshot_down :: metrics where
  "snapshot_down =
     [''cpu_utilization'' \<mapsto> 5, ''memory_utilization'' \<mapsto> 10, ''request_count'' \<mapsto> 0,
      ''current_capacity'' \<mapsto> 4]"

definition snapshot_none :: metrics where
  "snapshot_none =
     [''cpu_utilization'' \<mapsto> 50, ''memory_utilization'' \<mapsto> 50, ''request_count'' \<mapsto> 50,
      ''current_capacity'' \<mapsto> 3]"

section \<open>Python floats\<close>

text \<open>
  A Python \<open>float\<close> is an IEEE 754 binary64 number, and \<open>+\<close>, \<open>*\<close>, \<open>/\<close> and the
  reading of a literal return the double nearest to the exact result, ties going to the
  even significand. A finite double is kept here as the rational it denotes, and
  \<open>double x\<close> is the double nearest to the rational \<open>x\<close>. Infinities (magnitudes from
  \<open>2 ^ 1024\<close> on), NaN and the sign of zero are not represented: the detector below
  only computes numbers between 0 and 1.
\<close>

text \<open>The integer \<open>k\<close> with \<open>2 ^ k \<le> x < 2 ^ (k + 1)\<close>, for \<open>x > 0\<close>.\<close>

definition floor_log2 :: "rat \<Rightarrow> int" where
  "floor_log2 x = (if 1 \<le> x then bitlen \<lfloor>x\<rfloor> - 1 else - bitlen (\<lceil>1 / x\<rceil> - 1))"

text \<open>The integer nearest to \<open>z\<close>; of two nearest ones, the even one.\<close>

definition round_half_even :: "rat \<Rightarrow> int" where
  "round_half_even z =
     (let n = \<lfloor>z\<rfloor>; r = z - of_int n
      in if r < 1 / 2 then n else if 1 / 2 < r then n + 1 else if even n then n else n + 1)"

text \<open>
  The doubles around \<open>x\<close> are the multiples of \<open>2 ^ e\<close>, where \<open>e\<close> leaves 53 bits for
  the significand (\<open>2 ^ 52 \<le> |x| / 2 ^ e < 2 ^ 53\<close>) and is at least -1074, the exponent
  of the subnormal numbers.
\<close>

definition ulp_exponent :: "rat \<Rightarrow> int" where
  "ulp_exponent x = max (- 1074) (floor_log2 \<bar>x\<bar> - 52)"

definition double :: "rat \<Rightarrow> rat" where
  "double x =
     (if x = 0 then 0
      else sgn x * of_int (round_half_even (\<bar>x\<bar> / 2 powi ulp_exponent x)) * 2 powi ulp_exponent x)"

section \<open>Project detector (app/services/project\_analyzer.py)\<close>

text \<open>The enum \<open>ProjectType\<close> of app/schemas/base.py, and the string each member stands for.\<close>

datatype ProjectType =
    REACT | VUE | ANGULAR | NEXTJS | NUXT | SVELTE | VITE | WEBPACK | DOCUSAURUS
  | PYTHON | JAVA | GO | RUST | PHP | STATIC | UNKNOWN

fun type_value :: "ProjectType \<Rightarrow> string" where
  "type_value REACT = ''react''"
| "type_value VUE = ''vue''"
| "type_value ANGULAR = ''angular''"
| "type_value NEXTJS = ''nextjs''"
| "type_value NUXT = ''nuxt''"
| "type_value SVELTE = ''svelte''"
| "type_value VITE = ''vite''"
| "type_value WEBPACK = ''webpack''"
| "type_value DOCUSAURUS = ''docusaurus''"
| "type_value PYTHON = ''python''"
| "type_value JAVA = ''java''"
| "type_value GO = ''go''"
| "type_value RUST = ''rust''"
| "type_value PHP = ''php''"
| "type_value STATIC = ''static''"
| "type_value UNKNOWN = ''unknown''"

definition all_project_types :: "ProjectType list" where
  "all_project_types =
     [REACT, VUE, ANGULAR, NEXTJS, NUXT, SVELTE, VITE, WEBPACK, DOCUSAURUS,
      PYTHON, JAVA, GO, RUST, PHP, STATIC, UNKNOWN]"

text \<open>
  \<open>ProjectType(s)\<close>: the member whose value is \<open>s\<close>; Python raises ValueError when
  there is none (\<open>None\<close> here).
\<close>

definition ProjectType_of :: "string \<Rightarrow> ProjectType option" where
  "ProjectType_of s = find (\<lambda>t. type_value t = s) all_project_types"

text \<open>
  One entry of \<open>self.project_indicators\<close>: the keys \<open>files\<close>, \<open>keywords\<close>,
  \<open>scripts\<close>, \<open>base_image\<close> and \<open>port\<close> of the dict.
\<close>

record indicators =
  ind_files :: "string list"
  ind_keywords :: "string list"
  ind_scripts :: "string list"
  ind_base_image :: string
  ind_port :: int

text \<open>
  \<open>self.project_indicators\<close>, in the order the dict literal lists its keys (the order
  in which Python iterates it).
\<close>

definition project_indicators :: "(string \<times> indicators) list" where
  "project_indicators =
   [(''react'',
      \<lparr>ind_files = [''package.json'', ''src/App.js'', ''src/App.jsx'', ''src/index.js''],
       ind_keywords = [''react'', ''react-dom''], ind_scripts = [''start'', ''build''],
       ind_base_image = ''node:18-alpine'', ind_port = 3000\<rparr>),
    (''vue'',
      \<lparr>ind_files = [''package.json'', ''src/App.vue'', ''src/main.js''],
       ind_keywords = [''vue'', ''@vue/cli''], ind_scripts = [''serve'', ''build''],
       ind_base_image = ''node:18-alpine'', ind_port = 8080\<rparr>),
    (''angular'',
      \<lparr>ind_files = [''package.json'', ''src/app/app.component.ts'', ''angular.json''],
       ind_keywords = [''@angular/core'', ''@angular/cli''], ind_scripts = [''start'', ''build''],
       ind_base_image = ''node:18-alpine'', ind_port = 4200\<rparr>),
    (''nextjs'',
      \<lparr>ind_files = [''package.json'', ''next.config.js'', ''pages/'', ''app/''],
       ind_keywords = [''next'', ''react''], ind_scripts = [''dev'', ''build'', ''start''],
       ind_base_image = ''node:18-alpine'', ind_port = 3000\<rparr>),
    (''nuxt'',
      \<lparr>ind_files = [''package.json'', ''nuxt.config.js'', ''pages/''],
       ind_keywords = [''nuxt'', ''vue''], ind_scripts = [''dev'', ''build'', ''start''],
       ind_base_image = ''node:18-alpine'', ind_port = 3000\<rparr>),
    (''svelte'',
      \<lparr>ind_files = [''package.json'', ''src/App.svelte'', ''svelte.config.js''],
       ind_keywords = [''svelte'', ''sveltekit''], ind_scripts = [''dev'', ''build''],
       ind_base_image = ''node:18-alpine'', ind_port = 5173\<rparr>),
    (''python'',
      \<lparr>ind_files = [''requirements.txt'', ''main.py'', ''app.py'', ''manage.py''],
       ind_keywords = [''flask'', ''django'', ''fastapi'', ''streamlit''], ind_scripts = [],
       ind_base_image = ''python:3.11-slim'', ind_port = 8000\<rparr>),
    (''java'',
      \<lparr>ind_files = [''pom.xml'', ''build.gradle'', ''src/main/java/''],
       ind_keywords = [''spring'', ''maven'', ''gradle''], ind_scripts = [],
       ind_base_image = ''openjdk:17-jre-slim'', ind_port = 8080\<rparr>),
    (''go'',
      \<lparr>ind_files = [''go.mod'', ''main.go'', ''go.sum''],
       ind_keywords = [''gin'', ''echo'', ''fiber''], ind_scripts = [],
       ind_base_image = ''golang:1.21-alpine'', ind_port = 8080\<rparr>),
    (''rust'',
      \<lparr>ind_files = [''Cargo.toml'', ''src/main.rs''],
       ind_keywords = [''actix'', ''warp'', ''rocket''], ind_scripts = [],
       ind_base_image = ''rust:1.75-slim'', ind_port = 8080\<rparr>),
    (''php'',
      \<lparr>ind_files = [''composer.json'', ''index.php'', ''public/''],
       ind_keywords = [''laravel'', ''symfony'', ''wordpress''], ind_scripts = [],
       ind_base_image = ''php:8.2-fpm-alpine'', ind_port = 80\<rparr>),
    (''static'',
      \<lparr>ind_files = [''index.html'', ''css/'', ''js/'', ''assets/''],
       ind_keywords = [], ind_scripts = [],
       ind_base_image = ''nginx:alpine'', ind_port = 80\<rparr>)]"

text \<open>
  What \<open>json.load\<close> returns for a JSON value: \<open>None\<close>, a bool, a number, a str, a
  list, or a dict, kept as the list of its items.
\<close>

datatype json =
    JNull | JBool bool | JNumber rat | JString string
  | JArray "json list" | JObject "(string \<times> json) list"

text \<open>
  \<open>config_data\<close> is the dict that \<open>_read_config_files\<close> builds. When package.json
  is read it holds, under \<open>dependencies\<close>, \<open>devDependencies\<close> and \<open>scripts\<close>, whatever
  JSON value the file has there (\<open>None\<close> for \<open>null\<close>), and an empty dict where the file
  has no such key; when there is no package.json the three keys are absent.
\<close>

type_synonym config_data = "string \<rightharpoonup> json"

text \<open>Python's \<open>sub in s\<close> on strings: \<open>sub\<close> occurs in \<open>s\<close> as a contiguous run.\<close>

fun starts_with :: "'a list \<Rightarrow> 'a list \<Rightarrow> bool" where
  "starts_with s [] = True"
| "starts_with [] (c # sub) = False"
| "starts_with (x # s) (c # sub) = (x = c \<and> starts_with s sub)"

fun str_in :: "'a list \<Rightarrow> 'a list \<Rightarrow> bool" where
  "str_in sub [] = (sub = [])"
| "str_in sub (x # s) = (starts_with (x # s) sub \<or> str_in sub s)"

text \<open>\<open>str.lower()\<close>, on ASCII letters; other characters are left as they are.\<close>

definition lower_char :: "char \<Rightarrow> char" where
  "lower_char c =
     (case map_of (zip ''ABCDEFGHIJKLMNOPQRSTUVWXYZ'' ''abcdefghijklmnopqrstuvwxyz'') c of
        None \<Rightarrow> c
      | Some l \<Rightarrow> l)"

definition lower :: "string \<Rightarrow> string" where
  "lower s = map lower_char s"

text \<open>The exceptions of the detector; a result is \<open>Inl\<close> of the exception raised or \<open>Inr\<close> of the value.\<close>

datatype error = ValueError | KeyError | UnboundLocalError | TypeError | ZeroDivisionError

definition and_then :: "error + 'a \<Rightarrow> ('a \<Rightarrow> error + 'b) \<Rightarrow> error + 'b" where
  "and_then r f = (case r of Inl e \<Rightarrow> Inl e | Inr v \<Rightarrow> f v)"

text \<open>
  \<open>sum(1 for file in indicators["files"] if any(file in f for f in files))\<close>: the
  number of signature paths that occur in some file name.
\<close>

definition file_matches :: "indicators \<Rightarrow> string list \<Rightarrow> nat" where
  "file_matches ind fs = length (filter (\<lambda>file. list_ex (\<lambda>f. str_in file f) fs) (ind_files ind))"

text \<open>
  \<open>{**d}\<close> takes the items of a mapping and raises TypeError for anything else, so for
  \<open>None\<close>, a list, a str, a number or a bool. The result here is the list of the keys.
\<close>

definition mapping_keys :: "json \<Rightarrow> error + string list" where
  "mapping_keys d = (case d of JObject items \<Rightarrow> Inr (map fst items) | _ \<Rightarrow> Inl TypeError)"

text \<open>
  \<open>{**dependencies, **dev_dependencies}.keys()\<close>, where both dicts are taken from
  \<open>config_data\<close> with \<open>.get(key, {})\<close>: the default covers an absent key only. The
  keys of the second dict come after those of the first; a key of both is listed twice
  here, which the test \<open>any(...)\<close> over the keys does not see.
\<close>

definition all_deps :: "config_data \<Rightarrow> error + string list" where
  "all_deps cfg =
     (let dependencies = dict_get cfg ''dependencies'' (JObject []);
          dev_dependencies = dict_get cfg ''devDependencies'' (JObject [])
      in and_then (mapping_keys dependencies) (\<lambda>ks.
         and_then (mapping_keys dev_dependencies) (\<lambda>dev_ks. Inr (ks @ dev_ks))))"

text \<open>
  \<open>sum(1 for keyword in indicators["keywords"] if any(keyword in dep.lower() for dep in
  all_deps.keys()))\<close>, given the keys.
\<close>

definition keyword_matches :: "indicators \<Rightarrow> string list \<Rightarrow> nat" where
  "keyword_matches ind deps =
     length (filter (\<lambda>keyword. list_ex (\<lambda>dep. str_in keyword (lower dep)) deps)
               (ind_keywords ind))"

text \<open>
  \<open>script in scripts\<close>: a key of a dict, an element of a list, a substring of a str;
  TypeError (argument is not iterable) for \<open>None\<close>, a number or a bool.
\<close>

definition contains :: "json \<Rightarrow> string \<Rightarrow> error + bool" where
  "contains scripts script =
     (case scripts of
        JObject items \<Rightarrow> Inr (script \<in> set (map fst items))
      | JArray xs \<Rightarrow> Inr (JString script \<in> set xs)
      | JString s \<Rightarrow> Inr (str_in script s)
      | _ \<Rightarrow> Inl TypeError)"

text \<open>
  \<open>sum(1 for script in indicators["scripts"] if script in scripts)\<close>: the test is made
  once for each expected script, so not at all when the entry expects none.
\<close>

fun count_scripts :: "string list \<Rightarrow> json \<Rightarrow> error + nat" where
  "count_scripts [] scripts = Inr 0"
| "count_scripts (script # rest) scripts =
     (case contains scripts script of
        Inl e \<Rightarrow> Inl e
      | Inr found \<Rightarrow>
          (case count_scripts rest scripts of
             Inl e \<Rightarrow> Inl e
           | Inr n \<Rightarrow> Inr ((if found then 1 else 0) + n)))"

definition script_matches :: "indicators \<Rightarrow> config_data \<Rightarrow> error + nat" where
  "script_matches ind cfg = count_scripts (ind_scripts ind) (dict_get cfg ''scripts'' (JObject []))"

text \<open>
  \<open>if matches > 0: score += (matches / len(xs)) * weight\<close>. The quotient of two ints,
  the product and the sum are each rounded to a double; a division by zero raises.
\<close>

definition add_term :: "rat \<Rightarrow> nat \<Rightarrow> nat \<Rightarrow> rat \<Rightarrow> error + rat" where
  "add_term score matches n weight =
     (if matches > 0
      then (if n = 0 then Inl ZeroDivisionError
            else Inr (double (score + double (double (of_nat matches / of_nat n) * weight))))
      else Inr score)"

text \<open>
  The body of the loop of \<open>_detect_project_type\<close> for one catalog entry, statement by
  statement: \<open>score = 0.0\<close>, the files term, the merged dependencies, the keywords term,
  the scripts term. The literals 0.4 and 0.2 are the doubles nearest to 4/10 and 2/10.
\<close>

definition type_score :: "indicators \<Rightarrow> string list \<Rightarrow> config_data \<Rightarrow> error + rat" where
  "type_score ind fs cfg =
     and_then (add_term 0 (file_matches ind fs) (length (ind_files ind)) (double (4 / 10))) (\<lambda>score.
     and_then (all_deps cfg) (\<lambda>deps.
     and_then (add_term score (keyword_matches ind deps) (length (ind_keywords ind)) (double (4 / 10))) (\<lambda>score.
     and_then (script_matches ind cfg) (\<lambda>matches.
     add_term score matches (length (ind_scripts ind)) (double (2 / 10))))))"

text \<open>
  The same score as a function of the three counts of an entry and of the lengths of its
  three lists.
\<close>

definition score_of_counts :: "nat \<Rightarrow> nat \<Rightarrow> nat \<Rightarrow> nat \<Rightarrow> nat \<Rightarrow> nat \<Rightarrow> error + rat" where
  "score_of_counts fm nf km nk sm ns =
     and_then (add_term 0 fm nf (double (4 / 10))) (\<lambda>score.
     and_then (add_term score km nk (double (4 / 10))) (\<lambda>score.
     add_term score sm ns (double (2 / 10))))"

text \<open>
  The loop over the catalog: the dict \<open>scores\<close> after it, as the list of its items in
  insertion order, or the exception of the first entry that raises.
\<close>

fun scores_loop :: "(string \<times> indicators) list \<Rightarrow> string list \<Rightarrow> config_data \<Rightarrow> error + (string \<times> rat) list" where
  "scores_loop [] fs cfg = Inr []"
| "scores_loop ((project_type, ind) # rest) fs cfg =
     (case type_score ind fs cfg of
        Inl e \<Rightarrow> Inl e
      | Inr score \<Rightarrow>
          (case scores_loop rest fs cfg of
             Inl e \<Rightarrow> Inl e
           | Inr ss \<Rightarrow> Inr ((project_type, score) # ss)))"

definition scores :: "string list \<Rightarrow> config_data \<Rightarrow> error + (string \<times> rat) list" where
  "scores fs cfg = scores_loop project_indicators fs cfg"

text \<open>
  \<open>max(scores, key=scores.get)\<close>: Python keeps the first item and replaces it only by
  a strictly greater one, so of several maximal items the first wins.
\<close>

fun first_max :: "(string \<times> rat) \<Rightarrow> (string \<times> rat) list \<Rightarrow> string \<times> rat" where
  "first_max best [] = best"
| "first_max best (x # xs) = first_max (if snd x > snd best then x else best) xs"

text \<open>
  \<open>_detect_project_type\<close>. \<open>max\<close> of an empty dict and \<open>ProjectType\<close> of a string
  that is no member's value raise ValueError. The literal 0.3 is the double nearest to
  3/10.
\<close>

definition detect_project_type :: "string list \<Rightarrow> config_data \<Rightarrow> error + (ProjectType \<times> rat)" where
  "detect_project_type fs cfg =
     and_then (scores fs cfg) (\<lambda>scores.
       case scores of
         [] \<Rightarrow> Inl ValueError
       | s # ss \<Rightarrow>
           (let (best_type, confidence) = first_max s ss
            in if confidence < double (3 / 10) then Inr (STATIC, double (3 / 10))
               else (case ProjectType_of best_type of
                       None \<Rightarrow> Inl ValueError
                     | Some t \<Rightarrow> Inr (t, confidence))))"

text \<open>The maximal weighted score over the catalog, when every score is computed.\<close>

definition max_score :: "string list \<Rightarrow> config_data \<Rightarrow> rat option" where
  "max_score fs cfg =
     (case scores fs cfg of
        Inl e \<Rightarrow> None
      | Inr ss \<Rightarrow> (case ss of [] \<Rightarrow> None | s # rest \<Rightarrow> Some (Max (snd ` set (s # rest)))))"

text \<open>
  The weighted score in the words of the specification, in exact arithmetic: each term is
  the number found over the total, with the weights 0.4, 0.4 and 0.2; a type with no
  keywords or no expected scripts contributes 0 there. The counts are those of the code,
  and the maximum is taken over the catalog.
\<close>

definition spec_term :: "nat \<Rightarrow> nat \<Rightarrow> rat \<Rightarrow> rat" where
  "spec_term matches n weight = (if n = 0 then 0 else of_nat matches / of_nat n * weight)"

definition spec_score_of_counts :: "nat \<Rightarrow> nat \<Rightarrow> nat \<Rightarrow> nat \<Rightarrow> nat \<Rightarrow> nat \<Rightarrow> rat" where
  "spec_score_of_counts fm nf km nk sm ns =
     spec_term fm nf (4 / 10) + spec_term km nk (4 / 10) + spec_term sm ns (2 / 10)"

definition spec_type_score :: "indicators \<Rightarrow> string list \<Rightarrow> config_data \<Rightarrow> rat" where
  "spec_type_score ind fs cfg =
     spec_score_of_counts
       (file_matches ind fs) (length (ind_files ind))
       (keyword_matches ind (case all_deps cfg of Inl e \<Rightarrow> [] | Inr deps \<Rightarrow> deps))
       (length (ind_keywords ind))
       (case script_matches ind cfg of Inl e \<Rightarrow> 0 | Inr n \<Rightarrow> n) (length (ind_scripts ind))"

definition spec_max_score :: "string list \<Rightarrow> config_data \<Rightarrow> rat" where
  "spec_max_score fs cfg =
     Max ((\<lambda>(project_type, ind). spec_type_score ind fs cfg) ` set project_indicators)"

text \<open>
  For given counts, the computed score is below the literal 0.3 exactly when the weighted
  score of the specification is below 3/10.
\<close>

definition threshold_agrees :: "nat \<Rightarrow> nat \<Rightarrow> nat \<Rightarrow> nat \<Rightarrow> nat \<Rightarrow> nat \<Rightarrow> bool" where
  "threshold_agrees fm nf km nk sm ns =
     (case score_of_counts fm nf km nk sm ns of
        Inl e \<Rightarrow> False
      | Inr s \<Rightarrow> (s < double (3 / 10)) = (spec_score_of_counts fm nf km nk sm ns < 3 / 10))"

text \<open>
  The manifest has the shape the detector can read: \<open>dependencies\<close> and
  \<open>devDependencies\<close> are dicts or absent, \<open>scripts\<close> is a dict, a list or a str, or
  absent.
\<close>

definition is_mapping :: "json \<Rightarrow> bool" where
  "is_mapping v = (case v of JObject items \<Rightarrow> True | _ \<Rightarrow> False)"

definition is_container :: "json \<Rightarrow> bool" where
  "is_container v = (case v of JObject items \<Rightarrow> True | JArray xs \<Rightarrow> True | JString s \<Rightarrow> True | _ \<Rightarrow> False)"

definition manifest_readable :: "config_data \<Rightarrow> bool" where
  "manifest_readable cfg =
     (is_mapping (dict_get cfg ''dependencies'' (JObject []))
      \<and> is_mapping (dict_get cfg ''devDependencies'' (JObject []))
      \<and> is_container (dict_get cfg ''scripts'' (JObject [])))"

text \<open>
  The input matches no catalog signature at all: for every catalog entry no signature
  path, no keyword and no script name is found.
\<close>

definition no_signature_matches :: "string list \<Rightarrow> config_data \<Rightarrow> bool" where
  "no_signature_matches fs cfg =
     list_all (\<lambda>(project_type, ind).
        file_matches ind fs = 0
        \<and> (case all_deps cfg of Inl e \<Rightarrow> False | Inr deps \<Rightarrow> keyword_matches ind deps = 0)
        \<and> script_matches ind cfg = Inr 0)
       project_indicators"

text \<open>
  The detector input of the specification's example, with the \<open>config_data\<close> that
  \<open>_read_config_files\<close> builds from its package.json.
\<close>

definition react_files :: "string list" where
  "react_files = [''package.json'', ''src/App.js'', ''src/index.js'']"

definition react_manifest :: config_data where
  "react_manifest =
     [''name'' \<mapsto> JString ''demo'',
      ''version'' \<mapsto> JString ''1.0.0'',
      ''scripts'' \<mapsto> JObject [(''start'', JString ''react-scripts start''),
                              (''build'', JString ''react-scripts build'')],
      ''dependencies'' \<mapsto> JObject [(''react'', JString ''^18.2.0''),
                                   (''react-dom'', JString ''^18.2.0'')],
      ''devDependencies'' \<mapsto> JObject [],
      ''package_manager'' \<mapsto> JString ''npm'']"

text \<open>No package.json: \<open>config_data\<close> is the empty dict.\<close>

definition no_manifest :: config_data where
  "no_manifest = Map.empty"

text \<open>
  A package.json \<open>{"name": "demo", "version": "1.0.0", "dependencies": null}\<close>, and
  the tree that holds only this file.
\<close>

definition null_dependencies_manifest :: config_data where
  "null_dependencies_manifest =
     [''name'' \<mapsto> JString ''demo'',
      ''version'' \<mapsto> JString ''1.0.0'',
      ''scripts'' \<mapsto> JObject [],
      ''dependencies'' \<mapsto> JNull,
      ''devDependencies'' \<mapsto> JObject [],
      ''package_manager'' \<mapsto> JString ''npm'']"

definition null_dependencies_files :: "string list" where
  "null_dependencies_files = [''/tmp/projects/demo/package.json'']"

text \<open>
  An input on which the rounding decides: in exact arithmetic \<open>nuxt\<close> and \<open>svelte\<close>
  both score 1/3, and \<open>nuxt\<close> comes first in the catalog.
\<close>

definition nuxt_svelte_files :: "string list" where
  "nuxt_svelte_files = [''package.json'', ''nuxt.config.js'']"

definition nuxt_svelte_manifest :: config_data where
  "nuxt_svelte_manifest =
     [''name'' \<mapsto> JString ''demo'',
      ''version'' \<mapsto> JString ''1.0.0'',
      ''scripts'' \<mapsto> JObject [(''start'', JString ''node server.js'')],
      ''dependencies'' \<mapsto> JObject [(''svelte'', JString ''^4.0.0'')],
      ''devDependencies'' \<mapsto> JObject [],
      ''package_manager'' \<mapsto> JString ''npm'']"


section \<open>Containerization service (app/services/containerization\_service.py)\<close>

text \<open>The dataclass \<open>ProjectAnalysis\<close> of app/services/project\_analyzer.py.\<close>

record health_check_config =
  hc_test :: string
  hc_interval :: string
  hc_timeout :: string
  hc_retries :: int

record ProjectAnalysis =
  project_type :: ProjectType
  framework_version :: "string option"
  package_manager :: string
  build_command :: "string option"
  output_dir :: "string option"
  dependencies :: "string list"
  environment_vars :: "(string \<times> string) list"
  port :: int
  health_check :: "health_check_config option"
  dockerfile_strategy :: string
  base_image :: string
  confidence_score :: rat

text \<open>\<open>str(n)\<close> of a Python int, as an f-string renders it: decimal, with a minus sign.\<close>

fun str_nat :: "nat \<Rightarrow> string" where
  "str_nat n =
     (if n < 10 then [''0123456789'' ! n]
      else str_nat (n div 10) @ [''0123456789'' ! (n mod 10)])"

definition str_int :: "int \<Rightarrow> string" where
  "str_int i = (if i < 0 then ''-'' @ str_nat (nat (- i)) else str_nat (nat i))"

text \<open>
  A text is written as the list of its lines; every line of a template, the last one
  included, ends with a newline character.
\<close>

definition unlines :: "string list \<Rightarrow> string" where
  "unlines ls = concat (map (\<lambda>l. l @ [CHR 0x0A]) ls)"

text \<open>\<open>_generate_react_dockerfile\<close> (lines 84 to 122 of the source).\<close>

definition generate_react_dockerfile :: "ProjectAnalysis \<Rightarrow> string \<Rightarrow> string" where
  \<open>generate_react_dockerfile analysis project_path = unlines
    [''# Multi-stage build for React app'',
     ''FROM node:18-alpine AS builder'',
     [],
     ''# Set working directory'',
     ''WORKDIR /app'',
     [],
     ''# Copy package files'',
     ''COPY package*.json ./'',
     [],
     ''# Install dependencies'',
     ''RUN npm ci --only=production'',
     [],
     ''# Copy source code'',
     ''COPY . .'',
     [],
     ''# Build the app'',
     ''RUN npm run build'',
     [],
     ''# Production stage'',
     ''FROM nginx:alpine'',
     [],
     ''# Copy built app to nginx'',
     ''COPY --from=builder /app/dist /usr/share/nginx/html'',
     [],
     ''# Copy nginx configuration'',
     ''COPY nginx.conf /etc/nginx/nginx.conf'',
     [],
     ''# Expose port'',
     ''EXPOSE '' @ str_int (port analysis),
     [],
     ''# Health check'',
     ''HEALTHCHECK --interval=30s --timeout=3s --start-period=5s --retries=3 '' @ [CHR 0x5C],
     ''    CMD curl -f http://localhost:'' @ str_int (port analysis) @ ''/ || exit 1'',
     [],
     ''# Start nginx'',
     ''CMD ["nginx", "-g", "daemon off;"]'']\<close>

text \<open>\<open>_generate_vue_dockerfile\<close> (lines 124 to 161 of the source).\<close>

definition generate_vue_dockerfile :: "ProjectAnalysis \<Rightarrow> string \<Rightarrow> string" where
  \<open>generate_vue_dockerfile analysis project_path = unlines
    [''# Multi-stage build for Vue.js app'',
     ''FROM node:18-alpine AS builder'',
     [],
     ''WORKDIR /app'',
     [],
     ''# Copy package files'',
     ''COPY package*.json ./'',
     [],
     ''# Install dependencies'',
     ''RUN npm ci --only=production'',
     [],
     ''# Copy source code'',
     ''COPY . .'',
     [],
     ''# Build the app'',
     ''RUN npm run build'',
     [],
     ''# Production stage'',
     ''FROM nginx:alpine'',
     [],
     ''# Copy built app to nginx'',
     ''COPY --from=builder /app/dist /usr/share/nginx/html'',
     [],
     ''# Copy nginx configuration'',
     ''COPY nginx.conf /etc/nginx/nginx.conf'',
     [],
     ''# Expose port'',
     ''EXPOSE '' @ str_int (port analysis),
     [],
     ''# Health check'',
     ''HEALTHCHECK --interval=30s --timeout=3s --start-period=5s --retries=3 '' @ [CHR 0x5C],
     ''    CMD curl -f http://localhost:'' @ str_int (port analysis) @ ''/ || exit 1'',
     [],
     ''# Start nginx'',
     ''CMD ["nginx", "-g", "daemon off;"]'']\<close>

text \<open>\<open>_generate_angular_dockerfile\<close> (lines 163 to 200 of the source).\<close>

definition generate_angular_dockerfile :: "ProjectAnalysis \<Rightarrow> string \<Rightarrow> string" where
  \<open>generate_angular_dockerfile analysis project_path = unlines
    [''# Multi-stage build for Angular app'',
     ''FROM node:18-alpine AS builder'',
     [],
     ''WORKDIR /app'',
     [],
     ''# Copy package files'',
     ''COPY package*.json ./'',
     [],
     ''# Install dependencies'',
     ''RUN npm ci --only=production'',
     [],
     ''# Copy source code'',
     ''COPY . .'',
     [],
     ''# Build the app'',
     ''RUN npm run build --prod'',
     [],
     ''# Production stage'',
     ''FROM nginx:alpine'',
     [],
     ''# Copy built app to nginx'',
     ''COPY --from=builder /app/dist /usr/share/nginx/html'',
     [],
     ''# Copy nginx configuration'',
     ''COPY nginx.conf /etc/nginx/nginx.conf'',
     [],
     ''# Expose port'',
     ''EXPOSE '' @ str_int (port analysis),
     [],
     ''# Health check'',
     ''HEALTHCHECK --interval=30s --timeout=3s --start-period=5s --retries=3 '' @ [CHR 0x5C],
     ''    CMD curl -f http://localhost:'' @ str_int (port analysis) @ ''/ || exit 1'',
     [],
     ''# Start nginx'',
     ''CMD ["nginx", "-g", "daemon off;"]'']\<close>

text \<open>\<open>_generate_nextjs_dockerfile\<close> (lines 202 to 256 of the source).\<close>

definition generate_nextjs_dockerfile :: "ProjectAnalysis \<Rightarrow> string \<Rightarrow> string" where
  \<open>generate_nextjs_dockerfile analysis project_path = unlines
    [''# Multi-stage build for Next.js app'',
     ''FROM node:18-alpine AS base'',
     [],
     ''# Install dependencies only when needed'',
     ''FROM base AS deps'',
     ''RUN apk add --no-cache libc6-compat'',
     ''WORKDIR /app'',
     [],
     ''# Copy package files'',
     ''COPY package*.json ./'',
     ''RUN npm ci --only=production'',
     [],
     ''# Rebuild the source code only when needed'',
     ''FROM base AS builder'',
     ''WORKDIR /app'',
     ''COPY --from=deps /app/node_modules ./node_modules'',
     ''COPY . .'',
     [],
     ''# Build the app'',
     ''RUN npm run build'',
     [],
     ''# Production image, copy all the files and run next'',
     ''FROM base AS runner'',
     ''WORKDIR /app'',
     [],
     ''ENV NODE_ENV production'',
     [],
     ''RUN addgroup --system --gid 1001 nodejs'',
     ''RUN adduser --system --uid 1001 nextjs'',
     [],
     ''COPY --from=builder /app/public ./public'',
     [],
     ''# Set the correct permission for prerender cache'',
     ''RUN mkdir .next'',
     ''RUN chown nextjs:nodejs .next'',
     [],
     ''# Automatically leverage output traces to reduce image size'',
     ''COPY --from=builder --chown=nextjs:nodejs /app/.next/standalone ./'',
     ''COPY --from=builder --chown=nextjs:nodejs /app/.next/static ./.next/static'',
     [],
     ''USER nextjs'',
     [],
     ''EXPOSE '' @ str_int (port analysis),
     [],
     ''ENV PORT '' @ str_int (port analysis),
     ''ENV HOSTNAME "0.0.0.0"'',
     [],
     ''# Health check'',
     ''HEALTHCHECK --interval=30s --timeout=3s --start-period=5s --retries=3 '' @ [CHR 0x5C],
     ''    CMD curl -f http://localhost:'' @ str_int (port analysis) @ ''/api/health || exit 1'',
     [],
     ''CMD ["node", "server.js"]'']\<close>

text \<open>\<open>_generate_nuxt_dockerfile\<close> (lines 258 to 304 of the source).\<close>

definition generate_nuxt_dockerfile :: "ProjectAnalysis \<Rightarrow> string \<Rightarrow> string" where
  \<open>generate_nuxt_dockerfile analysis project_path = unlines
    [''# Multi-stage build for Nuxt.js app'',
     ''FROM node:18-alpine AS base'',
     [],
     ''# Install dependencies only when needed'',
     ''FROM base AS deps'',
     ''RUN apk add --no-cache libc6-compat'',
     ''WORKDIR /app'',
     [],
     ''# Copy package files'',
     ''COPY package*.json ./'',
     ''RUN npm ci --only=production'',
     [],
     ''# Rebuild the source code only when needed'',
     ''FROM base AS builder'',
     ''WORKDIR /app'',
     ''COPY --from=deps /app/node_modules ./node_modules'',
     ''COPY . .'',
     [],
     ''# Build the app'',
     ''RUN npm run build'',
     [],
     ''# Production image, copy all the files and run nuxt'',
     ''FROM base AS runner'',
     ''WORKDIR /app'',
     [],
     ''ENV NODE_ENV production'',
     [],
     ''RUN addgroup --system --gid 1001 nodejs'',
     ''RUN adduser --system --uid 1001 nuxtjs'',
     [],
     ''COPY --from=builder --chown=nuxtjs:nodejs /app/.output ./.output'',
     [],
     ''USER nuxtjs'',
     [],
     ''EXPOSE '' @ str_int (port analysis),
     [],
     ''ENV PORT '' @ str_int (port analysis),
     ''ENV HOSTNAME "0.0.0.0"'',
     [],
     ''# Health check'',
     ''HEALTHCHECK --interval=30s --timeout=3s --start-period=5s --retries=3 '' @ [CHR 0x5C],
     ''    CMD curl -f http://localhost:'' @ str_int (port analysis) @ ''/ || exit 1'',
     [],
     ''CMD ["node", ".output/server/index.mjs"]'']\<close>

text \<open>\<open>_generate_svelte_dockerfile\<close> (lines 306 to 343 of the source).\<close>

definition generate_svelte_dockerfile :: "ProjectAnalysis \<Rightarrow> string \<Rightarrow> string" where
  \<open>generate_svelte_dockerfile analysis project_path = unlines
    [''# Multi-stage build for Svelte app'',
     ''FROM node:18-alpine AS builder'',
     [],
     ''WORKDIR /app'',
     [],
     ''# Copy package files'',
     ''COPY package*.json ./'',
     [],
     ''# Install dependencies'',
     ''RUN npm ci --only=production'',
     [],
     ''# Copy source code'',
     ''COPY . .'',
     [],
     ''# Build the app'',
     ''RUN npm run build'',
     [],
     ''# Production stage'',
     ''FROM nginx:alpine'',
     [],
     ''# Copy built app to nginx'',
     ''COPY --from=builder /app/build /usr/share/nginx/html'',
     [],
     ''# Copy nginx configuration'',
     ''COPY nginx.conf /etc/nginx/nginx.conf'',
     [],
     ''# Expose port'',
     ''EXPOSE '' @ str_int (port analysis),
     [],
     ''# Health check'',
     ''HEALTHCHECK --interval=30s --timeout=3s --start-period=5s --retries=3 '' @ [CHR 0x5C],
     ''    CMD curl -f http://localhost:'' @ str_int (port analysis) @ ''/ || exit 1'',
     [],
     ''# Start nginx'',
     ''CMD ["nginx", "-g", "daemon off;"]'']\<close>

text \<open>\<open>_generate_python_dockerfile\<close> (lines 345 to 387 of the source).\<close>

definition generate_python_dockerfile :: "ProjectAnalysis \<Rightarrow> string \<Rightarrow> string" where
  \<open>generate_python_dockerfile analysis project_path = unlines
    [''# Multi-stage build for Python app'',
     ''FROM python:3.11-slim AS builder'',
     [],
     ''# Set working directory'',
     ''WORKDIR /app'',
     [],
     ''# Install system dependencies'',
     ''RUN apt-get update && apt-get install -y '' @ [CHR 0x5C],
     ''    gcc '' @ [CHR 0x5C],
     ''    && rm -rf /var/lib/apt/lists/*'',
     [],
     ''# Copy requirements and install Python dependencies'',
     ''COPY requirements.txt .'',
     ''RUN pip install --no-cache-dir --user -r requirements.txt'',
     [],
     ''# Production stage'',
     ''FROM python:3.11-slim'',
     [],
     ''# Set working directory'',
     ''WORKDIR /app'',
     [],
     ''# Copy Python dependencies from builder'',
     ''COPY --from=builder /root/.local /root/.local'',
     [],
     ''# Copy application code'',
     ''COPY . .'',
     [],
     ''# Set environment variables'',
     ''ENV PATH=/root/.local/bin:$PATH'',
     ''ENV PYTHONPATH=/app'',
     [],
     ''# Expose port'',
     ''EXPOSE '' @ str_int (port analysis),
     [],
     ''# Health check'',
     ''HEALTHCHECK --interval=30s --timeout=3s --start-period=5s --retries=3 '' @ [CHR 0x5C],
     ''    CMD curl -f http://localhost:'' @ str_int (port analysis) @ ''/health || exit 1'',
     [],
     ''# Run the application'',
     ''CMD ["python", "main.py"]'']\<close>

text \<open>\<open>_generate_java_dockerfile\<close> (lines 389 to 420 of the source).\<close>

definition generate_java_dockerfile :: "ProjectAnalysis \<Rightarrow> string \<Rightarrow> string" where
  \<open>generate_java_dockerfile analysis project_path = unlines
    [''# Multi-stage build for Java app'',
     ''FROM openjdk:17-jdk-slim AS builder'',
     [],
     ''WORKDIR /app'',
     [],
     ''# Copy build files'',
     ''COPY pom.xml .'',
     ''COPY src ./src'',
     [],
     ''# Build the application'',
     ''RUN mvn clean package -DskipTests'',
     [],
     ''# Production stage'',
     ''FROM openjdk:17-jre-slim'',
     [],
     ''WORKDIR /app'',
     [],
     ''# Copy the built jar'',
     ''COPY --from=builder /app/target/*.jar app.jar'',
     [],
     ''# Expose port'',
     ''EXPOSE '' @ str_int (port analysis),
     [],
     ''# Health check'',
     ''HEALTHCHECK --interval=30s --timeout=3s --start-period=5s --retries=3 '' @ [CHR 0x5C],
     ''    CMD curl -f http://localhost:'' @ str_int (port analysis) @ ''/actuator/health || exit 1'',
     [],
     ''# Run the application'',
     ''CMD ["java", "-jar", "app.jar"]'']\<close>

text \<open>\<open>_generate_go_dockerfile\<close> (lines 422 to 459 of the source).\<close>

definition generate_go_dockerfile :: "ProjectAnalysis \<Rightarrow> string \<Rightarrow> string" where
  \<open>generate_go_dockerfile analysis project_path = unlines
    [''# Multi-stage build for Go app'',
     ''FROM golang:1.21-alpine AS builder'',
     [],
     ''WORKDIR /app'',
     [],
     ''# Copy go mod files'',
     ''COPY go.mod go.sum ./'',
     [],
     ''# Download dependencies'',
     ''RUN go mod download'',
     [],
     ''# Copy source code'',
     ''COPY . .'',
     [],
     ''# Build the application'',
     ''RUN CGO_ENABLED=0 GOOS=linux go build -a -installsuffix cgo -o main .'',
     [],
     ''# Production stage'',
     ''FROM alpine:latest'',
     [],
     ''RUN apk --no-cache add ca-certificates'',
     ''WORKDIR /root/'',
     [],
     ''# Copy the binary'',
     ''COPY --from=builder /app/main .'',
     [],
     ''# Expose port'',
     ''EXPOSE '' @ str_int (port analysis),
     [],
     ''# Health check'',
     ''HEALTHCHECK --interval=30s --timeout=3s --start-period=5s --retries=3 '' @ [CHR 0x5C],
     ''    CMD curl -f http://localhost:'' @ str_int (port analysis) @ ''/health || exit 1'',
     [],
     ''# Run the application'',
     ''CMD ["./main"]'']\<close>

text \<open>\<open>_generate_rust_dockerfile\<close> (lines 461 to 502 of the source).\<close>

definition generate_rust_dockerfile :: "ProjectAnalysis \<Rightarrow> string \<Rightarrow> string" where
  \<open>generate_rust_dockerfile analysis project_path = unlines
    [''# Multi-stage build for Rust app'',
     ''FROM rust:1.75-slim AS builder'',
     [],
     ''WORKDIR /app'',
     [],
     ''# Copy Cargo files'',
     ''COPY Cargo.toml Cargo.lock ./'',
     [],
     ''# Build dependencies'',
     ''RUN cargo build --release'',
     [],
     ''# Copy source code'',
     ''COPY src ./src'',
     [],
     ''# Build the application'',
     ''RUN cargo build --release'',
     [],
     ''# Production stage'',
     ''FROM debian:bookworm-slim'',
     [],
     ''WORKDIR /app'',
     [],
     ''# Install runtime dependencies'',
     ''RUN apt-get update && apt-get install -y '' @ [CHR 0x5C],
     ''    ca-certificates '' @ [CHR 0x5C],
     ''    && rm -rf /var/lib/apt/lists/*'',
     [],
     ''# Copy the binary'',
     ''COPY --from=builder /app/target/release/app .'',
     [],
     ''# Expose port'',
     ''EXPOSE '' @ str_int (port analysis),
     [],
     ''# Health check'',
     ''HEALTHCHECK --interval=30s --timeout=3s --start-period=5s --retries=3 '' @ [CHR 0x5C],
     ''    CMD curl -f http://localhost:'' @ str_int (port analysis) @ ''/health || exit 1'',
     [],
     ''# Run the application'',
     ''CMD ["./app"]'']\<close>

text \<open>\<open>_generate_php_dockerfile\<close> (lines 504 to 553 of the source).\<close>

definition generate_php_dockerfile :: "ProjectAnalysis \<Rightarrow> string \<Rightarrow> string" where
  \<open>generate_php_dockerfile analysis project_path = unlines
    [''# Multi-stage build for PHP app'',
     ''FROM php:8.2-fpm-alpine AS builder'',
     [],
     ''WORKDIR /app'',
     [],
     ''# Install system dependencies'',
     ''RUN apk add --no-cache '' @ [CHR 0x5C],
     ''    nginx '' @ [CHR 0x5C],
     ''    supervisor'',
     [],
     ''# Install PHP extensions'',
     ''RUN docker-php-ext-install pdo pdo_mysql'',
     [],
     ''# Copy application code'',
     ''COPY . .'',
     [],
     ''# Install Composer dependencies'',
     ''COPY composer.json composer.lock ./'',
     ''RUN curl -sS https://getcomposer.org/installer | php -- --install-dir=/usr/local/bin --filename=composer'',
     ''RUN composer install --no-dev --optimize-autoloader'',
     [],
     ''# Production stage'',
     ''FROM php:8.2-fpm-alpine'',
     [],
     ''WORKDIR /app'',
     [],
     ''# Install nginx and supervisor'',
     ''RUN apk add --no-cache nginx supervisor'',
     [],
     ''# Copy application code'',
     ''COPY --from=builder /app .'',
     [],
     ''# Copy nginx configuration'',
     ''COPY nginx.conf /etc/nginx/nginx.conf'',
     [],
     ''# Copy supervisor configuration'',
     ''COPY supervisord.conf /etc/supervisor/conf.d/supervisord.conf'',
     [],
     ''# Expose port'',
     ''EXPOSE '' @ str_int (port analysis),
     [],
     ''# Health check'',
     ''HEALTHCHECK --interval=30s --timeout=3s --start-period=5s --retries=3 '' @ [CHR 0x5C],
     ''    CMD curl -f http://localhost:'' @ str_int (port analysis) @ ''/ || exit 1'',
     [],
     ''# Start services'',
     ''CMD ["/usr/bin/supervisord", "-c", "/etc/supervisor/conf.d/supervisord.conf"]'']\<close>

text \<open>\<open>_generate_static_dockerfile\<close> (lines 555 to 575 of the source).\<close>

definition generate_static_dockerfile :: "ProjectAnalysis \<Rightarrow> string \<Rightarrow> string" where
  \<open>generate_static_dockerfile analysis project_path = unlines
    [''# Static site Dockerfile'',
     ''FROM nginx:alpine'',
     [],
     ''# Copy static files'',
     ''COPY . /usr/share/nginx/html'',
     [],
     ''# Copy nginx configuration'',
     ''COPY nginx.conf /etc/nginx/nginx.conf'',
     [],
     ''# Expose port'',
     ''EXPOSE '' @ str_int (port analysis),
     [],
     ''# Health check'',
     ''HEALTHCHECK --interval=30s --timeout=3s --start-period=5s --retries=3 '' @ [CHR 0x5C],
     ''    CMD curl -f http://localhost:'' @ str_int (port analysis) @ ''/ || exit 1'',
     [],
     ''# Start nginx'',
     ''CMD ["nginx", "-g", "daemon off;"]'']\<close>

text \<open>\<open>_generate_generic_dockerfile\<close> (lines 577 to 596 of the source).\<close>

definition generate_generic_dockerfile :: "ProjectAnalysis \<Rightarrow> string" where
  \<open>generate_generic_dockerfile analysis = unlines
    [''# Generic Dockerfile'',
     ''FROM '' @ base_image analysis,
     [],
     ''WORKDIR /app'',
     [],
     ''# Copy application code'',
     ''COPY . .'',
     [],
     ''# Expose port'',
     ''EXPOSE '' @ str_int (port analysis),
     [],
     ''# Health check'',
     ''HEALTHCHECK --interval=30s --timeout=3s --start-period=5s --retries=3 '' @ [CHR 0x5C],
     ''    CMD curl -f http://localhost:'' @ str_int (port analysis) @ ''/ || exit 1'',
     [],
     ''# Run the application'',
     ''CMD ["echo", "Please configure your application startup command"]'']\<close>

text \<open>
  \<open>self.dockerfile_templates\<close>: the generators, keyed by the value of a project type.
  The generic generator is not in the dict.
\<close>

definition dockerfile_templates :: "(string \<times> (ProjectAnalysis \<Rightarrow> string \<Rightarrow> string)) list" where
  "dockerfile_templates =
     [(''react'', generate_react_dockerfile),
      (''vue'', generate_vue_dockerfile),
      (''angular'', generate_angular_dockerfile),
      (''nextjs'', generate_nextjs_dockerfile),
      (''nuxt'', generate_nuxt_dockerfile),
      (''svelte'', generate_svelte_dockerfile),
      (''python'', generate_python_dockerfile),
      (''java'', generate_java_dockerfile),
      (''go'', generate_go_dockerfile),
      (''rust'', generate_rust_dockerfile),
      (''php'', generate_php_dockerfile),
      (''static'', generate_static_dockerfile)]"

text \<open>
  \<open>_generate_dockerfile\<close>, which \<open>containerize_project\<close> calls for the
  \<open>dockerfile\<close> entry of its result.
\<close>

definition generate_dockerfile :: "ProjectAnalysis \<Rightarrow> string \<Rightarrow> string" where
  "generate_dockerfile analysis project_path =
     (let project_type = type_value (project_type analysis)
      in case map_of dockerfile_templates project_type of
           Some generator \<Rightarrow> generator analysis project_path
         | None \<Rightarrow> generate_generic_dockerfile analysis)"

text \<open>
  The strategy tag \<open>_determine_dockerfile_strategy\<close> of the project analyzer gives to a
  project type.
\<close>

definition determine_dockerfile_strategy :: "ProjectType \<Rightarrow> string" where
  "determine_dockerfile_strategy t =
     (if t \<in> set [REACT, VUE, ANGULAR] then ''multi-stage-build''
      else if t \<in> set [NEXTJS, NUXT] then ''nextjs-optimized''
      else if t = PYTHON then ''python-optimized''
      else if t = JAVA then ''java-optimized''
      else if t = GO then ''go-optimized''
      else if t = RUST then ''rust-optimized''
      else ''simple'')"

text \<open>
  The selection as the specification words it, "selecting a generator function keyed by
  dockerfileStrategy; unknown strategies fall back to a generic single-stage template":
  the same lookup with the strategy tag as the key. It is here to be compared with
  \<open>generate_dockerfile\<close>.
\<close>

definition generate_dockerfile_by_strategy :: "ProjectAnalysis \<Rightarrow> string \<Rightarrow> string" where
  "generate_dockerfile_by_strategy analysis project_path =
     (case map_of dockerfile_templates (dockerfile_strategy analysis) of
        Some generator \<Rightarrow> generator analysis project_path
      | None \<Rightarrow> generate_generic_dockerfile analysis)"

text \<open>
  The project types that have no generator in \<open>dockerfile_templates\<close>.
\<close>

definition types_without_generator :: "ProjectType list" where
  "types_without_generator = [VITE, WEBPACK, DOCUSAURUS, UNKNOWN]"

text \<open>
  A profile as \<open>analyze_project\<close> builds it for a React tree (port and base image from
  the catalog, strategy from \<open>_determine_dockerfile_strategy\<close>), and one of a type
  without generator.
\<close>

definition react_profile :: ProjectAnalysis where
  "react_profile =
     \<lparr>project_type = REACT, framework_version = None, package_manager = ''npm'',
      build_command = Some ''npm run build'', output_dir = Some ''dist'',
      dependencies = [''react'', ''react-dom''],
      environment_vars = [(''NODE_ENV'', ''production''), (''PORT'', ''3000'')],
      port = 3000,
      health_check = Some \<lparr>hc_test = ''curl -f http://localhost:3000/ || exit 1'',
        hc_interval = ''30s'', hc_timeout = ''10s'', hc_retries = 3\<rparr>,
      dockerfile_strategy = determine_dockerfile_strategy REACT,
      base_image = ''node:18-alpine'', confidence_score = 9 / 10\<rparr>"

definition vue_profile :: ProjectAnalysis where
  "vue_profile =
     react_profile\<lparr>project_type := VUE, dependencies := [''vue''], port := 8080,
       dockerfile_strategy := determine_dockerfile_strategy VUE\<rparr>"

definition vite_profile :: ProjectAnalysis where
  "vite_profile = react_profile\<lparr>project_type := VITE, dockerfile_strategy := ''simple''\<rparr>"

section \<open>Deployment pipeline (app/api/v1/endpoints/deployment.py)\<close>

subsection \<open>The store\<close>

text \<open>
  What the success branch stores under the key \<open>project_analysis\<close> of a deployment.
\<close>

record analysis_summary =
  sa_type :: string
  sa_framework_version :: "string option"
  sa_package_manager :: string
  sa_port :: int
  sa_base_image :: string
  sa_confidence_score :: rat

text \<open>
  The dict \<open>deployment_data\<close> that \<open>enhanced_deployment\<close> creates, one field per key
  (the key \<open>project_type\<close> is the field \<open>d_project_type\<close>). A timestamp
  \<open>datetime.utcnow().isoformat()\<close> is the reading of a clock, a natural number here; a
  log line \<open>f"[{timestamp}] {message}"\<close> is kept as the pair of its timestamp and its
  message. The key \<open>project_analysis\<close> is absent (\<open>None\<close>) until the success branch
  sets it.
\<close>

record deployment_data =
  deployment_id :: string
  project_name :: string
  d_project_type :: ProjectType
  environment :: string
  status :: string
  created_at :: nat
  updated_at :: nat
  options :: "(string \<times> string) list"
  logs :: "(nat \<times> string) list"
  errors :: "string list"
  resources_created :: "string list"
  resources_failed :: "string list"
  monitoring_enabled :: bool
  url :: "string option"
  metrics_url :: "string option"
  logs_url :: "string option"
  project_analysis :: "analysis_summary option"

text \<open>
  The module keeps \<open>deployments\<close>, a dict from deployment id to the dict object of the
  deployment. The background task also holds such an object in a local variable and
  mutates it directly, so objects live in a heap and the dict maps an id to a reference.
  \<open>utc\<close> is the clock: the value \<open>datetime.utcnow()\<close> reads next.
\<close>

record world =
  deployments :: "string \<rightharpoonup> nat"
  heap :: "deployment_data list"
  utc :: nat

text \<open>The fields of \<open>EnhancedDeploymentRequest\<close> that the endpoints read.\<close>

record EnhancedDeploymentRequest =
  req_project_name :: string
  req_project_type :: ProjectType
  req_environment :: string
  req_options :: "(string \<times> string) list option"
  enable_containerization :: bool
  enable_kubernetes :: bool
  enable_monitoring :: bool

datatype http_error = HTTP_404_NOT_FOUND string

subsection \<open>Request handlers\<close>

text \<open>
  \<open>enhanced_deployment\<close>: \<open>new_id\<close> is the value of \<open>str(uuid.uuid4())\<close>. The handler
  stores a new object under it and schedules \<open>process_enhanced_deployment\<close>; of the
  response the model keeps the id.
\<close>

definition enhanced_deployment :: "string \<Rightarrow> EnhancedDeploymentRequest \<Rightarrow> world \<Rightarrow> string \<times> world" where
  "enhanced_deployment new_id request w =
     (let current_time = utc w;
          deployment_data =
            \<lparr>deployment_id = new_id, project_name = req_project_name request,
             d_project_type = req_project_type request, environment = req_environment request,
             status = ''pending'', created_at = current_time, updated_at = current_time,
             options = (case req_options request of None \<Rightarrow> [] | Some os \<Rightarrow> os),
             logs = [], errors = [], resources_created = [], resources_failed = [],
             monitoring_enabled = enable_monitoring request,
             url = None, metrics_url = None, logs_url = None, project_analysis = None\<rparr>
      in (new_id,
          w\<lparr>deployments := (deployments w)(new_id \<mapsto> length (heap w)),
            heap := heap w @ [deployment_data],
            utc := utc w + 1\<rparr>))"

text \<open>\<open>update_deployment_status\<close>. The parameter \<open>progress\<close> is not used by the source.\<close>

definition update_deployment_status :: "string \<Rightarrow> string \<Rightarrow> int \<Rightarrow> string \<Rightarrow> world \<Rightarrow> world" where
  "update_deployment_status did new_status progress message w =
     (case deployments w did of
        None \<Rightarrow> w
      | Some r \<Rightarrow>
          w\<lparr>heap := (heap w)[r := (heap w ! r)
                 \<lparr>status := new_status, updated_at := utc w,
                  logs := logs (heap w ! r) @ [(utc w + 1, message)]\<rparr>],
            utc := utc w + 2\<rparr>)"





text \<open>\<open>delete_deployment\<close>: the response is a message.\<close>

definition delete_deployment :: "string \<Rightarrow> world \<Rightarrow> http_error + (string \<times> world)" where
  "delete_deployment did w =
     (case deployments w did of
        None \<Rightarrow> Inl (HTTP_404_NOT_FOUND ''Deployment not found'')
      | Some r \<Rightarrow>
          Inr (''Deployment '' @ did @ '' deleted successfully'',
               w\<lparr>deployments := (deployments w)(did := None)\<rparr>))"

text \<open>
  \<open>rollback_deployment\<close>: \<open>new_id\<close> is the value of \<open>str(uuid.uuid4())\<close>. The handler
  reads the clock once and schedules \<open>process_rollback\<close>.
\<close>

record RollbackRequest =
  rb_deployment_id :: string
  target_version :: "string option"
  force :: bool
  preserve_data :: bool




subsection \<open>The background task\<close>

text \<open>
  What \<open>process_enhanced_deployment\<close> awaits from outside this module.
  \<open>analyze_project\<close> reads the file system and raises when the project path does not
  exist; \<open>Inl\<close> carries \<open>str(e)\<close> of the exception raised. \<open>containerize_project\<close>
  is given the same freedom, although nothing in its body raises: its result is thrown
  away by the task. \<open>format_2f\<close> is the rendering of a float with \<open>:.2f\<close> in a log
  message.
\<close>

record env =
  analyze_project :: "string \<Rightarrow> string + ProjectAnalysis"
  containerize_project :: "ProjectAnalysis \<Rightarrow> string \<Rightarrow> string + unit"
  format_2f :: "rat \<Rightarrow> string"

text \<open>
  The local variables of the task that are assigned inside the \<open>try\<close> block and read
  later: \<open>deployment\<close> (a reference) and \<open>project_analysis\<close>. \<open>None\<close> is a variable
  that is not bound yet; reading it raises UnboundLocalError.
\<close>

record locals =
  l_deployment :: "nat option"
  l_project_analysis :: "ProjectAnalysis option"

type_synonym config = "locals \<times> world"

text \<open>A statement of the \<open>try\<close> block: it raises (\<open>Inl\<close> of \<open>str(e)\<close>) or completes.\<close>

type_synonym step = "config \<Rightarrow> string + config"

definition unbound_local :: "string \<Rightarrow> string" where
  "unbound_local v =
     ''cannot access local variable '' @ [CHR 0x27] @ v @ [CHR 0x27]
     @ '' where it is not associated with a value''"

text \<open>\<open>str(e)\<close> of the KeyError that \<open>deployments[deployment_id]\<close> raises.\<close>

definition key_error :: "string \<Rightarrow> string" where
  "key_error k = [CHR 0x27] @ k @ [CHR 0x27]"

text \<open>Reading \<open>project_analysis\<close> in an expression.\<close>

definition with_analysis :: "(ProjectAnalysis \<Rightarrow> 'a) \<Rightarrow> locals \<Rightarrow> string + 'a" where
  "with_analysis f l =
     (case l_project_analysis l of
        None \<Rightarrow> Inl (unbound_local ''project_analysis'')
      | Some pa \<Rightarrow> Inr (f pa))"

text \<open>\<open>deployment = deployments[deployment_id]\<close>\<close>

definition bind_deployment :: "string \<Rightarrow> step" where
  "bind_deployment did = (\<lambda>(l, w).
     case deployments w did of
       None \<Rightarrow> Inl (key_error did)
     | Some r \<Rightarrow> Inr (l\<lparr>l_deployment := Some r\<rparr>, w))"

text \<open>
  \<open>await update_deployment_status(deployment_id, status, progress, message)\<close>, where the
  message is an expression over the locals.
\<close>

definition await_update :: "string \<Rightarrow> string \<Rightarrow> int \<Rightarrow> (locals \<Rightarrow> string + string) \<Rightarrow> step" where
  "await_update did new_status progress message = (\<lambda>(l, w).
     case message l of
       Inl e \<Rightarrow> Inl e
     | Inr m \<Rightarrow> Inr (l, update_deployment_status did new_status progress m w))"

text \<open>\<open>project_analysis = await project_analyzer.analyze_project(project_path)\<close>\<close>

definition await_analyze :: "env \<Rightarrow> string \<Rightarrow> step" where
  "await_analyze ev project_path = (\<lambda>(l, w).
     case analyze_project ev project_path of
       Inl e \<Rightarrow> Inl e
     | Inr pa \<Rightarrow> Inr (l\<lparr>l_project_analysis := Some pa\<rparr>, w))"

text \<open>\<open>await containerization_service.containerize_project(project_analysis, project_path)\<close>\<close>

definition await_containerize :: "env \<Rightarrow> string \<Rightarrow> step" where
  "await_containerize ev project_path = (\<lambda>(l, w).
     case l_project_analysis l of
       None \<Rightarrow> Inl (unbound_local ''project_analysis'')
     | Some pa \<Rightarrow>
         (case containerize_project ev pa project_path of
            Inl e \<Rightarrow> Inl e
          | Inr u \<Rightarrow> Inr (l, w)))"

text \<open>
  \<open>if project_analysis.build_command: await update_deployment_status(...)\<close>: an empty
  string is false like \<open>None\<close>.
\<close>

definition update_if_build_command :: "string \<Rightarrow> step" where
  "update_if_build_command did = (\<lambda>(l, w).
     case l_project_analysis l of
       None \<Rightarrow> Inl (unbound_local ''project_analysis'')
     | Some pa \<Rightarrow>
         (case build_command pa of
            None \<Rightarrow> Inr (l, w)
          | Some cmd \<Rightarrow>
              if cmd = [] then Inr (l, w)
              else Inr (l, update_deployment_status did ''building'' 45 (''Running: '' @ cmd) w)))"

text \<open>\<open>await simulate_delay(seconds)\<close>: the task sleeps.\<close>

definition simulate_delay :: "nat \<Rightarrow> step" where
  "simulate_delay seconds = (\<lambda>c. Inr c)"

text \<open>
  A statement that mutates the object held in \<open>deployment\<close>, such as
  \<open>deployment["resources_created"].extend(...)\<close> or \<open>deployment["url"] = ...\<close>; the
  change may be an expression over the locals.
\<close>

definition on_deployment :: "(locals \<Rightarrow> string + (deployment_data \<Rightarrow> deployment_data)) \<Rightarrow> step" where
  "on_deployment change = (\<lambda>(l, w).
     case l_deployment l of
       None \<Rightarrow> Inl (unbound_local ''deployment'')
     | Some r \<Rightarrow>
         (case change l of
            Inl e \<Rightarrow> Inl e
          | Inr g \<Rightarrow> Inr (l, w\<lparr>heap := (heap w)[r := g (heap w ! r)]\<rparr>)))"

definition extend_resources :: "string list \<Rightarrow> deployment_data \<Rightarrow> deployment_data" where
  "extend_resources rs d = d\<lparr>resources_created := resources_created d @ rs\<rparr>"

text \<open>The statements of the \<open>try\<close> block, in order.\<close>

definition body :: "string \<Rightarrow> EnhancedDeploymentRequest \<Rightarrow> env \<Rightarrow> step list" where
  "body did request ev =
     (let project_path = ''/tmp/projects/'' @ req_project_name request
      in
      [bind_deployment did,
       await_update did ''detecting'' 10 (\<lambda>l. Inr ''Analyzing project structure...''),
       await_analyze ev project_path,
       await_update did ''detecting'' 15
         (with_analysis (\<lambda>pa. ''Detected '' @ type_value (project_type pa)
            @ '' project (confidence: '' @ format_2f ev (confidence_score pa) @ '')''))]
      @ (if enable_containerization request then
           [await_update did ''containerizing'' 25 (\<lambda>l. Inr ''Generating Docker configuration...''),
            await_containerize ev project_path,
            await_update did ''containerizing'' 30
              (\<lambda>l. Inr ''Dockerfile and Docker Compose generated''),
            on_deployment (\<lambda>l. Inr (extend_resources
              [''Dockerfile'', ''docker-compose.yml'', ''docker-compose.prod.yml'', ''.dockerignore'']))]
         else [])
      @ [await_update did ''building'' 40
           (with_analysis (\<lambda>pa. ''Building '' @ type_value (project_type pa) @ '' project...'')),
         update_if_build_command did,
         simulate_delay 2,
         on_deployment (\<lambda>l. Inr (extend_resources [''Build artifacts'']))]
      @ (if enable_kubernetes request then
           [await_update did ''deploying'' 60 (\<lambda>l. Inr ''Deploying to Kubernetes...''),
            simulate_delay 3,
            on_deployment (\<lambda>l. Inr (extend_resources
              [''Kubernetes deployment'', ''Kubernetes service'', ''Kubernetes ingress'']))]
         else [])
      @ [await_update did ''deploying'' 70 (\<lambda>l. Inr ''Deploying to cloud infrastructure...''),
         simulate_delay 3,
         on_deployment (with_analysis (\<lambda>pa. extend_resources
           [''S3 bucket'', ''CloudFront distribution'',
            if type_value (project_type pa) = ''static'' then ''Lambda function''
            else ''ECS service'']))]
      @ (if enable_monitoring request then
           [await_update did ''configuring'' 80
              (\<lambda>l. Inr ''Setting up monitoring and observability...''),
            simulate_delay 2,
            on_deployment (\<lambda>l. Inr (extend_resources
              [''CloudWatch logs'', ''CloudWatch metrics'', ''CloudWatch alarms'']))]
         else [])
      @ [await_update did ''success'' 100 (\<lambda>l. Inr ''Deployment completed successfully''),
         on_deployment (\<lambda>l. Inr (\<lambda>d. d\<lparr>url :=
           Some (''https://'' @ req_project_name request @ ''.deployhub.com'')\<rparr>)),
         on_deployment (\<lambda>l. Inr (\<lambda>d. d\<lparr>metrics_url :=
           Some (''https://metrics.deployhub.com/'' @ did)\<rparr>)),
         on_deployment (\<lambda>l. Inr (\<lambda>d. d\<lparr>logs_url :=
           Some (''https://logs.deployhub.com/'' @ did)\<rparr>)),
         on_deployment (with_analysis (\<lambda>pa d. d\<lparr>project_analysis := Some
           \<lparr>sa_type = type_value (project_type pa),
            sa_framework_version = framework_version pa,
            sa_package_manager = package_manager pa,
            sa_port = port pa,
            sa_base_image = base_image pa,
            sa_confidence_score = confidence_score pa\<rparr>\<rparr>))])"

text \<open>
  The task runs on the event loop beside the request handlers. Only \<open>delete_deployment\<close>
  touches the record of another task's id, so the schedule of an execution is
  \<open>del_at\<close>: \<open>Some i\<close> when a delete request for this id is served just before
  statement number \<open>i\<close> of the \<open>try\<close> block, \<open>None\<close> when there is none.
\<close>

definition serve_delete :: "string \<Rightarrow> nat option \<Rightarrow> nat \<Rightarrow> config \<Rightarrow> config" where
  "serve_delete did del_at i = (\<lambda>(l, w).
     if del_at = Some i
     then (case delete_deployment did w of Inl err \<Rightarrow> (l, w) | Inr (msg, w') \<Rightarrow> (l, w'))
     else (l, w))"

text \<open>
  Running the statements from number \<open>i\<close> on: the configurations after each completed
  statement, the configuration in which the block ended (where the exception was raised,
  if one was), and the exception.
\<close>

fun run :: "string \<Rightarrow> nat option \<Rightarrow> nat \<Rightarrow> step list \<Rightarrow> config \<Rightarrow> config list \<times> config \<times> string option" where
  "run did del_at i [] c = ([], c, None)"
| "run did del_at i (st # sts) c =
     (let c1 = serve_delete did del_at i c
      in case st c1 of
           Inl e \<Rightarrow> ([], c1, Some e)
         | Inr c2 \<Rightarrow>
             (case run did del_at (Suc i) sts c2 of
                (tr, cf, x) \<Rightarrow> (c2 # tr, cf, x)))"

text \<open>
  The \<open>except Exception\<close> clause: the status update, then
  \<open>deployment["errors"].append(str(e))\<close>, which raises UnboundLocalError when
  \<open>deployment\<close> was never bound. The result is the world and the exception that escapes.
\<close>

definition handler :: "string \<Rightarrow> string \<Rightarrow> config \<Rightarrow> world \<times> string option" where
  "handler did e = (\<lambda>(l, w).
     let w1 = update_deployment_status did ''failed'' 0 (''Deployment failed: '' @ e) w
     in case l_deployment l of
          None \<Rightarrow> (w1, Some (unbound_local ''deployment''))
        | Some r \<Rightarrow>
            (w1\<lparr>heap := (heap w1)[r := (heap w1 ! r)\<lparr>errors := errors (heap w1 ! r) @ [e]\<rparr>]\<rparr>,
             None))"

text \<open>
  An execution of \<open>process_enhanced_deployment\<close>: \<open>trace\<close> holds the world at the start
  and after each completed statement of the \<open>try\<close> block, \<open>at_end\<close> the world in which
  the block ended, \<open>caught\<close> the exception the \<open>except\<close> clause caught, \<open>final\<close> the
  world when the task ends and \<open>escaped\<close> the exception that leaves the task.
\<close>

record outcome =
  trace :: "world list"
  at_end :: world
  caught :: "string option"
  final :: world
  escaped :: "string option"

definition process_enhanced_deployment ::
  "string \<Rightarrow> EnhancedDeploymentRequest \<Rightarrow> env \<Rightarrow> nat option \<Rightarrow> world \<Rightarrow> outcome" where
  "process_enhanced_deployment did request ev del_at w =
     (case run did del_at 0 (body did request ev)
             (\<lparr>l_deployment = None, l_project_analysis = None\<rparr>, w) of
        (tr, cf, x) \<Rightarrow>
          (case x of
             None \<Rightarrow>
               \<lparr>trace = w # map snd tr, at_end = snd cf, caught = None,
                final = snd cf, escaped = None\<rparr>
           | Some e \<Rightarrow>
               (case handler did e cf of
                  (w2, esc) \<Rightarrow>
                    \<lparr>trace = w # map snd tr, at_end = snd cf, caught = Some e,
                     final = w2, escaped = esc\<rparr>)))"

subsection \<open>The stage order\<close>

text \<open>
  The statuses in the order of the specification (the order of the keys of
  \<open>progress_map\<close>, without \<open>failed\<close>), and the transitions the specification allows:
  a terminal status stays; any other status moves to \<open>failed\<close> or to a stage that is not
  earlier in the order.
\<close>

definition stage_order :: "string list" where
  "stage_order =
     [''pending'', ''detecting'', ''containerizing'', ''building'', ''deploying'',
      ''configuring'', ''success'']"

fun index_of :: "'a \<Rightarrow> 'a list \<Rightarrow> nat" where
  "index_of x [] = 0"
| "index_of x (y # ys) = (if x = y then 0 else Suc (index_of x ys))"

definition stage_rank :: "string \<Rightarrow> nat" where
  "stage_rank s = index_of s stage_order"

definition terminal :: "string \<Rightarrow> bool" where
  "terminal s = (s = ''success'' \<or> s = ''failed'')"

definition forward :: "string \<Rightarrow> string \<Rightarrow> bool" where
  "forward a b =
     (if terminal a then b = a
      else b = ''failed'' \<or> (b \<in> set stage_order \<and> stage_rank a \<le> stage_rank b))"

text \<open>The statuses an object of the heap goes through in an execution.\<close>

definition status_trace :: "nat \<Rightarrow> outcome \<Rightarrow> string list" where
  "status_trace r out = map (\<lambda>w. status (heap w ! r)) (trace out @ [final out])"

subsection \<open>Sample data\<close>

definition demo_request :: EnhancedDeploymentRequest where
  "demo_request =
     \<lparr>req_project_name = ''demo'', req_project_type = REACT, req_environment = ''prod'',
      req_options = None, enable_containerization = True, enable_kubernetes = False,
      enable_monitoring = True\<rparr>"

definition empty_world :: world where
  "empty_world = \<lparr>deployments = Map.empty, heap = [], utc = 0\<rparr>"

text \<open>The world after the submission of \<open>demo_request\<close> under the id \<open>d1\<close>.\<close>

definition demo_world :: world where
  "demo_world = snd (enhanced_deployment ''d1'' demo_request empty_world)"

text \<open>
  An environment in which the project path does not exist, so that \<open>analyze_project\<close>
  raises FileNotFoundError, and one in which the analysis gives the React profile.
\<close>

definition missing_project_env :: env where
  "missing_project_env =
     \<lparr>analyze_project = (\<lambda>path. Inl (''Project path does not exist: '' @ path)),
      containerize_project = (\<lambda>pa path. Inr ()),
      format_2f = (\<lambda>x. ''0.90'')\<rparr>"

definition react_env :: env where
  "react_env =
     \<lparr>analyze_project = (\<lambda>path. Inr react_profile),
      containerize_project = (\<lambda>pa path. Inr ()),
      format_2f = (\<lambda>x. ''0.90'')\<rparr>"





subsection \<open>What a statement may do\<close>

text \<open>
  The properties of the pipeline are proved from a summary of each statement of the
  \<open>try\<close> block: the status it may write (\<open>eff\<close>), whether it may raise once both
  locals are bound (\<open>may_raise\<close>), and which local it binds.
\<close>

record label =
  eff :: "string option"
  may_raise :: bool
  binds_d :: bool
  binds_a :: bool

definition keeps :: label where
  "keeps = \<lparr>eff = None, may_raise = False, binds_d = False, binds_a = False\<rparr>"

definition sets :: "string \<Rightarrow> label" where
  "sets s = \<lparr>eff = Some s, may_raise = False, binds_d = False, binds_a = False\<rparr>"

definition raises :: label where
  "raises = \<lparr>eff = None, may_raise = True, binds_d = False, binds_a = False\<rparr>"

text \<open>The fields of a deployment that only \<open>update_deployment_status\<close> writes.\<close>

definition core :: "deployment_data \<Rightarrow> string \<times> nat \<times> (nat \<times> string) list" where
  "core d = (status d, updated_at d, logs d)"

definition step_spec :: "string \<Rightarrow> label \<Rightarrow> step \<Rightarrow> bool" where
  "step_spec did lab st =
     ((\<forall>l w l' w'. st (l, w) = Inr (l', w') \<longrightarrow>
         deployments w' = deployments w
       \<and> length (heap w') = length (heap w)
       \<and> (if binds_d lab then l_deployment l' = deployments w did \<and> l_deployment l' \<noteq> None
          else l_deployment l' = l_deployment l)
       \<and> (if binds_a lab then l_project_analysis l' \<noteq> None
          else l_project_analysis l' = l_project_analysis l)
       \<and> (\<forall>r. errors (heap w' ! r) = errors (heap w ! r))
       \<and> (\<forall>r. core (heap w' ! r) = core (heap w ! r)
             \<or> (deployments w did = Some r \<and> eff lab = Some (status (heap w' ! r)))))
      \<and> (\<forall>l w. \<not> may_raise lab \<longrightarrow> l_deployment l \<noteq> None \<longrightarrow> l_project_analysis l \<noteq> None
            \<longrightarrow> (\<exists>c'. st (l, w) = Inr c')))"

text \<open>A message or a change that reads no local but \<open>project_analysis\<close>.\<close>

definition reads_analysis_only :: "(locals \<Rightarrow> string + 'a) \<Rightarrow> bool" where
  "reads_analysis_only f = (\<forall>l. l_project_analysis l \<noteq> None \<longrightarrow> (\<exists>v. f l = Inr v))"

text \<open>A change of a deployment that leaves its status, timestamps, logs and errors alone.\<close>

definition frame_change :: "(locals \<Rightarrow> string + (deployment_data \<Rightarrow> deployment_data)) \<Rightarrow> bool" where
  "frame_change change =
     (\<forall>l g d. change l = Inr g \<longrightarrow> core (g d) = core d \<and> errors (g d) = errors d)"

text \<open>The summaries of the statements of \<open>body\<close>, in the same order.\<close>

definition body_labels :: "EnhancedDeploymentRequest \<Rightarrow> label list" where
  "body_labels request =
     [raises\<lparr>binds_d := True\<rparr>, sets ''detecting'', raises\<lparr>binds_a := True\<rparr>, sets ''detecting'']
     @ (if enable_containerization request
        then [sets ''containerizing'', raises, sets ''containerizing'', keeps] else [])
     @ [sets ''building'', sets ''building'', keeps, keeps]
     @ (if enable_kubernetes request then [sets ''deploying'', keeps, keeps] else [])
     @ [sets ''deploying'', keeps, keeps]
     @ (if enable_monitoring request then [sets ''configuring'', keeps, keeps] else [])
     @ [sets ''success'', keeps, keeps, keeps, keeps]"

text \<open>
  A list of summaries is in stage order from rank \<open>rho\<close> on: every status written is a
  stage not before the last one written, and once \<open>success\<close> (rank 6) may have been
  written, no statement raises; \<open>bd\<close> and \<open>ba\<close> say which locals are known to be bound.
\<close>

fun in_order :: "nat \<Rightarrow> bool \<Rightarrow> bool \<Rightarrow> label list \<Rightarrow> bool" where
  "in_order rho bd ba [] = True"
| "in_order rho bd ba (lab # labs) =
     ((case eff lab of None \<Rightarrow> True | Some s \<Rightarrow> s \<in> set stage_order \<and> rho \<le> stage_rank s)
      \<and> (rho < 6 \<or> (\<not> may_raise lab \<and> bd \<and> ba))
      \<and> in_order (case eff lab of None \<Rightarrow> rho | Some s \<Rightarrow> stage_rank s)
           (bd \<or> binds_d lab) (ba \<or> binds_a lab) labs)"

text \<open>The status of the heap object \<open>r\<close> in a configuration.\<close>

abbreviation status_at :: "nat \<Rightarrow> config \<Rightarrow> string" where
  "status_at r c \<equiv> status (heap (snd c) ! r)"


section \<open>Properties of the scaling decision engine\<close>

text \<open>
  Claim C3. For a snapshot that was obtained and carries \<open>current_capacity = c\<close>, the
  decision follows the three-way rule, in this order: CPU above 80 or memory above 85
  gives (up, min (2c) 20, 0.9); otherwise CPU below 20, memory below 30 and fewer than 10
  requests give (down, max (floor (c/2)) 1, 0.8); otherwise (none, c, 0.7). CPU, memory
  and request count are read with default 0.
\<close>

theorem scaling_decision_rule:
  assumes "m ''current_capacity'' = Some c"
  shows "analyze_scaling_metrics_on (Inr m) =
     (let cpu = dict_get m ''cpu_utilization'' 0;
          mem = dict_get m ''memory_utilization'' 0;
          req = dict_get m ''request_count'' 0
      in if cpu > 80 \<or> mem > 85 then
           \<lparr>direction = ''up'', target_capacity = min (c * 2) 20,
            reason = High_utilization cpu mem, confidence = 9 / 10, metrics = m\<rparr>
         else if cpu < 20 \<and> mem < 30 \<and> req < 10 then
           \<lparr>direction = ''down'', target_capacity = max (of_int \<lfloor>c / 2\<rfloor>) 1,
            reason = Low_utilization cpu mem, confidence = 8 / 10, metrics = m\<rparr>
         else
           \<lparr>direction = ''none'', target_capacity = c,
            reason = Normal_range, confidence = 7 / 10, metrics = m\<rparr>)"
  using assms by (simp add: analyze_scaling_metrics_on_def dict_get_def Let_def)

text \<open>
  The three examples of the specification, each obtained from the rule:
  (cpu 85, memory 50, capacity 2) gives (up, 4, 0.9); (cpu 5, memory 10, requests 0,
  capacity 4) gives (down, 2, 0.8); (cpu 50, memory 50, requests 50, capacity 3) gives
  (none, 3, 0.7).
\<close>

theorem scaling_decision_rule_witness:
  "snapshot_up ''current_capacity'' = Some 2
   \<and> snapshot_down ''current_capacity'' = Some 4
   \<and> snapshot_none ''current_capacity'' = Some 3
   \<and> analyze_scaling_metrics_on (Inr snapshot_up) =
        \<lparr>direction = ''up'', target_capacity = 4, reason = High_utilization 85 50,
         confidence = 9 / 10, metrics = snapshot_up\<rparr>
   \<and> analyze_scaling_metrics_on (Inr snapshot_down) =
        \<lparr>direction = ''down'', target_capacity = 2, reason = Low_utilization 5 10,
         confidence = 8 / 10, metrics = snapshot_down\<rparr>
   \<and> analyze_scaling_metrics_on (Inr snapshot_none) =
        \<lparr>direction = ''none'', target_capacity = 3, reason = Normal_range,
         confidence = 7 / 10, metrics = snapshot_none\<rparr>"
proof -
  have u: "snapshot_up ''current_capacity'' = Some 2"
    by (simp add: snapshot_up_def)
  have d: "snapshot_down ''current_capacity'' = Some 4"
    by (simp add: snapshot_down_def)
  have n: "snapshot_none ''current_capacity'' = Some 3"
    by (simp add: snapshot_none_def)
  have "analyze_scaling_metrics_on (Inr snapshot_up) =
        \<lparr>direction = ''up'', target_capacity = 4, reason = High_utilization 85 50,
         confidence = 9 / 10, metrics = snapshot_up\<rparr>"
    using scaling_decision_rule [of snapshot_up 2, OF u] by (simp add: snapshot_up_def dict_get_def)
  moreover have "analyze_scaling_metrics_on (Inr snapshot_down) =
        \<lparr>direction = ''down'', target_capacity = 2, reason = Low_utilization 5 10,
         confidence = 8 / 10, metrics = snapshot_down\<rparr>"
    using scaling_decision_rule [of snapshot_down 4, OF d] by (simp add: snapshot_down_def dict_get_def)
  moreover have "analyze_scaling_metrics_on (Inr snapshot_none) =
        \<lparr>direction = ''none'', target_capacity = 3, reason = Normal_range,
         confidence = 7 / 10, metrics = snapshot_none\<rparr>"
    using scaling_decision_rule [of snapshot_none 3, OF n] by (simp add: snapshot_none_def dict_get_def)
  ultimately show ?thesis using u d n by simp
qed

text \<open>
  Claim C7, as stated: every missing field, \<open>current_capacity\<close> included, counts as 0.
  It fails: for the snapshot that holds only a CPU utilisation of 90 the code doubles a
  capacity of 1 and answers 2, where a capacity of 0 gives 0.
\<close>

theorem missing_capacity_not_zero_counterexample:
  "target_capacity (analyze_scaling_metrics_on (Inr [''cpu_utilization'' \<mapsto> 90])) = 2
   \<and> target_capacity
        (analyze_scaling_metrics_on (Inr (with_defaults 0 [''cpu_utilization'' \<mapsto> 90]))) = 0"
  by (simp add: analyze_scaling_metrics_on_def with_defaults_def dict_get_def Let_def)

text \<open>
  Claim C7, amended: a missing \<open>cpu_utilization\<close>, \<open>memory_utilization\<close> or
  \<open>request_count\<close> is treated as 0 and a missing \<open>current_capacity\<close> as 1: the
  decision on a snapshot is the decision on the snapshot with these values filled in
  (the \<open>metrics\<close> field echoes the snapshot as it was received).
\<close>

theorem missing_fields_defaults:
  "analyze_scaling_metrics_on (Inr m) =
     (analyze_scaling_metrics_on (Inr (with_defaults 1 m)))\<lparr>metrics := m\<rparr>"
  by (simp add: analyze_scaling_metrics_on_def with_defaults_def dict_get_def Let_def)

text \<open>
  Claim C8. When the retrieval of the metrics fails (a client call raises inside
  \<open>get_cloudwatch_metrics\<close>), the caller of \<open>analyze_scaling_metrics\<close> gets a decision
  and no exception, but not the degraded one: \<open>get_cloudwatch_metrics\<close> has already
  turned the failure into the empty snapshot, on which the rule answers (down, 1, 0.8)
  with the reason of low utilisation.
\<close>

theorem retrieval_failure_scales_down:
  assumes "get_cloudwatch_metrics_try cl resource_id resource_type = Inl e"
  shows "analyze_scaling_metrics cl resource_id resource_type =
     \<lparr>direction = ''down'', target_capacity = 1, reason = Low_utilization 0 0,
      confidence = 8 / 10, metrics = Map.empty\<rparr>"
  using assms
  by (simp add: analyze_scaling_metrics_def get_cloudwatch_metrics_def
      analyze_scaling_metrics_on_def dict_get_def Let_def)

theorem retrieval_failure_scales_down_witness:
  "get_cloudwatch_metrics_try failing_aws ''web'' ''ecs'' = Inl ''EndpointConnectionError''
   \<and> analyze_scaling_metrics failing_aws ''web'' ''ecs'' =
       \<lparr>direction = ''down'', target_capacity = 1, reason = Low_utilization 0 0,
        confidence = 8 / 10, metrics = Map.empty\<rparr>
   \<and> analyze_scaling_metrics_on (Inl ''EndpointConnectionError'') =
       \<lparr>direction = ''none'', target_capacity = 1,
        reason = Analysis_failed ''EndpointConnectionError'',
        confidence = 0, metrics = Map.empty\<rparr>"
proof -
  have h: "get_cloudwatch_metrics_try failing_aws ''web'' ''ecs'' = Inl ''EndpointConnectionError''"
    by (simp add: get_cloudwatch_metrics_try_def failing_aws_def)
  show ?thesis
    using h retrieval_failure_scales_down [OF h]
    by (simp add: analyze_scaling_metrics_on_def)
qed

section \<open>Properties of the rounding to the nearest double\<close>

lemma bitlen_pos: "0 < n \<Longrightarrow> 1 \<le> bitlen n"
  using bitlen_eq_zero_iff [of n] bitlen_nonneg [of n] by linarith

lemma floor_log2_bounds:
  assumes "0 < x"
  shows "2 powi floor_log2 x \<le> x" and "x < 2 powi (floor_log2 x + 1)"
proof -
  have "2 powi floor_log2 x \<le> x \<and> x < 2 powi (floor_log2 x + 1)"
  proof (cases "1 \<le> x")
    case True
    define n where "n = \<lfloor>x\<rfloor>"
    have n: "1 \<le> n" using True by (simp add: n_def le_floor_iff)
    have b: "1 \<le> bitlen n" using n by (intro bitlen_pos) simp
    have fl: "floor_log2 x = bitlen n - 1" using True by (simp add: floor_log2_def n_def)
    have bb: "2 ^ nat (bitlen n - 1) \<le> n" "n < 2 ^ nat (bitlen n)"
      using bitlen_bounds [of n] n by auto
    have "(2::rat) powi (bitlen n - 1) = of_int (2 ^ nat (bitlen n - 1))"
      using b by (simp add: power_int_nonneg_exp)
    also have "\<dots> \<le> of_int n" using bb(1) by (subst of_int_le_iff)
    also have "\<dots> \<le> x" by (simp add: n_def)
    finally have lo: "2 powi (bitlen n - 1) \<le> x" .
    have "x < of_int (n + 1)" unfolding n_def by linarith
    also have "\<dots> \<le> of_int (2 ^ nat (bitlen n))" using bb(2) by (subst of_int_le_iff) simp
    also have "\<dots> = 2 powi (bitlen n)" using b by (simp add: power_int_nonneg_exp)
    finally have "x < 2 powi (bitlen n)" .
    then show ?thesis using lo fl by simp
  next
    case False
    define y where "y = 1 / x"
    have y: "1 < y" using False assms by (simp add: y_def)
    have x: "x = 1 / y" by (simp add: y_def)
    define m where "m = \<lceil>y\<rceil> - 1"
    have m: "1 \<le> m" using y unfolding m_def by linarith
    have my: "of_int m < y" "y \<le> of_int (m + 1)" unfolding m_def by linarith+
    have b: "1 \<le> bitlen m" using m by (intro bitlen_pos) simp
    have fl: "floor_log2 x = - bitlen m" using False by (simp add: floor_log2_def m_def y_def)
    have bb: "2 ^ nat (bitlen m - 1) \<le> m" "m < 2 ^ nat (bitlen m)"
      using bitlen_bounds [of m] m by auto
    have "y \<le> of_int (m + 1)" by (rule my)
    also have "\<dots> \<le> of_int (2 ^ nat (bitlen m))" using bb(2) by (subst of_int_le_iff) simp
    also have "\<dots> = 2 ^ nat (bitlen m)" by simp
    finally have "1 / 2 ^ nat (bitlen m) \<le> 1 / y"
      using y by (intro divide_left_mono) (auto intro!: mult_pos_pos)
    moreover have "(2::rat) powi (- bitlen m) = 1 / 2 ^ nat (bitlen m)"
      using b by (simp add: power_int_minus_divide power_int_nonneg_exp)
    ultimately have lo: "2 powi (- bitlen m) \<le> x" using x by simp
    have "(2::rat) ^ nat (bitlen m - 1) = of_int (2 ^ nat (bitlen m - 1))" by simp
    also have "\<dots> \<le> of_int m" using bb(1) by (subst of_int_le_iff)
    also have "\<dots> < y" by (rule my)
    finally have "1 / y < 1 / 2 ^ nat (bitlen m - 1)"
      using y by (intro divide_strict_left_mono) (auto intro!: mult_pos_pos)
    moreover have "(2::rat) powi (- bitlen m + 1) = 1 / 2 ^ nat (bitlen m - 1)"
    proof -
      have "(2::rat) powi (- bitlen m + 1) = 2 powi (- (bitlen m - 1))" by simp
      also have "\<dots> = 1 / 2 powi (bitlen m - 1)" by (rule power_int_minus_divide)
      also have "\<dots> = 1 / 2 ^ nat (bitlen m - 1)" using b by (simp add: power_int_nonneg_exp)
      finally show ?thesis .
    qed
    ultimately have "x < 2 powi (- bitlen m + 1)" using x by simp
    then show ?thesis using lo fl by simp
  qed
  then show "2 powi floor_log2 x \<le> x" and "x < 2 powi (floor_log2 x + 1)" by simp_all
qed

lemma floor_log2_mono:
  assumes "0 < x" and "x \<le> y"
  shows "floor_log2 x \<le> floor_log2 y"
proof (rule ccontr)
  assume "\<not> floor_log2 x \<le> floor_log2 y"
  then have "floor_log2 y + 1 \<le> floor_log2 x" by simp
  then have "(2::rat) powi (floor_log2 y + 1) \<le> 2 powi floor_log2 x"
    by (intro power_int_increasing) simp_all
  also have "\<dots> \<le> x" using assms(1) by (rule floor_log2_bounds)
  also have "\<dots> \<le> y" by (rule assms)
  also have "\<dots> < 2 powi (floor_log2 y + 1)" using assms by (intro floor_log2_bounds) simp
  finally show False by simp
qed

lemma round_half_even_of_int [simp]: "round_half_even (of_int n) = n"
  by (simp add: round_half_even_def)

lemma round_half_even_bounds:
  "\<lfloor>z\<rfloor> \<le> round_half_even z" "round_half_even z \<le> \<lfloor>z\<rfloor> + 1"
  by (simp_all add: round_half_even_def Let_def)

lemma round_half_even_mono:
  assumes "x \<le> y"
  shows "round_half_even x \<le> round_half_even y"
proof (cases "\<lfloor>x\<rfloor> = \<lfloor>y\<rfloor>")
  case True
  have "x - of_int \<lfloor>y\<rfloor> \<le> y - of_int \<lfloor>y\<rfloor>" using assms by simp
  then show ?thesis
    unfolding round_half_even_def Let_def True by auto
next
  case False
  have "\<lfloor>x\<rfloor> \<le> \<lfloor>y\<rfloor>" using assms by (rule floor_mono)
  then have "\<lfloor>x\<rfloor> + 1 \<le> \<lfloor>y\<rfloor>" using False by simp
  then show ?thesis
    using round_half_even_bounds(2) [of x] round_half_even_bounds(1) [of y] by linarith
qed


lemma ulp_exponent_mono:
  assumes "0 < x" and "x \<le> y"
  shows "ulp_exponent x \<le> ulp_exponent y"
  using floor_log2_mono [OF assms] assms by (simp add: ulp_exponent_def)

lemma double_pos_eq:
  "0 < x \<Longrightarrow> double x = of_int (round_half_even (x / 2 powi ulp_exponent x)) * 2 powi ulp_exponent x"
  by (simp add: double_def)

lemma two_powi_pos [simp]: "0 < (2::rat) powi e"
  by (rule zero_less_power_int) simp

lemma double_mono_pos:
  assumes "0 < x" and "x \<le> y"
  shows "double x \<le> double y"
proof -
  define ex where "ex = ulp_exponent x"
  define ey where "ey = ulp_exponent y"
  have y: "0 < y" using assms by simp
  have dx: "double x = of_int (round_half_even (x / 2 powi ex)) * 2 powi ex"
    unfolding ex_def by (rule double_pos_eq [OF assms(1)])
  have dy: "double y = of_int (round_half_even (y / 2 powi ey)) * 2 powi ey"
    unfolding ey_def by (rule double_pos_eq [OF y])
  have le: "ex \<le> ey" unfolding ex_def ey_def by (rule ulp_exponent_mono [OF assms])
  show ?thesis
  proof (cases "ex = ey")
    case True
    have "x / 2 powi ey \<le> y / 2 powi ey" using assms by (simp add: divide_right_mono)
    then have "round_half_even (x / 2 powi ey) \<le> round_half_even (y / 2 powi ey)"
      by (rule round_half_even_mono)
    then have "(of_int (round_half_even (x / 2 powi ey)) :: rat) \<le> of_int (round_half_even (y / 2 powi ey))"
      by (subst of_int_le_iff)
    then show ?thesis unfolding dx dy True by (simp add: mult_right_mono)
  next
    case False
    then have lt: "ex < ey" using le by simp
    have "- 1074 \<le> ex" by (simp add: ex_def ulp_exponent_def)
    then have ey: "ey = floor_log2 y - 52"
      using lt y unfolding ey_def ulp_exponent_def by simp
    define B :: rat where "B = 2 powi (ey + 52)"
    have By: "B \<le> y" unfolding B_def ey using floor_log2_bounds(1) [OF y] by simp
    have "floor_log2 x - 52 \<le> ex" using assms(1) by (simp add: ex_def ulp_exponent_def)
    then have "floor_log2 x + 1 \<le> ey + 52" using lt by simp
    then have "(2::rat) powi (floor_log2 x + 1) \<le> 2 powi (ey + 52)"
      by (intro power_int_increasing) simp_all
    then have xB: "x \<le> B" unfolding B_def using floor_log2_bounds(2) [OF assms(1)] by simp
    have Bx: "B / 2 powi ex = of_int (2 ^ nat (ey + 52 - ex))"
    proof -
      have "B / 2 powi ex = 2 powi (ey + 52 - ex)"
        unfolding B_def by (simp add: power_int_diff)
      also have "\<dots> = 2 ^ nat (ey + 52 - ex)" using lt by (simp add: power_int_nonneg_exp)
      finally show ?thesis by simp
    qed
    have "x / 2 powi ex \<le> B / 2 powi ex" using xB by (simp add: divide_right_mono)
    then have "round_half_even (x / 2 powi ex) \<le> round_half_even (B / 2 powi ex)"
      by (rule round_half_even_mono)
    then have "round_half_even (x / 2 powi ex) \<le> 2 ^ nat (ey + 52 - ex)"
      unfolding Bx by (simp only: round_half_even_of_int)
    then have "(of_int (round_half_even (x / 2 powi ex)) :: rat) \<le> of_int (2 ^ nat (ey + 52 - ex))"
      by (subst of_int_le_iff)
    then have "double x \<le> of_int (2 ^ nat (ey + 52 - ex)) * 2 powi ex"
      unfolding dx by (simp add: mult_right_mono)
    also have "\<dots> = B" unfolding Bx [symmetric] by simp
    finally have 1: "double x \<le> B" .
    have Be: "B / 2 powi ey = of_int (2 ^ 52)"
    proof -
      have "B / 2 powi ey = 2 powi (ey + 52 - ey)"
        unfolding B_def by (rule power_int_diff [symmetric]) simp
      then show ?thesis by simp
    qed
    have "B / 2 powi ey \<le> y / 2 powi ey" using By by (simp add: divide_right_mono)
    then have "round_half_even (B / 2 powi ey) \<le> round_half_even (y / 2 powi ey)"
      by (rule round_half_even_mono)
    then have "2 ^ 52 \<le> round_half_even (y / 2 powi ey)"
      unfolding Be by (simp only: round_half_even_of_int)
    then have "(of_int (2 ^ 52) :: rat) \<le> of_int (round_half_even (y / 2 powi ey))"
      by (subst of_int_le_iff)
    then have "of_int (2 ^ 52) * 2 powi ey \<le> double y"
      unfolding dy by (simp only: mult_right_mono two_powi_pos less_imp_le)
    moreover have "of_int (2 ^ 52) * 2 powi ey = B" unfolding Be [symmetric] by simp
    ultimately have 2: "B \<le> double y" by simp
    show ?thesis using 1 2 by simp
  qed
qed

lemma double_zero [simp]: "double 0 = 0"
  by (simp add: double_def)

lemma double_nonneg:
  assumes "0 \<le> x"
  shows "0 \<le> double x"
proof (cases "x = 0")
  case False
  then have x: "0 < x" using assms by simp
  have "0 \<le> x / 2 powi ulp_exponent x" using x by simp
  then have "0 \<le> \<lfloor>x / 2 powi ulp_exponent x\<rfloor>" by simp
  then have "0 \<le> round_half_even (x / 2 powi ulp_exponent x)"
    using round_half_even_bounds(1) [of "x / 2 powi ulp_exponent x"] by linarith
  then show ?thesis unfolding double_pos_eq [OF x] by simp
qed simp

lemma double_minus: "double (- x) = - double x"
  by (simp add: double_def ulp_exponent_def sgn_minus)

lemma double_mono:
  assumes "x \<le> y"
  shows "double x \<le> double y"
proof -
  consider "0 < x" | "x \<le> 0" "0 \<le> y" | "y < 0" by linarith
  then show ?thesis
  proof cases
    case 1
    then show ?thesis using assms by (rule double_mono_pos)
  next
    case 2
    have "0 \<le> double (- x)" using 2 by (intro double_nonneg) simp
    then have "double x \<le> 0" by (simp add: double_minus)
    then show ?thesis using double_nonneg [OF 2(2)] by simp
  next
    case 3
    have "double (- y) \<le> double (- x)" using 3 assms by (intro double_mono_pos) simp_all
    then show ?thesis by (simp add: double_minus)
  qed
qed

text \<open>
  A rounding is checked without computing it: \<open>y = m * 2 ^ e\<close> is the double nearest to
  \<open>x\<close> when \<open>x\<close> lies in the binade whose doubles are the multiples of \<open>2 ^ e\<close>
  and \<open>y\<close> is within half of \<open>2 ^ e\<close> of \<open>x\<close>, with an even \<open>m\<close> at exactly half.
\<close>

lemma floor_log2_eqI:
  assumes "2 powi k \<le> x" and "x < 2 powi (k + 1)"
  shows "floor_log2 x = k"
proof -
  have x: "0 < x" using assms(1) two_powi_pos [of k] by linarith
  note b = floor_log2_bounds [OF x]
  have "\<not> floor_log2 x + 1 \<le> k"
  proof
    assume "floor_log2 x + 1 \<le> k"
    then have "(2::rat) powi (floor_log2 x + 1) \<le> 2 powi k"
      by (intro power_int_increasing) simp_all
    then show False using b(2) assms(1) by linarith
  qed
  moreover have "\<not> k + 1 \<le> floor_log2 x"
  proof
    assume "k + 1 \<le> floor_log2 x"
    then have "(2::rat) powi (k + 1) \<le> 2 powi floor_log2 x"
      by (intro power_int_increasing) simp_all
    then show False using b(1) assms(2) by linarith
  qed
  ultimately show ?thesis by linarith
qed

lemma round_half_even_eqI:
  assumes "\<bar>z - of_int n\<bar> < 1 / 2 \<or> (\<bar>z - of_int n\<bar> = 1 / 2 \<and> even n)"
  shows "round_half_even z = n"
proof (cases "of_int n \<le> z")
  case True
  then have f: "\<lfloor>z\<rfloor> = n" using assms by (intro floor_unique) auto
  show ?thesis
    using assms True unfolding round_half_even_def Let_def f by auto
next
  case False
  then have f: "\<lfloor>z\<rfloor> = n - 1" using assms by (intro floor_unique) auto
  have "odd (n - 1)" if "even n" using that by simp
  then show ?thesis
    using assms False unfolding round_half_even_def Let_def f by auto
qed

lemma double_eqI:
  fixes m e :: int
  assumes "y = of_int m * 2 powi e"
    and "- 1074 \<le> e"
    and "2 ^ 52 * 2 powi e \<le> x" and "x < 2 ^ 53 * 2 powi e"
    and "\<bar>x - y\<bar> < 2 powi e / 2 \<or> (\<bar>x - y\<bar> = 2 powi e / 2 \<and> even m)"
  shows "double x = y"
proof -
  have x: "0 < x"
    using assms(3) two_powi_pos [of e] by (smt (verit) mult_pos_pos zero_less_numeral zero_less_power order_less_le_trans)
  have p: "(2::rat) powi (e + 52) = 2 ^ 52 * 2 powi e" "(2::rat) powi (e + 52 + 1) = 2 ^ 53 * 2 powi e"
    by (simp_all add: power_int_add)
  have "floor_log2 x = e + 52"
    by (rule floor_log2_eqI) (simp_all only: p assms(3,4))
  then have u: "ulp_exponent x = e"
    using x assms(2) by (simp add: ulp_exponent_def)
  have d: "x / 2 powi e - of_int m = (x - y) / 2 powi e"
    unfolding assms(1) by (simp add: field_simps)
  have "\<bar>x / 2 powi e - of_int m\<bar> = \<bar>x - y\<bar> / 2 powi e"
    unfolding d by (simp add: abs_divide)
  then have "\<bar>x / 2 powi e - of_int m\<bar> < 1 / 2
      \<or> (\<bar>x / 2 powi e - of_int m\<bar> = 1 / 2 \<and> even m)"
    using assms(5) by (auto simp: field_simps)
  then have "round_half_even (x / 2 powi e) = m"
    by (rule round_half_even_eqI)
  then show ?thesis
    using x unfolding assms(1) by (simp add: double_def u)
qed

section \<open>Properties of the project detector\<close>

text \<open>\<open>str_in\<close> is the contiguous-sublist relation of the library.\<close>

lemma starts_with_prefix: "starts_with s sub = prefix sub s"
  by (induction s sub rule: starts_with.induct) auto

lemma str_in_sublist: "str_in sub s = sublist sub s"
  by (induction s) (simp_all add: starts_with_prefix sublist_Cons_right)

text \<open>
  The roundings that the literals, the bounds of the score and the sample inputs below
  need, each checked by \<open>double_eqI\<close>.
\<close>

lemma double_value_1: "double (4803839602528529 / 72057594037927936) = 4803839602528529 / 72057594037927936"
  by (rule double_eqI [where m = 4803839602528529 and e = "-56"]) simp_all

lemma double_value_2: "double (21634570243895115118877068038417 / 324518553658426726783156020576256) = 4803839602528529 / 72057594037927936"
  by (rule double_eqI [where m = 4803839602528529 and e = "-56"]) simp_all

lemma double_value_3: "double (3602879701896397 / 36028797018963968) = 3602879701896397 / 36028797018963968"
  by (rule double_eqI [where m = 7205759403792794 and e = "-56"]) simp_all

lemma double_value_4: "double (4803839602528529 / 36028797018963968) = 4803839602528529 / 36028797018963968"
  by (rule double_eqI [where m = 4803839602528529 and e = "-55"]) simp_all

lemma double_value_5: "double (21634570243895115118877068038417 / 162259276829213363391578010288128) = 4803839602528529 / 36028797018963968"
  by (rule double_eqI [where m = 4803839602528529 and e = "-55"]) simp_all

lemma double_value_6: "double (12009599006321323 / 72057594037927936) = 3002399751580331 / 18014398509481984"
  by (rule double_eqI [where m = 6004799503160662 and e = "-55"]) simp_all

lemma double_value_7: "double (14411518807585587 / 72057594037927936) = 3602879701896397 / 18014398509481984"
  by (rule double_eqI [where m = 7205759403792794 and e = "-55"]) simp_all

lemma double_value_8: "double (1 / 5) = 3602879701896397 / 18014398509481984"
  by (rule double_eqI [where m = 7205759403792794 and e = "-55"]) simp_all

lemma double_value_9: "double (3602879701896397 / 18014398509481984) = 3602879701896397 / 18014398509481984"
  by (rule double_eqI [where m = 7205759403792794 and e = "-55"]) simp_all

lemma double_value_10: "double (4203359652212463 / 18014398509481984) = 4203359652212463 / 18014398509481984"
  by (rule double_eqI [where m = 8406719304424926 and e = "-55"]) simp_all

lemma double_value_11: "double (1 / 4) = 1 / 4"
  by (rule double_eqI [where m = 4503599627370496 and e = "-54"]) simp_all

lemma double_value_12: "double (4803839602528529 / 18014398509481984) = 4803839602528529 / 18014398509481984"
  by (rule double_eqI [where m = 4803839602528529 and e = "-54"]) simp_all

lemma double_value_13: "double (21634570243895115118877068038417 / 81129638414606681695789005144064) = 4803839602528529 / 18014398509481984"
  by (rule double_eqI [where m = 4803839602528529 and e = "-54"]) simp_all

lemma double_value_14: "double (19215358410114117 / 72057594037927936) = 4803839602528529 / 18014398509481984"
  by (rule double_eqI [where m = 4803839602528529 and e = "-54"]) simp_all

lemma double_value_15: "double (3 / 10) = 5404319552844595 / 18014398509481984"
  by (rule double_eqI [where m = 5404319552844595 and e = "-54"]) simp_all

lemma double_value_16: "double (10808639105689191 / 36028797018963968) = 1351079888211149 / 4503599627370496"
  by (rule double_eqI [where m = 5404319552844596 and e = "-54"]) simp_all

lemma double_value_17: "double (1351079888211149 / 4503599627370496) = 1351079888211149 / 4503599627370496"
  by (rule double_eqI [where m = 5404319552844596 and e = "-54"]) simp_all

lemma double_value_18: "double (24019198012642645 / 72057594037927936) = 6004799503160661 / 18014398509481984"
  by (rule double_eqI [where m = 6004799503160661 and e = "-54"]) simp_all

lemma double_value_19: "double (1 / 3) = 6004799503160661 / 18014398509481984"
  by (rule double_eqI [where m = 6004799503160661 and e = "-54"]) simp_all

lemma double_value_20: "double (12009599006321323 / 36028797018963968) = 3002399751580331 / 9007199254740992"
  by (rule double_eqI [where m = 6004799503160662 and e = "-54"]) simp_all

lemma double_value_21: "double (13210558906953455 / 36028797018963968) = 825659931684591 / 2251799813685248"
  by (rule double_eqI [where m = 6605279453476728 and e = "-54"]) simp_all

lemma double_value_22: "double (26421117813906913 / 72057594037927936) = 825659931684591 / 2251799813685248"
  by (rule double_eqI [where m = 6605279453476728 and e = "-54"]) simp_all

lemma double_value_23: "double (14411518807585587 / 36028797018963968) = 3602879701896397 / 9007199254740992"
  by (rule double_eqI [where m = 7205759403792794 and e = "-54"]) simp_all

lemma double_value_24: "double (2 / 5) = 3602879701896397 / 9007199254740992"
  by (rule double_eqI [where m = 7205759403792794 and e = "-54"]) simp_all

lemma double_value_25: "double (3602879701896397 / 9007199254740992) = 3602879701896397 / 9007199254740992"
  by (rule double_eqI [where m = 7205759403792794 and e = "-54"]) simp_all

lemma double_value_26: "double (28823037615171177 / 72057594037927936) = 3602879701896397 / 9007199254740992"
  by (rule double_eqI [where m = 7205759403792794 and e = "-54"]) simp_all

lemma double_value_27: "double (14411518807585589 / 36028797018963968) = 3602879701896397 / 9007199254740992"
  by (rule double_eqI [where m = 7205759403792794 and e = "-54"]) simp_all

lemma double_value_28: "double (15612478708217721 / 36028797018963968) = 1951559838527215 / 4503599627370496"
  by (rule double_eqI [where m = 7806239354108860 and e = "-54"]) simp_all

lemma double_value_29: "double (4203359652212463 / 9007199254740992) = 4203359652212463 / 9007199254740992"
  by (rule double_eqI [where m = 8406719304424926 and e = "-54"]) simp_all

lemma double_value_30: "double (33626877217699705 / 72057594037927936) = 4203359652212463 / 9007199254740992"
  by (rule double_eqI [where m = 8406719304424926 and e = "-54"]) simp_all

lemma double_value_31: "double (16813438608849853 / 36028797018963968) = 4203359652212463 / 9007199254740992"
  by (rule double_eqI [where m = 8406719304424926 and e = "-54"]) simp_all

lemma double_value_32: "double (1 / 2) = 1 / 2"
  by (rule double_eqI [where m = 4503599627370496 and e = "-53"]) simp_all

lemma double_value_33: "double (18014398509481985 / 36028797018963968) = 1 / 2"
  by (rule double_eqI [where m = 4503599627370496 and e = "-53"]) simp_all

lemma double_value_34: "double (9007199254740993 / 18014398509481984) = 1 / 2"
  by (rule double_eqI [where m = 4503599627370496 and e = "-53"]) simp_all

lemma double_value_35: "double (4803839602528529 / 9007199254740992) = 4803839602528529 / 9007199254740992"
  by (rule double_eqI [where m = 4803839602528529 and e = "-53"]) simp_all

lemma double_value_36: "double (38430716820228233 / 72057594037927936) = 4803839602528529 / 9007199254740992"
  by (rule double_eqI [where m = 4803839602528529 and e = "-53"]) simp_all

lemma double_value_37: "double (19215358410114117 / 36028797018963968) = 4803839602528529 / 9007199254740992"
  by (rule double_eqI [where m = 4803839602528529 and e = "-53"]) simp_all

lemma double_value_38: "double (9607679205057059 / 18014398509481984) = 2401919801264265 / 4503599627370496"
  by (rule double_eqI [where m = 4803839602528530 and e = "-53"]) simp_all

lemma double_value_39: "double (40832636621492497 / 72057594037927936) = 2552039788843281 / 4503599627370496"
  by (rule double_eqI [where m = 5104079577686562 and e = "-53"]) simp_all

lemma double_value_40: "double (20416318310746249 / 36028797018963968) = 2552039788843281 / 4503599627370496"
  by (rule double_eqI [where m = 5104079577686562 and e = "-53"]) simp_all

lemma double_value_41: "double (43234556422756761 / 72057594037927936) = 5404319552844595 / 9007199254740992"
  by (rule double_eqI [where m = 5404319552844595 and e = "-53"]) simp_all

lemma double_value_42: "double (21617278211378381 / 36028797018963968) = 5404319552844595 / 9007199254740992"
  by (rule double_eqI [where m = 5404319552844595 and e = "-53"]) simp_all

lemma double_value_43: "double (10808639105689191 / 18014398509481984) = 1351079888211149 / 2251799813685248"
  by (rule double_eqI [where m = 5404319552844596 and e = "-53"]) simp_all

lemma double_value_44: "double (1351079888211149 / 2251799813685248) = 1351079888211149 / 2251799813685248"
  by (rule double_eqI [where m = 5404319552844596 and e = "-53"]) simp_all

lemma double_value_45: "double (22818238112010513 / 36028797018963968) = 1426139882000657 / 2251799813685248"
  by (rule double_eqI [where m = 5704559528002628 and e = "-53"]) simp_all

lemma double_value_46: "double (24019198012642645 / 36028797018963968) = 6004799503160661 / 9007199254740992"
  by (rule double_eqI [where m = 6004799503160661 and e = "-53"]) simp_all

lemma double_value_47: "double (2 / 3) = 6004799503160661 / 9007199254740992"
  by (rule double_eqI [where m = 6004799503160661 and e = "-53"]) simp_all

lemma double_value_48: "double (12009599006321323 / 18014398509481984) = 3002399751580331 / 4503599627370496"
  by (rule double_eqI [where m = 6004799503160662 and e = "-53"]) simp_all

lemma double_value_49: "double (48038396025285297 / 72057594037927936) = 3002399751580331 / 4503599627370496"
  by (rule double_eqI [where m = 6004799503160662 and e = "-53"]) simp_all

lemma double_value_50: "double (12610078956637389 / 18014398509481984) = 3152519739159347 / 4503599627370496"
  by (rule double_eqI [where m = 6305039478318694 and e = "-53"]) simp_all

lemma double_value_51: "double (6305039478318695 / 9007199254740992) = 6305039478318695 / 9007199254740992"
  by (rule double_eqI [where m = 6305039478318695 and e = "-53"]) simp_all

lemma double_value_52: "double (25220157913274781 / 36028797018963968) = 6305039478318695 / 9007199254740992"
  by (rule double_eqI [where m = 6305039478318695 and e = "-53"]) simp_all

lemma double_value_53: "double (13210558906953455 / 18014398509481984) = 825659931684591 / 1125899906842624"
  by (rule double_eqI [where m = 6605279453476728 and e = "-53"]) simp_all

lemma double_value_54: "double (52842235627813825 / 72057594037927936) = 825659931684591 / 1125899906842624"
  by (rule double_eqI [where m = 6605279453476728 and e = "-53"]) simp_all

lemma double_value_55: "double (26421117813906913 / 36028797018963968) = 825659931684591 / 1125899906842624"
  by (rule double_eqI [where m = 6605279453476728 and e = "-53"]) simp_all

lemma double_value_56: "double (3 / 4) = 3 / 4"
  by (rule double_eqI [where m = 6755399441055744 and e = "-53"]) simp_all

lemma double_value_57: "double (55244155429078089 / 72057594037927936) = 6905519428634761 / 9007199254740992"
  by (rule double_eqI [where m = 6905519428634761 and e = "-53"]) simp_all

lemma double_value_58: "double (27622077714539045 / 36028797018963968) = 6905519428634761 / 9007199254740992"
  by (rule double_eqI [where m = 6905519428634761 and e = "-53"]) simp_all

lemma double_value_59: "double (3602879701896397 / 4503599627370496) = 3602879701896397 / 4503599627370496"
  by (rule double_eqI [where m = 7205759403792794 and e = "-53"]) simp_all

lemma double_value_60: "double (28823037615171177 / 36028797018963968) = 3602879701896397 / 4503599627370496"
  by (rule double_eqI [where m = 7205759403792794 and e = "-53"]) simp_all

lemma double_value_61: "double (14411518807585589 / 18014398509481984) = 3602879701896397 / 4503599627370496"
  by (rule double_eqI [where m = 7205759403792794 and e = "-53"]) simp_all

lemma double_value_62: "double (30023997515803309 / 36028797018963968) = 7505999378950827 / 9007199254740992"
  by (rule double_eqI [where m = 7505999378950827 and e = "-53"]) simp_all

lemma double_value_63: "double (62449914832870881 / 72057594037927936) = 1951559838527215 / 2251799813685248"
  by (rule double_eqI [where m = 7806239354108860 and e = "-53"]) simp_all

lemma double_value_64: "double (15612478708217721 / 18014398509481984) = 1951559838527215 / 2251799813685248"
  by (rule double_eqI [where m = 7806239354108860 and e = "-53"]) simp_all

lemma double_value_65: "double (9 / 10) = 8106479329266893 / 9007199254740992"
  by (rule double_eqI [where m = 8106479329266893 and e = "-53"]) simp_all

lemma double_value_66: "double (32425917317067573 / 36028797018963968) = 8106479329266893 / 9007199254740992"
  by (rule double_eqI [where m = 8106479329266893 and e = "-53"]) simp_all

lemma double_value_67: "double (16212958658533787 / 18014398509481984) = 4053239664633447 / 4503599627370496"
  by (rule double_eqI [where m = 8106479329266894 and e = "-53"]) simp_all

lemma double_value_68: "double (33626877217699705 / 36028797018963968) = 4203359652212463 / 4503599627370496"
  by (rule double_eqI [where m = 8406719304424926 and e = "-53"]) simp_all

lemma double_value_69: "double (1) = 1"
  by (rule double_eqI [where m = 4503599627370496 and e = "-52"]) simp_all

lemma double_value_70: "double (18014398509481985 / 18014398509481984) = 1"
  by (rule double_eqI [where m = 4503599627370496 and e = "-52"]) simp_all

lemmas double_values =
  double_value_1 double_value_2 double_value_3 double_value_4 double_value_5 double_value_6
  double_value_7 double_value_8 double_value_9 double_value_10 double_value_11 double_value_12
  double_value_13 double_value_14 double_value_15 double_value_16 double_value_17 double_value_18
  double_value_19 double_value_20 double_value_21 double_value_22 double_value_23 double_value_24
  double_value_25 double_value_26 double_value_27 double_value_28 double_value_29 double_value_30
  double_value_31 double_value_32 double_value_33 double_value_34 double_value_35 double_value_36
  double_value_37 double_value_38 double_value_39 double_value_40 double_value_41 double_value_42
  double_value_43 double_value_44 double_value_45 double_value_46 double_value_47 double_value_48
  double_value_49 double_value_50 double_value_51 double_value_52 double_value_53 double_value_54
  double_value_55 double_value_56 double_value_57 double_value_58 double_value_59 double_value_60
  double_value_61 double_value_62 double_value_63 double_value_64 double_value_65 double_value_66
  double_value_67 double_value_68 double_value_69 double_value_70

text \<open>The doubles of the literals, and the greatest score the loop body can reach.\<close>

lemma double_one: "double 1 = 1"
  by (simp add: double_values)

lemma double_0_4: "double (4 / 10) = 3602879701896397 / 9007199254740992"
  by (simp add: double_values)

lemma double_0_2: "double (2 / 10) = 3602879701896397 / 18014398509481984"
  by (simp add: double_values)

lemma double_0_3: "double (3 / 10) = 5404319552844595 / 18014398509481984"
  by (simp add: double_values)

lemma double_0_4_fixed: "double (double (4 / 10)) = double (4 / 10)"
  by (simp add: double_values)

lemma double_0_2_fixed: "double (double (2 / 10)) = double (2 / 10)"
  by (simp add: double_values)

lemma double_0_8_fixed: "double (double (4 / 10) + double (4 / 10)) = double (4 / 10) + double (4 / 10)"
  by (simp add: double_values)

lemma double_sum_one: "double (double (4 / 10) + double (4 / 10) + double (2 / 10)) = 1"
  by (simp add: double_values)

lemma file_matches_le: "file_matches ind fs \<le> length (ind_files ind)"
  by (simp add: file_matches_def)

lemma keyword_matches_le: "keyword_matches ind deps \<le> length (ind_keywords ind)"
  by (simp add: keyword_matches_def)

lemma double_ratio_bounds:
  fixes m n :: nat
  assumes "m \<le> n" and "0 < n"
  shows "0 \<le> double (of_nat m / of_nat n)" and "double (of_nat m / of_nat n) \<le> 1"
proof -
  have q: "0 \<le> (of_nat m / of_nat n :: rat)" "(of_nat m / of_nat n :: rat) \<le> 1"
    using assms by (simp_all add: divide_le_eq)
  show "0 \<le> double (of_nat m / of_nat n)"
    using q(1) by (rule double_nonneg)
  have "double (of_nat m / of_nat n) \<le> double 1"
    using q(2) by (rule double_mono)
  then show "double (of_nat m / of_nat n) \<le> 1"
    by (simp only: double_one)
qed

lemma add_term_bounds:
  assumes "m \<le> n" and "0 \<le> score" and "score \<le> B" and "double B = B"
    and "0 \<le> w" and "double w = w"
  shows "\<exists>s. add_term score m n w = Inr s \<and> 0 \<le> s \<and> s \<le> double (B + w)
            \<and> (m = 0 \<longrightarrow> s = score)"
proof (cases "m = 0")
  case True
  have "B \<le> B + w" using assms(5) by simp
  then have "double B \<le> double (B + w)" by (rule double_mono)
  then have "score \<le> double (B + w)" using assms(3,4) by simp
  then show ?thesis using True assms(2) by (simp add: add_term_def)
next
  case False
  then have n: "0 < n" using assms(1) by simp
  define q where "q = double (of_nat m / of_nat n)"
  have q: "0 \<le> q" "q \<le> 1"
    unfolding q_def using double_ratio_bounds [OF assms(1) n] by blast+
  define t where "t = double (q * w)"
  have t0: "0 \<le> t" unfolding t_def using q(1) assms(5) by (intro double_nonneg) simp
  have "q * w \<le> 1 * w" using q(2) assms(5) by (rule mult_right_mono)
  then have "double (q * w) \<le> double w" using double_mono [of "q * w" w] by simp
  then have t1: "t \<le> w" unfolding t_def assms(6) .
  have s0: "0 \<le> double (score + t)" using assms(2) t0 by (intro double_nonneg) simp
  have "score + t \<le> B + w" using assms(3) t1 by simp
  then have s1: "double (score + t) \<le> double (B + w)" by (rule double_mono)
  have "add_term score m n w = Inr (double (score + t))"
    using False n by (simp add: add_term_def t_def q_def)
  then show ?thesis using s0 s1 False by simp
qed

lemma all_deps_readable:
  assumes "manifest_readable cfg"
  shows "\<exists>deps. all_deps cfg = Inr deps"
  using assms
  by (auto simp: manifest_readable_def all_deps_def Let_def and_then_def mapping_keys_def is_mapping_def
           split: json.splits)

lemma count_scripts_container:
  assumes "is_container scripts"
  shows "\<exists>n. count_scripts xs scripts = Inr n \<and> n \<le> length xs"
proof (induction xs)
  case Nil
  show ?case by simp
next
  case (Cons x xs)
  then obtain n where n: "count_scripts xs scripts = Inr n" "n \<le> length xs" by blast
  obtain b where b: "contains scripts x = Inr b"
    using assms by (auto simp: is_container_def contains_def split: json.splits)
  show ?case using n(2) by (simp add: n(1) b)
qed

lemma script_matches_readable:
  assumes "manifest_readable cfg"
  shows "\<exists>n. script_matches ind cfg = Inr n \<and> n \<le> length (ind_scripts ind)"
  unfolding script_matches_def
  using assms by (intro count_scripts_container) (simp add: manifest_readable_def)

lemma double_zero_plus: "double (0 + double (4 / 10)) = double (4 / 10)"
  by (simp only: add_0 double_0_4_fixed)

lemma type_score_readable:
  assumes "manifest_readable cfg"
  shows "\<exists>s. type_score ind fs cfg = Inr s \<and> 0 \<le> s \<and> s \<le> 1"
proof -
  let ?a = "double (4 / 10)"
  let ?b = "double (2 / 10)"
  have a0: "0 \<le> ?a" and b0: "0 \<le> ?b" by (rule double_nonneg, simp)+
  obtain deps where deps: "all_deps cfg = Inr deps"
    using all_deps_readable [OF assms] by blast
  obtain sm where sm: "script_matches ind cfg = Inr sm" "sm \<le> length (ind_scripts ind)"
    using script_matches_readable [OF assms] by blast
  obtain s1 where s1: "add_term 0 (file_matches ind fs) (length (ind_files ind)) ?a = Inr s1"
      "0 \<le> s1" "s1 \<le> double (0 + ?a)"
    using add_term_bounds [OF file_matches_le order_refl order_refl double_zero a0 double_0_4_fixed]
    by blast
  have s1': "s1 \<le> ?a" using s1(3) by (simp only: double_zero_plus)
  obtain s2 where s2: "add_term s1 (keyword_matches ind deps) (length (ind_keywords ind)) ?a = Inr s2"
      "0 \<le> s2" "s2 \<le> double (?a + ?a)"
    using add_term_bounds [OF keyword_matches_le s1(2) s1' double_0_4_fixed a0 double_0_4_fixed]
    by blast
  have s2': "s2 \<le> ?a + ?a" using s2(3) by (simp only: double_0_8_fixed)
  obtain s3 where s3: "add_term s2 sm (length (ind_scripts ind)) ?b = Inr s3"
      "0 \<le> s3" "s3 \<le> double (?a + ?a + ?b)"
    using add_term_bounds [OF sm(2) s2(2) s2' double_0_8_fixed b0 double_0_2_fixed]
    by blast
  have "type_score ind fs cfg = Inr s3"
    unfolding type_score_def and_then_def s1(1) deps s2(1) sm(1) s3(1) sum.case ..
  moreover have "s3 \<le> 1" using s3(3) by (simp only: double_sum_one)
  ultimately show ?thesis using s3(2) by blast
qed


lemma add_term_total:
  assumes "m \<le> n"
  shows "\<exists>s. add_term score m n w = Inr s"
  using assms by (cases "m = 0") (simp_all add: add_term_def)

lemma add_term_none: "add_term score 0 n w = Inr score"
  by (simp add: add_term_def)

lemma all_deps_cases:
  "all_deps cfg = Inl TypeError
   \<or> (\<exists>deps. all_deps cfg = Inr deps
        \<and> is_mapping (dict_get cfg ''dependencies'' (JObject []))
        \<and> is_mapping (dict_get cfg ''devDependencies'' (JObject [])))"
  by (auto simp: all_deps_def Let_def and_then_def mapping_keys_def is_mapping_def
           split: json.splits)

lemma count_scripts_no_container:
  assumes "\<not> is_container scripts"
  shows "count_scripts (x # xs) scripts = Inl TypeError"
proof -
  have "contains scripts x = Inl TypeError"
    using assms by (auto simp: is_container_def contains_def split: json.splits)
  then show ?thesis by simp
qed

lemma type_score_unreadable:
  assumes "\<not> manifest_readable cfg" and "ind_scripts ind \<noteq> []"
  shows "type_score ind fs cfg = Inl TypeError"
proof -
  obtain s1 where s1: "add_term 0 (file_matches ind fs) (length (ind_files ind)) (double (4 / 10)) = Inr s1"
    using add_term_total [OF file_matches_le] by blast
  from all_deps_cases [of cfg] show ?thesis
  proof (elim disjE exE conjE)
    assume "all_deps cfg = Inl TypeError"
    then show ?thesis
      unfolding type_score_def and_then_def s1 sum.case by (simp only: sum.case)
  next
    fix deps
    assume deps: "all_deps cfg = Inr deps"
      and m: "is_mapping (dict_get cfg ''dependencies'' (JObject []))"
             "is_mapping (dict_get cfg ''devDependencies'' (JObject []))"
    obtain s2 where s2: "add_term s1 (keyword_matches ind deps) (length (ind_keywords ind)) (double (4 / 10)) = Inr s2"
      using add_term_total [OF keyword_matches_le] by blast
    have nc: "\<not> is_container (dict_get cfg ''scripts'' (JObject []))"
      using assms(1) m unfolding manifest_readable_def by blast
    obtain x xs where xs: "ind_scripts ind = x # xs"
      using assms(2) by (cases "ind_scripts ind") auto
    have sm: "script_matches ind cfg = Inl TypeError"
      unfolding script_matches_def xs by (rule count_scripts_no_container [OF nc])
    show ?thesis
      unfolding type_score_def and_then_def s1 deps s2 sm sum.case ..
  qed
qed

lemma scores_loop_readable:
  assumes "manifest_readable cfg"
  shows "\<exists>ss. scores_loop cat fs cfg = Inr ss \<and> map fst ss = map fst cat
            \<and> (\<forall>x\<in>set ss. 0 \<le> snd x \<and> snd x \<le> 1)"
proof (induction cat)
  case Nil
  show ?case by simp
next
  case (Cons entry cat)
  obtain n ind where entry: "entry = (n, ind)" by (cases entry)
  obtain s where s: "type_score ind fs cfg = Inr s" "0 \<le> s" "s \<le> 1"
    using type_score_readable [OF assms] by blast
  from Cons obtain ss where ss: "scores_loop cat fs cfg = Inr ss" "map fst ss = map fst cat"
      "\<forall>x\<in>set ss. 0 \<le> snd x \<and> snd x \<le> 1"
    by blast
  have "scores_loop (entry # cat) fs cfg = Inr ((n, s) # ss)"
    by (simp add: entry s(1) ss(1))
  then show ?case using s(2,3) ss(2,3) entry by simp
qed

lemma scores_loop_zero:
  assumes "\<forall>(n, ind)\<in>set cat. type_score ind fs cfg = Inr 0"
  shows "scores_loop cat fs cfg = Inr (map (\<lambda>(n, ind). (n, 0)) cat)"
  using assms by (induction cat) auto

lemma first_max_in: "first_max b xs \<in> set (b # xs)"
  by (induction xs arbitrary: b) (simp, fastforce)

lemma first_max_ge: "x \<in> set (b # xs) \<Longrightarrow> snd x \<le> snd (first_max b xs)"
proof (induction xs arbitrary: b x)
  case Nil
  then show ?case by simp
next
  case (Cons y ys)
  have step: "snd z \<le> snd (first_max (if snd y > snd b then y else b) ys)"
    if "z \<in> set ((if snd y > snd b then y else b) # ys)" for z
    using Cons.IH that by blast
  have keep: "snd b \<le> snd (if snd y > snd b then y else b)" by simp
  have "snd (if snd y > snd b then y else b) \<le> snd (first_max (if snd y > snd b then y else b) ys)"
    using step by simp
  with keep have b_le: "snd b \<le> snd (first_max (if snd y > snd b then y else b) ys)"
    by (rule order_trans)
  have y_le: "snd y \<le> snd (first_max (if snd y > snd b then y else b) ys)"
  proof -
    have "snd y \<le> snd (if snd y > snd b then y else b)" by simp
    also have "\<dots> \<le> snd (first_max (if snd y > snd b then y else b) ys)" using step by simp
    finally show ?thesis .
  qed
  from Cons.prems consider "x = b" | "x = y" | "x \<in> set ys" by auto
  then show ?case
  proof cases
    case 1 then show ?thesis using b_le by simp
  next
    case 2 then show ?thesis using y_le by simp
  next
    case 3 then show ?thesis using step [of x] by simp
  qed
qed

lemma first_max_Max: "snd (first_max b xs) = Max (snd ` set (b # xs))"
proof (rule sym, rule Max_eqI)
  show "finite (snd ` set (b # xs))" by simp
  show "y \<le> snd (first_max b xs)" if "y \<in> snd ` set (b # xs)" for y
    using that first_max_ge by blast
  show "snd (first_max b xs) \<in> snd ` set (b # xs)"
    using first_max_in by blast
qed

lemma catalog_names_are_types:
  "n \<in> fst ` set project_indicators \<Longrightarrow> \<exists>t. ProjectType_of n = Some t"
  by (auto simp: project_indicators_def ProjectType_of_def all_project_types_def)

lemma catalog_head:
  "\<exists>ind rest. project_indicators = (''react'', ind) # rest \<and> ind_scripts ind \<noteq> []"
  by (simp add: project_indicators_def)

lemma detect_from_scores:
  assumes "scores fs cfg = Inr (s # ss)" and "first_max s ss = (bt, c)"
    and "ProjectType_of bt = Some t"
  shows "detect_project_type fs cfg
           = (if c < double (3 / 10) then Inr (STATIC, double (3 / 10)) else Inr (t, c))"
    and "max_score fs cfg = Some c"
proof -
  show "detect_project_type fs cfg
           = (if c < double (3 / 10) then Inr (STATIC, double (3 / 10)) else Inr (t, c))"
    unfolding detect_project_type_def and_then_def assms(1) sum.case list.case assms(2)
      Let_def prod.case assms(3) option.case ..
  have "snd (first_max s ss) = Max (snd ` set (s # ss))"
    by (rule first_max_Max)
  then have "Max (snd ` set (s # ss)) = c"
    unfolding assms(2) by (simp only: snd_conv)
  then show "max_score fs cfg = Some c"
    unfolding max_score_def assms(1) sum.case list.case by (rule arg_cong)
qed

lemma detect_readable:
  assumes "manifest_readable cfg"
  shows "\<exists>t c. 0 \<le> c \<and> c \<le> 1 \<and> max_score fs cfg = Some c
           \<and> detect_project_type fs cfg
               = (if c < double (3 / 10) then Inr (STATIC, double (3 / 10)) else Inr (t, c))"
proof -
  obtain sc where sc: "scores fs cfg = Inr sc" "map fst sc = map fst project_indicators"
      "\<forall>x\<in>set sc. 0 \<le> snd x \<and> snd x \<le> 1"
    unfolding scores_def using scores_loop_readable [OF assms] by blast
  have "map fst project_indicators \<noteq> []" using catalog_head by auto
  then have "sc \<noteq> []" using sc(2) by auto
  then obtain s ss where ss: "sc = s # ss" by (cases sc) auto
  obtain bt c where fm: "first_max s ss = (bt, c)" by (cases "first_max s ss")
  have mem: "(bt, c) \<in> set sc"
    using first_max_in [of s ss] unfolding fm ss .
  then have "fst (bt, c) \<in> fst ` set sc" by (rule imageI)
  then have "bt \<in> set (map fst sc)" by simp
  then have "bt \<in> fst ` set project_indicators" unfolding sc(2) by simp
  then obtain t where t: "ProjectType_of bt = Some t"
    using catalog_names_are_types by blast
  have c: "0 \<le> c \<and> c \<le> 1" using sc(3) mem by fastforce
  show ?thesis
    using detect_from_scores [OF sc(1) [unfolded ss] fm t] c by blast
qed

lemma detect_unreadable:
  assumes "\<not> manifest_readable cfg"
  shows "detect_project_type fs cfg = Inl TypeError"
proof -
  obtain ind rest where cat: "project_indicators = (''react'', ind) # rest" "ind_scripts ind \<noteq> []"
    using catalog_head by blast
  have "type_score ind fs cfg = Inl TypeError"
    using assms cat(2) by (rule type_score_unreadable)
  then have "scores fs cfg = Inl TypeError"
    unfolding scores_def cat(1) by simp
  then show ?thesis
    unfolding detect_project_type_def and_then_def by simp
qed

lemma detect_no_matches:
  assumes "no_signature_matches fs cfg"
  shows "detect_project_type fs cfg = Inr (STATIC, double (3 / 10))"
proof -
  have zero: "type_score ind fs cfg = Inr 0" if "(n, ind) \<in> set project_indicators" for n ind
  proof -
    from assms that have f: "file_matches ind fs = 0"
      and k: "case all_deps cfg of Inl e \<Rightarrow> False | Inr deps \<Rightarrow> keyword_matches ind deps = 0"
      and m: "script_matches ind cfg = Inr 0"
      unfolding no_signature_matches_def list_all_iff by blast+
    from k obtain deps where deps: "all_deps cfg = Inr deps" "keyword_matches ind deps = 0"
      by (cases "all_deps cfg") auto
    show ?thesis
      unfolding type_score_def and_then_def f add_term_none sum.case deps m ..
  qed
  then have "\<forall>(n, ind)\<in>set project_indicators. type_score ind fs cfg = Inr 0" by blast
  then have sc: "scores fs cfg = Inr (map (\<lambda>(n, ind). (n, 0)) project_indicators)"
    unfolding scores_def by (rule scores_loop_zero)
  obtain ind rest where cat: "project_indicators = (''react'', ind) # rest"
    using catalog_head by blast
  define s :: "string \<times> rat" where "s = (''react'', 0)"
  define ss :: "(string \<times> rat) list" where "ss = map (\<lambda>(n, ind). (n, 0)) rest"
  have sc': "scores fs cfg = Inr (s # ss)" unfolding sc cat s_def ss_def by simp
  obtain bt c where fm: "first_max s ss = (bt, c)" by (cases "first_max s ss")
  have mem: "(bt, c) \<in> set (s # ss)" using first_max_in [of s ss] unfolding fm .
  then have c: "c = 0" unfolding s_def ss_def by auto
  have "fst (bt, c) \<in> fst ` set (s # ss)" using mem by (rule imageI)
  also have "fst ` set (s # ss) = fst ` set project_indicators"
    unfolding cat s_def ss_def by force
  finally obtain t where t: "ProjectType_of bt = Some t"
    using catalog_names_are_types by auto
  have "(0::rat) < double (3 / 10)" by (simp add: double_0_3)
  then show ?thesis
    unfolding detect_from_scores(1) [OF sc' fm t] c by simp
qed

text \<open>
  The threshold in exact arithmetic. For every catalog entry and all counts it can have,
  the computed score is below the literal 0.3 exactly when the weighted score of the
  specification is below 3/10; the combinations are enumerated by the shape of the entry
  (the lengths of its three lists).
\<close>

lemmas counts_defs =
  threshold_agrees_def score_of_counts_def spec_score_of_counts_def spec_term_def
  and_then_def add_term_def

lemma agree_4_2_2:
  "list_all (\<lambda>fm. list_all (\<lambda>km. list_all (\<lambda>sm.
      threshold_agrees fm 4 km 2 sm 2) [0, 1, 2]) [0, 1, 2]) [0, 1, 2, 3, 4]"
  by (simp add: counts_defs double_values)

lemma agree_3_2_2:
  "list_all (\<lambda>fm. list_all (\<lambda>km. list_all (\<lambda>sm.
      threshold_agrees fm 3 km 2 sm 2) [0, 1, 2]) [0, 1, 2]) [0, 1, 2, 3]"
  by (simp add: counts_defs double_values)

lemma agree_4_2_3:
  "list_all (\<lambda>fm. list_all (\<lambda>km. list_all (\<lambda>sm.
      threshold_agrees fm 4 km 2 sm 3) [0, 1, 2, 3]) [0, 1, 2]) [0, 1, 2, 3, 4]"
  by (simp add: counts_defs double_values)

lemma agree_3_2_3:
  "list_all (\<lambda>fm. list_all (\<lambda>km. list_all (\<lambda>sm.
      threshold_agrees fm 3 km 2 sm 3) [0, 1, 2, 3]) [0, 1, 2]) [0, 1, 2, 3]"
  by (simp add: counts_defs double_values)

lemma agree_4_4_0:
  "list_all (\<lambda>fm. list_all (\<lambda>km. list_all (\<lambda>sm.
      threshold_agrees fm 4 km 4 sm 0) [0]) [0, 1, 2, 3, 4]) [0, 1, 2, 3, 4]"
  by (simp add: counts_defs double_values)

lemma agree_3_3_0:
  "list_all (\<lambda>fm. list_all (\<lambda>km. list_all (\<lambda>sm.
      threshold_agrees fm 3 km 3 sm 0) [0]) [0, 1, 2, 3]) [0, 1, 2, 3]"
  by (simp add: counts_defs double_values)

lemma agree_2_3_0:
  "list_all (\<lambda>fm. list_all (\<lambda>km. list_all (\<lambda>sm.
      threshold_agrees fm 2 km 3 sm 0) [0]) [0, 1, 2, 3]) [0, 1, 2]"
  by (simp add: counts_defs double_values)

lemma agree_4_0_0:
  "list_all (\<lambda>fm. list_all (\<lambda>km. list_all (\<lambda>sm.
      threshold_agrees fm 4 km 0 sm 0) [0]) [0]) [0, 1, 2, 3, 4]"
  by (simp add: counts_defs double_values)

lemma list_all3D:
  "list_all (\<lambda>a. list_all (\<lambda>b. list_all (\<lambda>c. P a b c) cs) bs) as
   \<Longrightarrow> a \<in> set as \<Longrightarrow> b \<in> set bs \<Longrightarrow> c \<in> set cs \<Longrightarrow> P a b c"
  by (auto simp: list_all_iff)

lemma upto_0: "n \<le> 0 \<Longrightarrow> n \<in> set [0::nat]"
  by simp

lemma upto_2: "n \<le> 2 \<Longrightarrow> n \<in> set [0, 1, 2::nat]"
proof -
  assume "n \<le> 2"
  then have "n = 0 \<or> n = 1 \<or> n = 2" by arith
  then show ?thesis by auto
qed

lemma upto_3: "n \<le> 3 \<Longrightarrow> n \<in> set [0, 1, 2, 3::nat]"
proof -
  assume "n \<le> 3"
  then have "n = 0 \<or> n = 1 \<or> n = 2 \<or> n = 3" by arith
  then show ?thesis by auto
qed

lemma upto_4: "n \<le> 4 \<Longrightarrow> n \<in> set [0, 1, 2, 3, 4::nat]"
proof -
  assume "n \<le> 4"
  then have "n = 0 \<or> n = 1 \<or> n = 2 \<or> n = 3 \<or> n = 4" by arith
  then show ?thesis by auto
qed

lemmas upto_members = upto_0 upto_2 upto_3 upto_4

lemma catalog_shapes_all:
  "list_all (\<lambda>(n, ind).
      (length (ind_files ind), length (ind_keywords ind), length (ind_scripts ind))
        \<in> {(4, 2, 2), (3, 2, 2), (4, 2, 3), (3, 2, 3), (4, 4, 0), (3, 3, 0), (2, 3, 0), (4, 0, 0)})
     project_indicators"
  by code_simp


lemma catalog_shapes:
  assumes "(n, ind) \<in> set project_indicators"
  shows "(length (ind_files ind), length (ind_keywords ind), length (ind_scripts ind))
           \<in> {(4, 2, 2), (3, 2, 2), (4, 2, 3), (3, 2, 3), (4, 4, 0), (3, 3, 0), (2, 3, 0), (4, 0, 0)}"
proof -
  have "\<forall>e\<in>set project_indicators. case e of (n, ind) \<Rightarrow>
      (length (ind_files ind), length (ind_keywords ind), length (ind_scripts ind))
        \<in> {(4, 2, 2), (3, 2, 2), (4, 2, 3), (3, 2, 3), (4, 4, 0), (3, 3, 0), (2, 3, 0), (4, 0, 0)}"
    using catalog_shapes_all unfolding list_all_iff .
  from this assms have "case (n, ind) of (n, ind) \<Rightarrow>
      (length (ind_files ind), length (ind_keywords ind), length (ind_scripts ind))
        \<in> {(4, 2, 2), (3, 2, 2), (4, 2, 3), (3, 2, 3), (4, 4, 0), (3, 3, 0), (2, 3, 0), (4, 0, 0)}"
    by (rule bspec)
  then show ?thesis by (simp only: prod.case)
qed

lemma agree_counts:
  assumes "(nf, nk, ns) \<in> {(4, 2, 2), (3, 2, 2), (4, 2, 3), (3, 2, 3), (4, 4, 0), (3, 3, 0), (2, 3, 0), (4, 0, 0)}"
    and "fm \<le> nf" and "km \<le> nk" and "sm \<le> ns"
  shows "threshold_agrees fm nf km nk sm ns"
proof -
  from assms(1) consider
      "nf = 4" "nk = 2" "ns = 2" | "nf = 3" "nk = 2" "ns = 2" | "nf = 4" "nk = 2" "ns = 3"
    | "nf = 3" "nk = 2" "ns = 3" | "nf = 4" "nk = 4" "ns = 0" | "nf = 3" "nk = 3" "ns = 0"
    | "nf = 2" "nk = 3" "ns = 0" | "nf = 4" "nk = 0" "ns = 0"
    by auto
  then show ?thesis
  proof cases
    case 1
    have f: "fm \<in> set [0, 1, 2, 3, 4]" using assms(2) unfolding 1 by (rule upto_4)
    have k: "km \<in> set [0, 1, 2]" using assms(3) unfolding 1 by (rule upto_2)
    have s: "sm \<in> set [0, 1, 2]" using assms(4) unfolding 1 by (rule upto_2)
    show ?thesis unfolding 1 by (rule list_all3D [OF agree_4_2_2 f k s])
  next
    case 2
    have f: "fm \<in> set [0, 1, 2, 3]" using assms(2) unfolding 2 by (rule upto_3)
    have k: "km \<in> set [0, 1, 2]" using assms(3) unfolding 2 by (rule upto_2)
    have s: "sm \<in> set [0, 1, 2]" using assms(4) unfolding 2 by (rule upto_2)
    show ?thesis unfolding 2 by (rule list_all3D [OF agree_3_2_2 f k s])
  next
    case 3
    have f: "fm \<in> set [0, 1, 2, 3, 4]" using assms(2) unfolding 3 by (rule upto_4)
    have k: "km \<in> set [0, 1, 2]" using assms(3) unfolding 3 by (rule upto_2)
    have s: "sm \<in> set [0, 1, 2, 3]" using assms(4) unfolding 3 by (rule upto_3)
    show ?thesis unfolding 3 by (rule list_all3D [OF agree_4_2_3 f k s])
  next
    case 4
    have f: "fm \<in> set [0, 1, 2, 3]" using assms(2) unfolding 4 by (rule upto_3)
    have k: "km \<in> set [0, 1, 2]" using assms(3) unfolding 4 by (rule upto_2)
    have s: "sm \<in> set [0, 1, 2, 3]" using assms(4) unfolding 4 by (rule upto_3)
    show ?thesis unfolding 4 by (rule list_all3D [OF agree_3_2_3 f k s])
  next
    case 5
    have f: "fm \<in> set [0, 1, 2, 3, 4]" using assms(2) unfolding 5 by (rule upto_4)
    have k: "km \<in> set [0, 1, 2, 3, 4]" using assms(3) unfolding 5 by (rule upto_4)
    have s: "sm \<in> set [0]" using assms(4) unfolding 5 by (rule upto_0)
    show ?thesis unfolding 5 by (rule list_all3D [OF agree_4_4_0 f k s])
  next
    case 6
    have f: "fm \<in> set [0, 1, 2, 3]" using assms(2) unfolding 6 by (rule upto_3)
    have k: "km \<in> set [0, 1, 2, 3]" using assms(3) unfolding 6 by (rule upto_3)
    have s: "sm \<in> set [0]" using assms(4) unfolding 6 by (rule upto_0)
    show ?thesis unfolding 6 by (rule list_all3D [OF agree_3_3_0 f k s])
  next
    case 7
    have f: "fm \<in> set [0, 1, 2]" using assms(2) unfolding 7 by (rule upto_2)
    have k: "km \<in> set [0, 1, 2, 3]" using assms(3) unfolding 7 by (rule upto_3)
    have s: "sm \<in> set [0]" using assms(4) unfolding 7 by (rule upto_0)
    show ?thesis unfolding 7 by (rule list_all3D [OF agree_2_3_0 f k s])
  next
    case 8
    have f: "fm \<in> set [0, 1, 2, 3, 4]" using assms(2) unfolding 8 by (rule upto_4)
    have k: "km \<in> set [0]" using assms(3) unfolding 8 by (rule upto_0)
    have s: "sm \<in> set [0]" using assms(4) unfolding 8 by (rule upto_0)
    show ?thesis unfolding 8 by (rule list_all3D [OF agree_4_0_0 f k s])
  qed
qed

lemma type_score_counts:
  assumes "all_deps cfg = Inr deps" and "script_matches ind cfg = Inr sm"
  shows "type_score ind fs cfg
           = score_of_counts (file_matches ind fs) (length (ind_files ind))
               (keyword_matches ind deps) (length (ind_keywords ind)) sm (length (ind_scripts ind))"
  unfolding type_score_def score_of_counts_def assms and_then_def
  by (simp split: sum.splits)

lemma entry_agrees:
  assumes "(n, ind) \<in> set project_indicators" and "manifest_readable cfg"
    and "type_score ind fs cfg = Inr s"
  shows "(s < double (3 / 10)) = (spec_type_score ind fs cfg < 3 / 10)"
proof -
  obtain deps where deps: "all_deps cfg = Inr deps"
    using all_deps_readable [OF assms(2)] by blast
  obtain sm where sm: "script_matches ind cfg = Inr sm" "sm \<le> length (ind_scripts ind)"
    using script_matches_readable [OF assms(2)] by blast
  have "threshold_agrees (file_matches ind fs) (length (ind_files ind))
          (keyword_matches ind deps) (length (ind_keywords ind)) sm (length (ind_scripts ind))"
    using catalog_shapes [OF assms(1)] file_matches_le keyword_matches_le sm(2)
    by (rule agree_counts)
  then show ?thesis
    unfolding threshold_agrees_def type_score_counts [OF deps sm(1), symmetric] assms(3)
      spec_type_score_def deps sm(1)
    by simp
qed

lemma scores_loop_rel:
  "scores_loop cat fs cfg = Inr ss
   \<Longrightarrow> list_all2 (\<lambda>e x. fst x = fst e \<and> type_score (snd e) fs cfg = Inr (snd x)) cat ss"
proof (induction cat arbitrary: ss)
  case Nil
  then show ?case by simp
next
  case (Cons entry cat)
  obtain n ind where entry: "entry = (n, ind)" by (cases entry)
  from Cons.prems obtain s rest where s: "type_score ind fs cfg = Inr s"
    and rest: "scores_loop cat fs cfg = Inr rest" and ss: "ss = (n, s) # rest"
    unfolding entry by (auto split: sum.splits)
  show ?case
    unfolding ss entry using s Cons.IH [OF rest] by simp
qed

lemma all_related:
  assumes "list_all2 R xs ys" and "\<And>x y. x \<in> set xs \<Longrightarrow> R x y \<Longrightarrow> P x = Q y"
  shows "(\<forall>x\<in>set xs. P x) = (\<forall>y\<in>set ys. Q y)"
  using assms by (induction rule: list_all2_induct) auto

lemma max_score_agrees:
  assumes "manifest_readable cfg" and "max_score fs cfg = Some m"
  shows "(m < double (3 / 10)) = (spec_max_score fs cfg < 3 / 10)"
proof -
  obtain ss where sc: "scores fs cfg = Inr ss" and ne: "ss \<noteq> []"
    and m: "m = Max (snd ` set ss)"
    using assms(2) unfolding max_score_def by (auto split: sum.splits list.splits)
  have rel: "list_all2 (\<lambda>e x. fst x = fst e \<and> type_score (snd e) fs cfg = Inr (snd x))
               project_indicators ss"
    using sc unfolding scores_def by (rule scores_loop_rel)
  have "(\<forall>e\<in>set project_indicators. spec_type_score (snd e) fs cfg < 3 / 10)
          = (\<forall>x\<in>set ss. snd x < double (3 / 10))"
  proof (rule all_related [OF rel])
    fix e x
    assume e: "e \<in> set project_indicators"
      and "fst x = fst e \<and> type_score (snd e) fs cfg = Inr (snd x)"
    then have t: "type_score (snd e) fs cfg = Inr (snd x)" by simp
    have "(fst e, snd e) \<in> set project_indicators" using e by simp
    then show "(spec_type_score (snd e) fs cfg < 3 / 10) = (snd x < double (3 / 10))"
      using entry_agrees [OF _ assms(1) t] by blast
  qed
  moreover have "(m < double (3 / 10)) = (\<forall>x\<in>set ss. snd x < double (3 / 10))"
    unfolding m using ne by (subst Max_less_iff) auto
  moreover have "(spec_max_score fs cfg < 3 / 10)
      = (\<forall>e\<in>set project_indicators. spec_type_score (snd e) fs cfg < 3 / 10)"
  proof -
    have ne': "set project_indicators \<noteq> {}" using catalog_head by auto
    have eq: "(\<lambda>(project_type, ind). spec_type_score ind fs cfg) = (\<lambda>e. spec_type_score (snd e) fs cfg)"
      by (simp add: fun_eq_iff split: prod.splits)
    show ?thesis
      unfolding spec_max_score_def eq using ne' by (subst Max_less_iff) auto
  qed
  ultimately show ?thesis by simp
qed

text \<open>
  The sample inputs: the match counts of every catalog entry are computed first, then
  the scores from the counts.
\<close>

lemma react_all_deps: "all_deps react_manifest = Inr [''react'', ''react-dom'']"
  by code_simp

lemma react_counts:
  "map (\<lambda>(n, ind). (file_matches ind react_files, keyword_matches ind [''react'', ''react-dom''], script_matches ind react_manifest)) project_indicators
   = [(3, 2, Inr 2), (1, 0, Inr 1), (1, 0, Inr 2), (1, 1, Inr 2), (1, 0, Inr 2), (1, 0, Inr 1),
      (0, 0, Inr 0), (0, 0, Inr 0), (0, 0, Inr 0), (0, 0, Inr 0), (0, 0, Inr 0), (0, 0, Inr 0)]"
  by code_simp

lemma react_scores:
  "scores react_files react_manifest =
     Inr [(''react'', 4053239664633447 / 4503599627370496),
          (''vue'', 4203359652212463 / 18014398509481984),
          (''angular'', 3002399751580331 / 9007199254740992),
          (''nextjs'', 1951559838527215 / 4503599627370496),
          (''nuxt'', 4803839602528529 / 18014398509481984),
          (''svelte'', 4203359652212463 / 18014398509481984),
          (''python'', 0), (''java'', 0), (''go'', 0), (''rust'', 0), (''php'', 0), (''static'', 0)]"
  using react_counts unfolding scores_def project_indicators_def
  by (simp add: type_score_def and_then_def add_term_def react_all_deps double_values)


lemma react_first_max:
  "first_max (''react'', 4053239664633447 / 4503599627370496)
     [(''vue'', 4203359652212463 / 18014398509481984),
      (''angular'', 3002399751580331 / 9007199254740992),
      (''nextjs'', 1951559838527215 / 4503599627370496),
      (''nuxt'', 4803839602528529 / 18014398509481984),
      (''svelte'', 4203359652212463 / 18014398509481984),
      (''python'', 0), (''java'', 0), (''go'', 0), (''rust'', 0), (''php'', 0), (''static'', 0)]
   = (''react'', 4053239664633447 / 4503599627370496)"
  by simp

lemma react_type: "ProjectType_of ''react'' = Some REACT"
  by (simp add: ProjectType_of_def all_project_types_def)

lemma react_type_score:
  "type_score (the (map_of project_indicators ''react'')) react_files react_manifest
     = Inr (4053239664633447 / 4503599627370496)"
  using react_counts unfolding project_indicators_def
  by (simp add: type_score_def and_then_def add_term_def react_all_deps double_values)

lemma package_json_all_deps: "all_deps no_manifest = Inr []"
  by code_simp

lemma package_json_counts:
  "map (\<lambda>(n, ind). (file_matches ind [''package.json''], keyword_matches ind [], script_matches ind no_manifest)) project_indicators
   = [(1, 0, Inr 0), (1, 0, Inr 0), (1, 0, Inr 0), (1, 0, Inr 0), (1, 0, Inr 0), (1, 0, Inr 0),
      (0, 0, Inr 0), (0, 0, Inr 0), (0, 0, Inr 0), (0, 0, Inr 0), (0, 0, Inr 0), (0, 0, Inr 0)]"
  by code_simp

lemma package_json_scores:
  "scores [''package.json''] no_manifest =
     Inr [(''react'', 3602879701896397 / 36028797018963968),
          (''vue'', 4803839602528529 / 36028797018963968),
          (''angular'', 4803839602528529 / 36028797018963968),
          (''nextjs'', 3602879701896397 / 36028797018963968),
          (''nuxt'', 4803839602528529 / 36028797018963968),
          (''svelte'', 4803839602528529 / 36028797018963968),
          (''python'', 0), (''java'', 0), (''go'', 0), (''rust'', 0), (''php'', 0), (''static'', 0)]"
  using package_json_counts unfolding scores_def project_indicators_def
  by (simp add: type_score_def and_then_def add_term_def package_json_all_deps double_values)

lemma package_json_first_max:
  "first_max (''react'', 3602879701896397 / 36028797018963968)
     [(''vue'', 4803839602528529 / 36028797018963968),
      (''angular'', 4803839602528529 / 36028797018963968),
      (''nextjs'', 3602879701896397 / 36028797018963968),
      (''nuxt'', 4803839602528529 / 36028797018963968),
      (''svelte'', 4803839602528529 / 36028797018963968),
      (''python'', 0), (''java'', 0), (''go'', 0), (''rust'', 0), (''php'', 0), (''static'', 0)]
   = (''vue'', 4803839602528529 / 36028797018963968)"
  by simp

lemma vue_type: "ProjectType_of ''vue'' = Some VUE"
  by (simp add: ProjectType_of_def all_project_types_def)

lemma package_json_max_score:
  "max_score [''package.json''] no_manifest = Some (4803839602528529 / 36028797018963968)"
  by (rule detect_from_scores(2) [OF package_json_scores package_json_first_max vue_type])

text \<open>
  The first maximum is taken over the doubles: \<open>nuxt\<close> gets 0.3333333333333333 and
  \<open>svelte\<close> 0.33333333333333337, so the detector answers \<open>svelte\<close>, although both
  weighted scores are 1/3 in exact arithmetic.
\<close>

lemma nuxt_svelte_all_deps: "all_deps nuxt_svelte_manifest = Inr [''svelte'']"
  by code_simp

lemma nuxt_svelte_counts:
  "map (\<lambda>(n, ind). (file_matches ind nuxt_svelte_files, keyword_matches ind [''svelte''], script_matches ind nuxt_svelte_manifest)) project_indicators
   = [(1, 0, Inr 1), (1, 0, Inr 0), (1, 0, Inr 1), (1, 0, Inr 1), (2, 0, Inr 1), (1, 1, Inr 0),
      (0, 0, Inr 0), (0, 0, Inr 0), (0, 0, Inr 0), (0, 0, Inr 0), (0, 0, Inr 0), (0, 0, Inr 0)]"
  by code_simp

lemma nuxt_svelte_scores:
  "scores nuxt_svelte_files nuxt_svelte_manifest =
     Inr [(''react'', 3602879701896397 / 18014398509481984),
          (''vue'', 4803839602528529 / 36028797018963968),
          (''angular'', 4203359652212463 / 18014398509481984),
          (''nextjs'', 3002399751580331 / 18014398509481984),
          (''nuxt'', 6004799503160661 / 18014398509481984),
          (''svelte'', 3002399751580331 / 9007199254740992),
          (''python'', 0), (''java'', 0), (''go'', 0), (''rust'', 0), (''php'', 0), (''static'', 0)]"
  using nuxt_svelte_counts unfolding scores_def project_indicators_def
  by (simp add: type_score_def and_then_def add_term_def nuxt_svelte_all_deps double_values)

lemma nuxt_svelte_first_max:
  "first_max (''react'', 3602879701896397 / 18014398509481984)
     [(''vue'', 4803839602528529 / 36028797018963968),
      (''angular'', 4203359652212463 / 18014398509481984),
      (''nextjs'', 3002399751580331 / 18014398509481984),
      (''nuxt'', 6004799503160661 / 18014398509481984),
      (''svelte'', 3002399751580331 / 9007199254740992),
      (''python'', 0), (''java'', 0), (''go'', 0), (''rust'', 0), (''php'', 0), (''static'', 0)]
   = (''svelte'', 3002399751580331 / 9007199254740992)"
  by simp

lemma svelte_type: "ProjectType_of ''svelte'' = Some SVELTE"
  by (simp add: ProjectType_of_def all_project_types_def)

lemma rounding_decides:
  "detect_project_type nuxt_svelte_files nuxt_svelte_manifest
     = Inr (SVELTE, 3002399751580331 / 9007199254740992)
   \<and> spec_type_score (the (map_of project_indicators ''nuxt'')) nuxt_svelte_files nuxt_svelte_manifest = 1 / 3
   \<and> spec_type_score (the (map_of project_indicators ''svelte'')) nuxt_svelte_files nuxt_svelte_manifest = 1 / 3"
proof -
  have lit: "\<not> (3002399751580331 / 9007199254740992 :: rat) < double (3 / 10)"
    unfolding double_0_3 by simp
  have "detect_project_type nuxt_svelte_files nuxt_svelte_manifest
     = Inr (SVELTE, 3002399751580331 / 9007199254740992)"
    unfolding detect_from_scores(1) [OF nuxt_svelte_scores nuxt_svelte_first_max svelte_type]
    using lit by (simp only: if_False)
  moreover have "spec_type_score (the (map_of project_indicators ''nuxt'')) nuxt_svelte_files nuxt_svelte_manifest = 1 / 3"
    using nuxt_svelte_counts unfolding project_indicators_def
    by (simp add: spec_type_score_def spec_score_of_counts_def spec_term_def nuxt_svelte_all_deps)
  moreover have "spec_type_score (the (map_of project_indicators ''svelte'')) nuxt_svelte_files nuxt_svelte_manifest = 1 / 3"
    using nuxt_svelte_counts unfolding project_indicators_def
    by (simp add: spec_type_score_def spec_score_of_counts_def spec_term_def nuxt_svelte_all_deps)
  ultimately show ?thesis by blast
qed

lemma null_dependencies_unreadable: "\<not> manifest_readable null_dependencies_manifest"
  by (simp add: manifest_readable_def null_dependencies_manifest_def dict_get_def is_mapping_def)

lemma no_manifest_readable: "manifest_readable no_manifest"
  by (simp add: manifest_readable_def no_manifest_def dict_get_def is_mapping_def is_container_def)

lemma readme_no_matches: "no_signature_matches [''README.md''] no_manifest"
  by code_simp

text \<open>
  Claim C4. For a manifest the detector can read (\<open>dependencies\<close> and
  \<open>devDependencies\<close> dicts or absent, \<open>scripts\<close> a dict, a list, a str or absent) the
  detector returns a pair whose confidence lies in [0, 1]; whenever the maximal score
  over the catalog is below 0.3, and in particular when the input matches no catalog
  signature at all, the result is \<open>static\<close> with the confidence 0.3 of the literal, and
  otherwise the confidence is the maximal score; the maximal score that the code computes
  in doubles is below the literal 0.3 exactly when the maximal weighted score in exact
  arithmetic is below 3/10. For any other manifest, so when package.json has \<open>null\<close> or
  another value that is no dict under \<open>dependencies\<close> or \<open>devDependencies\<close>, or a
  value that is no container under \<open>scripts\<close>, the detector raises TypeError and returns
  nothing, whatever the files are.
\<close>

theorem detector_confidence:
  "(manifest_readable cfg \<longrightarrow>
      (\<exists>t c m. detect_project_type fs cfg = Inr (t, c) \<and> max_score fs cfg = Some m
         \<and> 0 \<le> c \<and> c \<le> 1
         \<and> (m < double (3 / 10) \<longrightarrow> t = STATIC \<and> c = double (3 / 10))
         \<and> (double (3 / 10) \<le> m \<longrightarrow> c = m)
         \<and> (m < double (3 / 10)) = (spec_max_score fs cfg < 3 / 10)))
   \<and> (no_signature_matches fs cfg \<longrightarrow>
         detect_project_type fs cfg = Inr (STATIC, double (3 / 10)))
   \<and> (\<not> manifest_readable cfg \<longrightarrow> detect_project_type fs cfg = Inl TypeError)"
proof (intro conjI impI)
  assume readable: "manifest_readable cfg"
  then obtain t m where m: "0 \<le> m" "m \<le> 1" "max_score fs cfg = Some m"
    and d: "detect_project_type fs cfg
              = (if m < double (3 / 10) then Inr (STATIC, double (3 / 10)) else Inr (t, m))"
    using detect_readable [of cfg fs] by blast
  note ag = max_score_agrees [OF readable m(3)]
  have lit: "(0::rat) \<le> double (3 / 10)" "double (3 / 10) \<le> 1"
    unfolding double_0_3 by simp_all
  show "\<exists>t c m. detect_project_type fs cfg = Inr (t, c) \<and> max_score fs cfg = Some m
         \<and> 0 \<le> c \<and> c \<le> 1
         \<and> (m < double (3 / 10) \<longrightarrow> t = STATIC \<and> c = double (3 / 10))
         \<and> (double (3 / 10) \<le> m \<longrightarrow> c = m)
         \<and> (m < double (3 / 10)) = (spec_max_score fs cfg < 3 / 10)"
  proof (cases "m < double (3 / 10)")
    case True
    then have "detect_project_type fs cfg = Inr (STATIC, double (3 / 10))"
      unfolding d by (simp only: if_True)
    then show ?thesis using m(3) lit True ag by auto
  next
    case False
    then have "detect_project_type fs cfg = Inr (t, m)"
      unfolding d by (simp only: if_False)
    then show ?thesis using m False ag by auto
  qed
next
  assume "no_signature_matches fs cfg"
  then show "detect_project_type fs cfg = Inr (STATIC, double (3 / 10))"
    by (rule detect_no_matches)
next
  assume "\<not> manifest_readable cfg"
  then show "detect_project_type fs cfg = Inl TypeError"
    by (rule detect_unreadable)
qed

text \<open>
  Three inputs: the tree whose package.json has \<open>"dependencies": null\<close>, where the
  detector raises; a tree that matches nothing; and a tree whose only match is a
  package.json that \<open>_read_config_files\<close> could not parse, where the best computed
  score is 0.13333333333333333 and the detector still answers 0.3.
\<close>

theorem detector_confidence_witness:
  "\<not> manifest_readable null_dependencies_manifest
   \<and> detect_project_type null_dependencies_files null_dependencies_manifest = Inl TypeError
   \<and> no_signature_matches [''README.md''] no_manifest
   \<and> detect_project_type [''README.md''] no_manifest = Inr (STATIC, double (3 / 10))
   \<and> manifest_readable no_manifest
   \<and> max_score [''package.json''] no_manifest = Some (4803839602528529 / 36028797018963968)
   \<and> detect_project_type [''package.json''] no_manifest = Inr (STATIC, double (3 / 10))"
proof -
  note T1 = detector_confidence [of null_dependencies_manifest null_dependencies_files]
  note T2 = detector_confidence [of no_manifest "[''README.md'']"]
  note T3 = detector_confidence [of no_manifest "[''package.json'']"]
  have low: "(4803839602528529 / 36028797018963968 :: rat) < double (3 / 10)"
    unfolding double_0_3 by simp
  have 1: "detect_project_type null_dependencies_files null_dependencies_manifest = Inl TypeError"
    using T1 null_dependencies_unreadable by blast
  have 2: "detect_project_type [''README.md''] no_manifest = Inr (STATIC, double (3 / 10))"
    using T2 readme_no_matches by blast
  from T3 no_manifest_readable obtain t c m
    where r: "detect_project_type [''package.json''] no_manifest = Inr (t, c)"
      "max_score [''package.json''] no_manifest = Some m"
      "m < double (3 / 10) \<longrightarrow> t = STATIC \<and> c = double (3 / 10)"
    by blast
  have "m = 4803839602528529 / 36028797018963968"
    using r(2) unfolding package_json_max_score by simp
  then have 3: "detect_project_type [''package.json''] no_manifest = Inr (STATIC, double (3 / 10))"
    using r(1,3) low by simp
  show ?thesis
    using 1 2 3 null_dependencies_unreadable readme_no_matches no_manifest_readable
      package_json_max_score
    by blast
qed

text \<open>
  Claim C5. On the file list \<open>package.json\<close>, \<open>src/App.js\<close>, \<open>src/index.js\<close> with
  manifest dependencies \<open>react\<close>, \<open>react-dom\<close> and scripts \<open>start\<close>, \<open>build\<close> the
  detector returns \<open>react\<close>, whose score is the maximum over the catalog, with the
  confidence 0.9000000000000001: the double \<open>4053239664633447 / 2 ^ 52\<close>, which is
  greater than 9/10 and is the double that follows the one nearest to 9/10. The products
  and sums are rounded, and already \<open>0.75 * 0.4\<close> gives 0.30000000000000004, the double
  \<open>1351079888211149 / 2 ^ 52\<close>.
\<close>

theorem react_example_detected:
  "detect_project_type react_files react_manifest
     = Inr (REACT, 4053239664633447 / 4503599627370496)
   \<and> max_score react_files react_manifest = Some (4053239664633447 / 4503599627370496)
   \<and> type_score (the (map_of project_indicators ''react'')) react_files react_manifest
       = Inr (4053239664633447 / 4503599627370496)
   \<and> double (double (3 / 4) * double (4 / 10)) = 1351079888211149 / 4503599627370496
   \<and> (9 / 10 :: rat) < 4053239664633447 / 4503599627370496
   \<and> double (9 / 10) + 1 / 2 ^ 53 = 4053239664633447 / 4503599627370496"
proof -
  have lit: "\<not> (4053239664633447 / 4503599627370496 :: rat) < double (3 / 10)"
    unfolding double_0_3 by simp
  have "detect_project_type react_files react_manifest
     = Inr (REACT, 4053239664633447 / 4503599627370496)"
    unfolding detect_from_scores(1) [OF react_scores react_first_max react_type]
    using lit by (simp only: if_False)
  moreover have "max_score react_files react_manifest = Some (4053239664633447 / 4503599627370496)"
    by (rule detect_from_scores(2) [OF react_scores react_first_max react_type])
  moreover have "double (double (3 / 4) * double (4 / 10)) = 1351079888211149 / 4503599627370496"
    by (simp add: double_values)
  moreover have "double (9 / 10) + 1 / 2 ^ 53 = 4053239664633447 / 4503599627370496"
    by (simp add: double_values)
  ultimately show ?thesis
    using react_type_score by simp
qed

text \<open>
  The confidence is not 9/10, and it is not the double nearest to 9/10, which is what the
  literal 0.9 denotes.
\<close>

theorem react_confidence_counterexample:
  "detect_project_type react_files react_manifest \<noteq> Inr (REACT, 9 / 10)
   \<and> detect_project_type react_files react_manifest \<noteq> Inr (REACT, double (9 / 10))"
proof -
  have lit: "\<not> (4053239664633447 / 4503599627370496 :: rat) < double (3 / 10)"
    unfolding double_0_3 by simp
  have "detect_project_type react_files react_manifest
     = Inr (REACT, 4053239664633447 / 4503599627370496)"
    unfolding detect_from_scores(1) [OF react_scores react_first_max react_type]
    using lit by (simp only: if_False)
  then show ?thesis
    by (simp add: double_values)
qed

section \<open>Properties of the containerization service\<close>

lemma unlines_Cons: "unlines (l # ls) = l @ CHR 0x0A # unlines ls"
  by (simp add: unlines_def)

text \<open>Every generator of \<open>dockerfile_templates\<close> reads nothing of the analysis but its port.\<close>

lemma generate_react_dockerfile_port:
  "port a = port b \<Longrightarrow> generate_react_dockerfile a p = generate_react_dockerfile b q"
  by (simp add: generate_react_dockerfile_def)

lemma generate_vue_dockerfile_port:
  "port a = port b \<Longrightarrow> generate_vue_dockerfile a p = generate_vue_dockerfile b q"
  by (simp add: generate_vue_dockerfile_def)

lemma generate_angular_dockerfile_port:
  "port a = port b \<Longrightarrow> generate_angular_dockerfile a p = generate_angular_dockerfile b q"
  by (simp add: generate_angular_dockerfile_def)

lemma generate_nextjs_dockerfile_port:
  "port a = port b \<Longrightarrow> generate_nextjs_dockerfile a p = generate_nextjs_dockerfile b q"
  by (simp add: generate_nextjs_dockerfile_def)

lemma generate_nuxt_dockerfile_port:
  "port a = port b \<Longrightarrow> generate_nuxt_dockerfile a p = generate_nuxt_dockerfile b q"
  by (simp add: generate_nuxt_dockerfile_def)

lemma generate_svelte_dockerfile_port:
  "port a = port b \<Longrightarrow> generate_svelte_dockerfile a p = generate_svelte_dockerfile b q"
  by (simp add: generate_svelte_dockerfile_def)

lemma generate_python_dockerfile_port:
  "port a = port b \<Longrightarrow> generate_python_dockerfile a p = generate_python_dockerfile b q"
  by (simp add: generate_python_dockerfile_def)

lemma generate_java_dockerfile_port:
  "port a = port b \<Longrightarrow> generate_java_dockerfile a p = generate_java_dockerfile b q"
  by (simp add: generate_java_dockerfile_def)

lemma generate_go_dockerfile_port:
  "port a = port b \<Longrightarrow> generate_go_dockerfile a p = generate_go_dockerfile b q"
  by (simp add: generate_go_dockerfile_def)

lemma generate_rust_dockerfile_port:
  "port a = port b \<Longrightarrow> generate_rust_dockerfile a p = generate_rust_dockerfile b q"
  by (simp add: generate_rust_dockerfile_def)

lemma generate_php_dockerfile_port:
  "port a = port b \<Longrightarrow> generate_php_dockerfile a p = generate_php_dockerfile b q"
  by (simp add: generate_php_dockerfile_def)

lemma generate_static_dockerfile_port:
  "port a = port b \<Longrightarrow> generate_static_dockerfile a p = generate_static_dockerfile b q"
  by (simp add: generate_static_dockerfile_def)

lemma templates_read_port_only:
  assumes "map_of dockerfile_templates n = Some g" and "port a = port b"
  shows "g a p = g b q"
proof -
  from assms(1) have "(n, g) \<in> set dockerfile_templates"
    by (rule map_of_SomeD)
  then have "g \<in> {generate_react_dockerfile, generate_vue_dockerfile, generate_angular_dockerfile, generate_nextjs_dockerfile, generate_nuxt_dockerfile, generate_svelte_dockerfile, generate_python_dockerfile, generate_java_dockerfile, generate_go_dockerfile, generate_rust_dockerfile, generate_php_dockerfile, generate_static_dockerfile}"
    unfolding dockerfile_templates_def by auto
  then show ?thesis
    using assms(2)
      generate_react_dockerfile_port [of a b p q]
      generate_vue_dockerfile_port [of a b p q]
      generate_angular_dockerfile_port [of a b p q]
      generate_nextjs_dockerfile_port [of a b p q]
      generate_nuxt_dockerfile_port [of a b p q]
      generate_svelte_dockerfile_port [of a b p q]
      generate_python_dockerfile_port [of a b p q]
      generate_java_dockerfile_port [of a b p q]
      generate_go_dockerfile_port [of a b p q]
      generate_rust_dockerfile_port [of a b p q]
      generate_php_dockerfile_port [of a b p q]
      generate_static_dockerfile_port [of a b p q]
    by blast
qed

lemma generic_reads_base_image_and_port:
  "base_image a = base_image b \<Longrightarrow> port a = port b \<Longrightarrow>
   generate_generic_dockerfile a = generate_generic_dockerfile b"
  by (simp add: generate_generic_dockerfile_def)

lemma no_generator:
  "t \<in> set types_without_generator \<Longrightarrow> map_of dockerfile_templates (type_value t) = None"
  by (auto simp: types_without_generator_def dockerfile_templates_def)

lemma has_generator:
  "t \<notin> set types_without_generator \<Longrightarrow> \<exists>g. map_of dockerfile_templates (type_value t) = Some g"
  by (cases t) (simp_all add: types_without_generator_def dockerfile_templates_def)

lemma react_head: "take 25 (generate_react_dockerfile a p) = ''# Multi-stage build for R''"
  unfolding generate_react_dockerfile_def unlines_Cons by simp

lemma vue_head: "take 25 (generate_vue_dockerfile a p) = ''# Multi-stage build for V''"
  unfolding generate_vue_dockerfile_def unlines_Cons by simp

lemma generic_head: "take 25 (generate_generic_dockerfile a) = ''# Generic Dockerfile'' @ CHR 0x0A # ''FROM''"
  unfolding generate_generic_dockerfile_def unlines_Cons by simp

lemma templates_react: "map_of dockerfile_templates ''react'' = Some generate_react_dockerfile"
  by (simp add: dockerfile_templates_def)

lemma templates_vue: "map_of dockerfile_templates ''vue'' = Some generate_vue_dockerfile"
  by (simp add: dockerfile_templates_def)

lemma templates_no_strategy: "map_of dockerfile_templates ''multi-stage-build'' = None"
  by (simp add: dockerfile_templates_def)

text \<open>
  Claim C6, as stated: the generator is chosen by the profile's strategy tag, and a tag
  with no generator gives the generic template. It fails: the dict of generators is keyed
  by project type. For the React profile the analyzer builds, the tag
  \<open>multi-stage-build\<close> is no key of the dict, so the selection by tag gives the generic
  template, while the code returns the React Dockerfile; and the Vue profile carries the
  same tag and gets another Dockerfile.
\<close>

theorem strategy_selection_counterexample:
  "dockerfile_strategy react_profile = ''multi-stage-build''
   \<and> generate_dockerfile_by_strategy react_profile ''/tmp/projects/demo''
       = generate_generic_dockerfile react_profile
   \<and> generate_dockerfile react_profile ''/tmp/projects/demo''
       \<noteq> generate_dockerfile_by_strategy react_profile ''/tmp/projects/demo''
   \<and> dockerfile_strategy vue_profile = dockerfile_strategy react_profile
   \<and> generate_dockerfile vue_profile ''/tmp/projects/demo''
       \<noteq> generate_dockerfile react_profile ''/tmp/projects/demo''"
proof -
  have st: "dockerfile_strategy react_profile = ''multi-stage-build''"
    by (simp add: react_profile_def determine_dockerfile_strategy_def)
  have sv: "dockerfile_strategy vue_profile = ''multi-stage-build''"
    by (simp add: vue_profile_def determine_dockerfile_strategy_def)
  have by_strategy: "generate_dockerfile_by_strategy react_profile ''/tmp/projects/demo''
       = generate_generic_dockerfile react_profile"
    unfolding generate_dockerfile_by_strategy_def st templates_no_strategy by simp
  have code_react: "generate_dockerfile react_profile ''/tmp/projects/demo''
       = generate_react_dockerfile react_profile ''/tmp/projects/demo''"
    by (simp add: generate_dockerfile_def react_profile_def templates_react)
  have code_vue: "generate_dockerfile vue_profile ''/tmp/projects/demo''
       = generate_vue_dockerfile vue_profile ''/tmp/projects/demo''"
    by (simp add: generate_dockerfile_def vue_profile_def templates_vue)
  have d1: "generate_react_dockerfile react_profile ''/tmp/projects/demo''
       \<noteq> generate_generic_dockerfile react_profile"
  proof
    assume "generate_react_dockerfile react_profile ''/tmp/projects/demo''
       = generate_generic_dockerfile react_profile"
    then have "take 25 (generate_react_dockerfile react_profile ''/tmp/projects/demo'')
       = take 25 (generate_generic_dockerfile react_profile)"
      by simp
    then show False
      unfolding react_head generic_head by simp
  qed
  have d2: "generate_vue_dockerfile vue_profile ''/tmp/projects/demo''
       \<noteq> generate_react_dockerfile react_profile ''/tmp/projects/demo''"
  proof
    assume "generate_vue_dockerfile vue_profile ''/tmp/projects/demo''
       = generate_react_dockerfile react_profile ''/tmp/projects/demo''"
    then have "take 25 (generate_vue_dockerfile vue_profile ''/tmp/projects/demo'')
       = take 25 (generate_react_dockerfile react_profile ''/tmp/projects/demo'')"
      by simp
    then show False
      unfolding react_head vue_head by simp
  qed
  show ?thesis
    unfolding code_react code_vue by_strategy st sv using d1 d2 by simp
qed

text \<open>
  Claim C6, amended: the Dockerfile generator is selected by the profile's project type
  and the strategy tag is not consulted; for every project type with no generator (vite,
  webpack, docusaurus, unknown) the result is the generic single-stage template; for every
  other type it is the output of that type's generator; and the generic template is
  determined by the profile's base image and port.
\<close>

theorem dockerfile_selected_by_project_type:
  "generate_dockerfile (a\<lparr>dockerfile_strategy := s\<rparr>) p = generate_dockerfile a p
   \<and> (project_type a \<in> set types_without_generator \<longrightarrow>
        generate_dockerfile a p = generate_generic_dockerfile a)
   \<and> (project_type a \<notin> set types_without_generator \<longrightarrow>
        (\<exists>g. map_of dockerfile_templates (type_value (project_type a)) = Some g
           \<and> generate_dockerfile a p = g a p))
   \<and> (base_image a = base_image b \<and> port a = port b \<longrightarrow>
        generate_generic_dockerfile a = generate_generic_dockerfile b)"
proof (intro conjI impI)
  show "generate_dockerfile (a\<lparr>dockerfile_strategy := s\<rparr>) p = generate_dockerfile a p"
  proof (cases "map_of dockerfile_templates (type_value (project_type a))")
    case None
    then show ?thesis
      using generic_reads_base_image_and_port [of "a\<lparr>dockerfile_strategy := s\<rparr>" a]
      by (simp add: generate_dockerfile_def)
  next
    case (Some g)
    then show ?thesis
      using templates_read_port_only [OF Some, of "a\<lparr>dockerfile_strategy := s\<rparr>" a p p]
      by (simp add: generate_dockerfile_def)
  qed
  show "generate_dockerfile a p = generate_generic_dockerfile a"
    if "project_type a \<in> set types_without_generator"
    using no_generator [OF that] by (simp add: generate_dockerfile_def)
  show "\<exists>g. map_of dockerfile_templates (type_value (project_type a)) = Some g
           \<and> generate_dockerfile a p = g a p"
    if "project_type a \<notin> set types_without_generator"
    using has_generator [OF that] by (auto simp: generate_dockerfile_def)
  show "generate_generic_dockerfile a = generate_generic_dockerfile b"
    if "base_image a = base_image b \<and> port a = port b"
    using that generic_reads_base_image_and_port by blast
qed

theorem dockerfile_selected_by_project_type_witness:
  "project_type vite_profile \<in> set types_without_generator
   \<and> generate_dockerfile vite_profile ''/tmp/projects/demo'' = generate_generic_dockerfile vite_profile
   \<and> project_type react_profile \<notin> set types_without_generator
   \<and> generate_dockerfile react_profile ''/tmp/projects/demo''
       = generate_react_dockerfile react_profile ''/tmp/projects/demo''
   \<and> generate_generic_dockerfile vite_profile
       = generate_generic_dockerfile (vite_profile\<lparr>package_manager := ''yarn''\<rparr>)"
proof -
  have v: "project_type vite_profile \<in> set types_without_generator"
    by (simp add: vite_profile_def types_without_generator_def)
  have r: "project_type react_profile \<notin> set types_without_generator"
    by (simp add: react_profile_def types_without_generator_def)
  have rt: "type_value (project_type react_profile) = ''react''"
    by (simp add: react_profile_def)
  have same: "base_image vite_profile = base_image (vite_profile\<lparr>package_manager := ''yarn''\<rparr>)
      \<and> port vite_profile = port (vite_profile\<lparr>package_manager := ''yarn''\<rparr>)"
    by simp
  note T1 = dockerfile_selected_by_project_type
      [where a = vite_profile and s = "''simple''" and p = "''/tmp/projects/demo''"
         and b = "vite_profile\<lparr>package_manager := ''yarn''\<rparr>"]
  note T2 = dockerfile_selected_by_project_type
      [where a = react_profile and s = "''simple''" and p = "''/tmp/projects/demo''"
         and b = react_profile]
  have "generate_dockerfile vite_profile ''/tmp/projects/demo'' = generate_generic_dockerfile vite_profile"
    using T1 v by blast
  moreover have "generate_generic_dockerfile vite_profile
       = generate_generic_dockerfile (vite_profile\<lparr>package_manager := ''yarn''\<rparr>)"
    using T1 same by blast
  moreover have "generate_dockerfile react_profile ''/tmp/projects/demo''
       = generate_react_dockerfile react_profile ''/tmp/projects/demo''"
    using T2 r unfolding rt templates_react by auto
  ultimately show ?thesis
    using v r by blast
qed

section \<open>Properties of the deployment pipeline\<close>

subsection \<open>The summary of each statement\<close>

lemma nth_update_if:
  "(xs[i := v]) ! j = (if i = j \<and> j < length xs then v else xs ! j)"
  by (cases "i = j"; cases "j < length xs") (simp_all add: list_update_beyond)

lemma update_deployment_status_spec:
  "deployments (update_deployment_status did s p m w) = deployments w"
  "length (heap (update_deployment_status did s p m w)) = length (heap w)"
  "errors (heap (update_deployment_status did s p m w) ! r) = errors (heap w ! r)"
  "core (heap (update_deployment_status did s p m w) ! r) = core (heap w ! r)
     \<or> (deployments w did = Some r \<and> status (heap (update_deployment_status did s p m w) ! r) = s)"
proof -
  show "deployments (update_deployment_status did s p m w) = deployments w"
    by (simp add: update_deployment_status_def split: option.split)
  show "length (heap (update_deployment_status did s p m w)) = length (heap w)"
    by (simp add: update_deployment_status_def split: option.split)
  show "errors (heap (update_deployment_status did s p m w) ! r) = errors (heap w ! r)"
  proof (cases "deployments w did")
    case None
    then show ?thesis by (simp add: update_deployment_status_def)
  next
    case (Some r0)
    show ?thesis
      unfolding update_deployment_status_def Some
      by (simp add: nth_update_if)
  qed
  show "core (heap (update_deployment_status did s p m w) ! r) = core (heap w ! r)
     \<or> (deployments w did = Some r \<and> status (heap (update_deployment_status did s p m w) ! r) = s)"
  proof (cases "deployments w did")
    case None
    then show ?thesis by (simp add: update_deployment_status_def)
  next
    case (Some r0)
    show ?thesis
      unfolding update_deployment_status_def Some
      by (simp add: nth_update_if core_def)
  qed
qed

lemma spec_bind: "step_spec did (raises\<lparr>binds_d := True\<rparr>) (bind_deployment did)"
  by (auto simp: step_spec_def raises_def bind_deployment_def split: option.splits)

lemma spec_analyze: "step_spec did (raises\<lparr>binds_a := True\<rparr>) (await_analyze ev path)"
  by (auto simp: step_spec_def raises_def await_analyze_def split: sum.splits)

lemma spec_containerize: "step_spec did raises (await_containerize ev path)"
  by (auto simp: step_spec_def raises_def await_containerize_def split: sum.splits option.splits)

lemma spec_delay: "step_spec did keeps (simulate_delay n)"
  by (auto simp: step_spec_def keeps_def simulate_delay_def)

lemma spec_update:
  assumes "reads_analysis_only msg"
  shows "step_spec did (sets s) (await_update did s p msg)"
  unfolding step_spec_def
proof (intro conjI allI impI)
  fix l l' :: locals and w w' :: world
  assume h: "await_update did s p msg (l, w) = Inr (l', w')"
  then obtain m where m: "msg l = Inr m" and l: "l' = l"
    and w: "w' = update_deployment_status did s p m w"
    by (auto simp: await_update_def split: sum.splits)
  show "deployments w' = deployments w" "length (heap w') = length (heap w)"
    unfolding w by (rule update_deployment_status_spec)+
  show "if binds_d (sets s) then l_deployment l' = deployments w did \<and> l_deployment l' \<noteq> None
        else l_deployment l' = l_deployment l"
    by (simp add: sets_def l)
  show "if binds_a (sets s) then l_project_analysis l' \<noteq> None
        else l_project_analysis l' = l_project_analysis l"
    by (simp add: sets_def l)
  show "errors (heap w' ! r) = errors (heap w ! r)" for r
    unfolding w by (rule update_deployment_status_spec)
  show "core (heap w' ! r) = core (heap w ! r)
        \<or> (deployments w did = Some r \<and> eff (sets s) = Some (status (heap w' ! r)))" for r
    using update_deployment_status_spec(4) [of did s p m w r]
    unfolding w by (auto simp: sets_def)
next
  fix l :: locals and w :: world
  assume "l_project_analysis l \<noteq> None"
  then obtain m where "msg l = Inr m"
    using assms unfolding reads_analysis_only_def by blast
  then show "\<exists>c'. await_update did s p msg (l, w) = Inr c'"
    by (simp add: await_update_def)
qed



lemma spec_update_if: "step_spec did (sets ''building'') (update_if_build_command did)"
  unfolding step_spec_def
proof (intro conjI allI impI)
  fix l l' :: locals and w w' :: world
  assume h: "update_if_build_command did (l, w) = Inr (l', w')"
  then have l: "l' = l"
    by (auto simp: update_if_build_command_def split: option.splits if_splits)
  from h consider "w' = w" | m where "w' = update_deployment_status did ''building'' 45 m w"
    by (auto simp: update_if_build_command_def split: option.splits if_splits)
  note w = this
  show "deployments w' = deployments w"
    by (rule w) (simp_all add: update_deployment_status_spec)
  show "length (heap w') = length (heap w)"
    by (rule w) (simp_all add: update_deployment_status_spec)
  show "if binds_d (sets ''building'') then l_deployment l' = deployments w did \<and> l_deployment l' \<noteq> None
        else l_deployment l' = l_deployment l"
    by (simp add: sets_def l)
  show "if binds_a (sets ''building'') then l_project_analysis l' \<noteq> None
        else l_project_analysis l' = l_project_analysis l"
    by (simp add: sets_def l)
  show "errors (heap w' ! r) = errors (heap w ! r)" for r
    by (rule w) (simp_all add: update_deployment_status_spec)
  show "core (heap w' ! r) = core (heap w ! r)
        \<or> (deployments w did = Some r \<and> eff (sets ''building'') = Some (status (heap w' ! r)))" for r
  proof (rule w)
    assume "w' = w"
    then show ?thesis by simp
  next
    fix m
    assume "w' = update_deployment_status did ''building'' 45 m w"
    then show ?thesis
      using update_deployment_status_spec(4) [of did "''building''" 45 m w r]
      by (auto simp: sets_def)
  qed
next
  fix l :: locals and w :: world
  assume "l_project_analysis l \<noteq> None"
  then show "\<exists>c'. update_if_build_command did (l, w) = Inr c'"
    by (auto simp: update_if_build_command_def split: option.splits)
qed

lemma spec_on_deployment:
  assumes "frame_change change" and "reads_analysis_only change"
  shows "step_spec did keeps (on_deployment change)"
  unfolding step_spec_def
proof (intro conjI allI impI)
  fix l l' :: locals and w w' :: world
  assume h: "on_deployment change (l, w) = Inr (l', w')"
  then obtain r0 g where l: "l' = l" and g: "change l = Inr g"
    and w: "w' = w\<lparr>heap := (heap w)[r0 := g (heap w ! r0)]\<rparr>"
    by (auto simp: on_deployment_def split: option.splits sum.splits)
  have fr: "core (g d) = core d" "errors (g d) = errors d" for d
    using assms(1) g unfolding frame_change_def by blast+
  show "deployments w' = deployments w" "length (heap w') = length (heap w)"
    unfolding w by simp_all
  show "if binds_d keeps then l_deployment l' = deployments w did \<and> l_deployment l' \<noteq> None
        else l_deployment l' = l_deployment l"
    by (simp add: keeps_def l)
  show "if binds_a keeps then l_project_analysis l' \<noteq> None
        else l_project_analysis l' = l_project_analysis l"
    by (simp add: keeps_def l)
  show "errors (heap w' ! r) = errors (heap w ! r)" for r
    unfolding w by (simp add: nth_update_if fr)
  show "core (heap w' ! r) = core (heap w ! r)
        \<or> (deployments w did = Some r \<and> eff keeps = Some (status (heap w' ! r)))" for r
    unfolding w by (simp add: nth_update_if fr)
next
  fix l :: locals and w :: world
  assume "l_deployment l \<noteq> None" and "l_project_analysis l \<noteq> None"
  moreover from this obtain g where "change l = Inr g"
    using assms(2) unfolding reads_analysis_only_def by blast
  ultimately show "\<exists>c'. on_deployment change (l, w) = Inr c'"
    by (auto simp: on_deployment_def)
qed

lemma reads_const [simp]: "reads_analysis_only (\<lambda>l. Inr v)"
  by (simp add: reads_analysis_only_def)

lemma reads_with_analysis [simp]: "reads_analysis_only (with_analysis f)"
  by (auto simp: reads_analysis_only_def with_analysis_def)

lemma frame_extend_const [simp]: "frame_change (\<lambda>l. Inr (extend_resources rs))"
  by (simp add: frame_change_def extend_resources_def core_def)

lemma frame_extend_analysis [simp]: "frame_change (with_analysis (\<lambda>pa. extend_resources (rs pa)))"
  by (auto simp: frame_change_def with_analysis_def extend_resources_def core_def split: option.splits)

lemma frame_url [simp]: "frame_change (\<lambda>l. Inr (\<lambda>d. d\<lparr>url := u\<rparr>))"
  by (simp add: frame_change_def core_def)

lemma frame_metrics_url [simp]: "frame_change (\<lambda>l. Inr (\<lambda>d. d\<lparr>metrics_url := u\<rparr>))"
  by (simp add: frame_change_def core_def)

lemma frame_logs_url [simp]: "frame_change (\<lambda>l. Inr (\<lambda>d. d\<lparr>logs_url := u\<rparr>))"
  by (simp add: frame_change_def core_def)

lemma frame_project_analysis [simp]:
  "frame_change (with_analysis (\<lambda>pa d. d\<lparr>project_analysis := Some (f pa)\<rparr>))"
  by (auto simp: frame_change_def with_analysis_def core_def split: option.splits)

lemma body_spec: "list_all2 (step_spec did) (body_labels request) (body did request ev)"
  unfolding body_labels_def body_def Let_def
  by (auto simp: list_all2_append spec_bind spec_analyze spec_containerize spec_delay
      spec_update spec_update_if spec_on_deployment)

subsection \<open>The stage order\<close>

lemma stage_ranks:
  "stage_rank ''pending'' = 0" "stage_rank ''detecting'' = 1" "stage_rank ''containerizing'' = 2"
  "stage_rank ''building'' = 3" "stage_rank ''deploying'' = 4" "stage_rank ''configuring'' = 5"
  "stage_rank ''success'' = 6"
  by (simp_all add: stage_rank_def stage_order_def)

lemma stage_cases:
  assumes "s \<in> set stage_order"
  obtains "s = ''pending''" | "s = ''detecting''" | "s = ''containerizing''" | "s = ''building''"
    | "s = ''deploying''" | "s = ''configuring''" | "s = ''success''"
proof -
  from assms have "s = ''pending'' \<or> s = ''detecting'' \<or> s = ''containerizing''
      \<or> s = ''building'' \<or> s = ''deploying'' \<or> s = ''configuring'' \<or> s = ''success''"
    by (simp add: stage_order_def)
  then show ?thesis
    using that by (elim disjE) blast+
qed

lemma stages_in_order:
  "''pending'' \<in> set stage_order" "''detecting'' \<in> set stage_order"
  "''containerizing'' \<in> set stage_order" "''building'' \<in> set stage_order"
  "''deploying'' \<in> set stage_order" "''configuring'' \<in> set stage_order"
  "''success'' \<in> set stage_order" "''failed'' \<notin> set stage_order"
  by (simp_all add: stage_order_def)

lemma rank_six:
  assumes "s \<in> set stage_order" and "6 \<le> stage_rank s"
  shows "s = ''success''"
  using assms(1)
proof (cases rule: stage_cases)
  case 7
  then show ?thesis .
qed (use assms(2) in \<open>simp_all add: stage_ranks\<close>)

lemma not_terminal_below_six:
  assumes "s \<in> set stage_order" and "stage_rank s < 6"
  shows "\<not> terminal s"
proof
  assume "terminal s"
  then consider "s = ''success''" | "s = ''failed''"
    unfolding terminal_def by blast
  then show False
  proof cases
    case 1
    then show False using assms(2) by (simp add: stage_ranks)
  next
    case 2
    then show False using assms(1) by (simp add: stages_in_order)
  qed
qed

lemma forward_rank:
  assumes "a \<in> set stage_order" and "b \<in> set stage_order" and "stage_rank a \<le> stage_rank b"
  shows "forward a b"
proof (cases "terminal a")
  case False
  then show ?thesis using assms by (simp add: forward_def)
next
  case True
  then have "a = ''success''"
    using assms(1) by (auto simp: terminal_def stages_in_order)
  then have "b = ''success''"
    using rank_six [OF assms(2)] assms(3) by (simp add: stage_ranks)
  then show ?thesis
    using \<open>a = ''success''\<close> by (simp add: forward_def terminal_def)
qed

lemma forward_failed: "\<not> terminal a \<Longrightarrow> forward a ''failed''"
  by (simp add: forward_def)

lemma forward_refl: "a \<in> set stage_order \<Longrightarrow> forward a a"
  by (rule forward_rank) simp_all

lemma in_order_body: "in_order 0 False False (body_labels request)"
  by (simp add: body_labels_def sets_def keeps_def raises_def stage_ranks stages_in_order)

lemma serve_delete_frame:
  "fst (serve_delete did del_at i c) = fst c"
  "heap (snd (serve_delete did del_at i c)) = heap (snd c)"
  "utc (snd (serve_delete did del_at i c)) = utc (snd c)"
  "deployments (snd (serve_delete did del_at i c)) did' = deployments (snd c) did'
     \<or> (did' = did \<and> deployments (snd (serve_delete did del_at i c)) did' = None)"
  by (cases c; auto simp: serve_delete_def delete_deployment_def split: option.splits)+

subsection \<open>Running the statements\<close>

lemma run_forward:
  assumes "list_all2 (step_spec did) labs sts"
    and "in_order rho bd ba labs"
    and "status_at r c \<in> set stage_order"
    and "stage_rank (status_at r c) \<le> rho"
    and "bd \<longrightarrow> l_deployment (fst c) \<noteq> None"
    and "ba \<longrightarrow> l_project_analysis (fst c) \<noteq> None"
    and "run did del_at i sts c = (tr, cf, x)"
  shows "successively forward (map (status_at r) (c # tr))
    \<and> status_at r cf = status_at r (last (c # tr))
    \<and> status_at r cf \<in> set stage_order
    \<and> (x \<noteq> None \<longrightarrow> \<not> terminal (status_at r cf))"
  using assms
proof (induction labs sts arbitrary: rho bd ba c i tr cf x rule: list_all2_induct)
  case Nil
  then show ?case by simp
next
  case (Cons lab labs st sts)
  define c1 where "c1 = serve_delete did del_at i c"
  have c1: "fst c1 = fst c" "heap (snd c1) = heap (snd c)"
    unfolding c1_def by (rule serve_delete_frame)+
  have ord: "rho < 6 \<or> (\<not> may_raise lab \<and> bd \<and> ba)"
    using Cons.prems(1) by simp
  show ?case
  proof (cases "st c1")
    case (Inl e)
    then have res: "tr = []" "cf = c1" "x = Some e"
      using Cons.prems(6) by (simp_all add: c1_def)
    have "rho < 6"
    proof (rule ccontr)
      assume "\<not> rho < 6"
      with ord have safe: "\<not> may_raise lab" "l_deployment (fst c1) \<noteq> None"
        "l_project_analysis (fst c1) \<noteq> None"
        using Cons.prems(4,5) c1 by auto
      obtain l w where lw: "c1 = (l, w)" by (cases c1)
      then have "\<exists>c'. st (l, w) = Inr c'"
        using Cons.hyps(1) safe unfolding step_spec_def by auto
      then show False using Inl lw by simp
    qed
    then have "\<not> terminal (status_at r c)"
      using not_terminal_below_six Cons.prems(2,3) by auto
    then show ?thesis
      using res c1 Cons.prems(2) by simp
  next
    case (Inr c2)
    obtain tr' where run': "run did del_at (Suc i) sts c2 = (tr', cf, x)" and tr: "tr = c2 # tr'"
      using Cons.prems(6) Inr by (auto simp: c1_def split: prod.splits)
    obtain l w where lw: "c1 = (l, w)" by (cases c1)
    obtain l' w' where lw': "c2 = (l', w')" by (cases c2)
    have st: "st (l, w) = Inr (l', w')"
      using Inr lw lw' by simp
    note spec = Cons.hyps(1) [unfolded step_spec_def, THEN conjunct1, rule_format, OF st]
    define rho' where "rho' = (case eff lab of None \<Rightarrow> rho | Some s \<Rightarrow> stage_rank s)"
    have lab_ok: "case eff lab of None \<Rightarrow> True | Some s \<Rightarrow> s \<in> set stage_order \<and> rho \<le> stage_rank s"
      using Cons.prems(1) by simp
    have rest: "in_order rho' (bd \<or> binds_d lab) (ba \<or> binds_a lab) labs"
      using Cons.prems(1) by (simp add: rho'_def)
    have le: "rho \<le> rho'"
      using lab_ok by (auto simp: rho'_def split: option.splits)
    have old: "status_at r c1 = status_at r c"
      using c1 by simp
    have "core (heap w' ! r) = core (heap w ! r)
        \<or> (deployments w did = Some r \<and> eff lab = Some (status (heap w' ! r)))"
      using spec [THEN conjunct2, THEN conjunct2, THEN conjunct2, THEN conjunct2, THEN conjunct2]
      by (rule allE)
    then have new: "status_at r c2 \<in> set stage_order \<and> stage_rank (status_at r c) \<le> stage_rank (status_at r c2)
        \<and> stage_rank (status_at r c2) \<le> rho'"
    proof
      assume "core (heap w' ! r) = core (heap w ! r)"
      then have "status_at r c2 = status_at r c"
        using old lw lw' by (simp add: core_def)
      then show ?thesis
        using Cons.prems(2,3) le by simp
    next
      assume "deployments w did = Some r \<and> eff lab = Some (status (heap w' ! r))"
      then have e: "eff lab = Some (status_at r c2)"
        using lw' by simp
      then show ?thesis
        using lab_ok Cons.prems(3) by (simp add: rho'_def)
    qed
    have sd: "if binds_d lab then l_deployment l' = deployments w did \<and> l_deployment l' \<noteq> None
        else l_deployment l' = l_deployment l"
      by (rule spec [THEN conjunct2, THEN conjunct2, THEN conjunct1])
    have sa: "if binds_a lab then l_project_analysis l' \<noteq> None
        else l_project_analysis l' = l_project_analysis l"
      by (rule spec [THEN conjunct2, THEN conjunct2, THEN conjunct2, THEN conjunct1])
    have l: "l = fst c"
      using c1 lw by simp
    have bd': "(bd \<or> binds_d lab) \<longrightarrow> l_deployment (fst c2) \<noteq> None"
    proof (cases "binds_d lab")
      case True
      have "l_deployment (fst c2) \<noteq> None"
        unfolding lw' fst_conv by (rule sd [unfolded if_P [OF True], THEN conjunct2])
      then show ?thesis by blast
    next
      case False
      have "l_deployment (fst c2) = l_deployment (fst c)"
        unfolding lw' fst_conv l [symmetric] by (rule sd [unfolded if_not_P [OF False]])
      then show ?thesis using False Cons.prems(4) by simp
    qed
    have ba': "(ba \<or> binds_a lab) \<longrightarrow> l_project_analysis (fst c2) \<noteq> None"
    proof (cases "binds_a lab")
      case True
      have "l_project_analysis (fst c2) \<noteq> None"
        unfolding lw' fst_conv by (rule sa [unfolded if_P [OF True]])
      then show ?thesis by blast
    next
      case False
      have "l_project_analysis (fst c2) = l_project_analysis (fst c)"
        unfolding lw' fst_conv l [symmetric] by (rule sa [unfolded if_not_P [OF False]])
      then show ?thesis using False Cons.prems(5) by simp
    qed
    have IH: "successively forward (map (status_at r) (c2 # tr'))
        \<and> status_at r cf = status_at r (last (c2 # tr'))
        \<and> status_at r cf \<in> set stage_order
        \<and> (x \<noteq> None \<longrightarrow> \<not> terminal (status_at r cf))"
      using Cons.IH [OF rest _ _ bd' ba' run'] new by blast
    have fw: "forward (status_at r c) (status_at r c2)"
      using forward_rank Cons.prems(2) new by blast
    have la: "last (c # tr) = last (c2 # tr')"
      unfolding tr by simp
    have su: "successively forward (map (status_at r) (c # tr))"
      unfolding tr using fw IH by simp
    show ?thesis
      unfolding la using su IH by blast
  qed
qed





lemma errors_update_status:
  "status ((hs[r0 := (hs ! r0)\<lparr>errors := es\<rparr>]) ! r) = status (hs ! r)"
  by (simp add: nth_update_if)

lemma handler_status:
  assumes "handler did e c = (w2, esc)"
  shows "status (heap w2 ! r) = status_at r c \<or> status (heap w2 ! r) = ''failed''"
proof -
  obtain l w where c: "c = (l, w)" by (cases c)
  have s1: "status (heap (update_deployment_status did ''failed'' 0 m w) ! r) = status (heap w ! r)
      \<or> status (heap (update_deployment_status did ''failed'' 0 m w) ! r) = ''failed''" for m
    using update_deployment_status_spec(4) [of did "''failed''" 0 m w r]
    by (auto simp: core_def)
  obtain m where "status (heap w2 ! r) = status (heap (update_deployment_status did ''failed'' 0 m w) ! r)"
    using assms unfolding c handler_def
    by (auto simp: Let_def errors_update_status split: option.splits)
  then show ?thesis using s1 [of m] c by simp
qed

subsection \<open>The claims about the pipeline\<close>

text \<open>
  Claim C2. In every execution of the background task, under every schedule of a delete
  request, the status of a record that starts as \<open>pending\<close> only moves forward through
  pending, detecting, containerizing, building, deploying, configuring, success, or jumps
  to failed, and once it is success or failed no later statement of the execution
  changes it: every two consecutive statuses of the record (at the start, after each
  completed statement, and when the task ends) are related by \<open>forward\<close>.
\<close>

theorem status_moves_forward:
  assumes "status (heap w ! r) = ''pending''"
  shows "successively forward (status_trace r (process_enhanced_deployment did request ev del_at w))"
proof -
  define c0 :: config where "c0 = (\<lparr>l_deployment = None, l_project_analysis = None\<rparr>, w)"
  obtain tr cf x where run: "run did del_at 0 (body did request ev) c0 = (tr, cf, x)"
    by (cases "run did del_at 0 (body did request ev) c0")
  have start: "status_at r c0 \<in> set stage_order" "stage_rank (status_at r c0) \<le> 0"
    using assms by (simp_all add: c0_def stages_in_order stage_ranks)
  have fw: "successively forward (map (status_at r) (c0 # tr))
    \<and> status_at r cf = status_at r (last (c0 # tr))
    \<and> status_at r cf \<in> set stage_order
    \<and> (x \<noteq> None \<longrightarrow> \<not> terminal (status_at r cf))"
    by (rule run_forward [OF body_spec in_order_body start _ _ run]) simp_all
  have tr_eq: "map (\<lambda>w'. status (heap w' ! r)) (w # map snd tr) = map (status_at r) (c0 # tr)"
    by (simp add: c0_def comp_def)
  have last_eq: "last (map (status_at r) (c0 # tr)) = status_at r cf"
    using fw by (simp add: last_map)
  have snoc: "successively forward (map (status_at r) (c0 # tr) @ [s])"
    if "forward (status_at r cf) s" for s
    using fw that last_eq by (simp add: successively_append_iff del: last.simps map_append list.map)
  show ?thesis
  proof (cases x)
    case None
    have "forward (status_at r cf) (status_at r cf)"
      using fw forward_refl by blast
    then have "successively forward (map (status_at r) (c0 # tr) @ [status_at r cf])"
      by (rule snoc)
    moreover have "status_trace r (process_enhanced_deployment did request ev del_at w)
        = map (status_at r) (c0 # tr) @ [status_at r cf]"
      using run None
      by (simp add: status_trace_def process_enhanced_deployment_def c0_def [symmetric] comp_def)
        (simp add: c0_def)
    ultimately show ?thesis by simp
  next
    case (Some e)
    obtain w2 esc where h: "handler did e cf = (w2, esc)"
      by (cases "handler did e cf")
    have "status (heap w2 ! r) = status_at r cf \<or> status (heap w2 ! r) = ''failed''"
      by (rule handler_status [OF h])
    then have "forward (status_at r cf) (status (heap w2 ! r))"
      using fw Some forward_refl forward_failed by auto
    then have "successively forward (map (status_at r) (c0 # tr) @ [status (heap w2 ! r)])"
      by (rule snoc)
    moreover have "status_trace r (process_enhanced_deployment did request ev del_at w)
        = map (status_at r) (c0 # tr) @ [status (heap w2 ! r)]"
      using run Some h
      by (simp add: status_trace_def process_enhanced_deployment_def c0_def [symmetric] comp_def)
        (simp add: c0_def)
    ultimately show ?thesis by simp
  qed
qed

lemma demo_world_eq:
  "demo_world = \<lparr>deployments = [''d1'' \<mapsto> 0],
     heap = [\<lparr>deployment_id = ''d1'', project_name = ''demo'', d_project_type = REACT,
       environment = ''prod'', status = ''pending'', created_at = 0, updated_at = 0,
       options = [], logs = [], errors = [], resources_created = [], resources_failed = [],
       monitoring_enabled = True, url = None, metrics_url = None, logs_url = None,
       project_analysis = None\<rparr>],
     utc = 1\<rparr>"
  by (simp add: demo_world_def enhanced_deployment_def demo_request_def empty_world_def Let_def)

theorem status_moves_forward_witness:
  "status (heap demo_world ! 0) = ''pending''
   \<and> successively forward
        (status_trace 0 (process_enhanced_deployment ''d1'' demo_request react_env None demo_world))
   \<and> successively forward
        (status_trace 0 (process_enhanced_deployment ''d1'' demo_request missing_project_env None demo_world))
   \<and> status_trace 0 (process_enhanced_deployment ''d1'' demo_request missing_project_env None demo_world)
       = [''pending'', ''pending'', ''detecting'', ''failed'']"
proof -
  have p: "status (heap demo_world ! 0) = ''pending''"
    by (simp add: demo_world_eq)
  have t: "status_trace 0 (process_enhanced_deployment ''d1'' demo_request missing_project_env None demo_world)
       = [''pending'', ''pending'', ''detecting'', ''failed'']"
    by code_simp
  show ?thesis
    using p t status_moves_forward [OF p, of "''d1''" demo_request react_env None]
      status_moves_forward [OF p, of "''d1''" demo_request missing_project_env None]
    by simp
qed





text \<open>
  Claim C10. For a deployment id that is not in the store, \<open>update_deployment_status\<close>
  returns the world as it was: nothing is raised and nothing changes. So after
  \<open>delete_deployment\<close> has removed an id, which leaves the heap as it is, every
  sequence of later status updates for that id leaves the world as the deletion left it:
  the status, timestamp and log updates of a task that is still running are dropped.
\<close>

theorem update_missing_id_noop:
  "(deployments w did = None \<longrightarrow> update_deployment_status did s p m w = w)
   \<and> (delete_deployment did w = Inr (msg, w') \<longrightarrow>
        deployments w' did = None
        \<and> heap w' = heap w
        \<and> fold (\<lambda>(s, p, m). update_deployment_status did s p m) ups w' = w')"
proof (intro conjI impI)
  show "update_deployment_status did s p m w = w" if "deployments w did = None"
    using that by (simp add: update_deployment_status_def)
  assume d: "delete_deployment did w = Inr (msg, w')"
  then show gone: "deployments w' did = None" and "heap w' = heap w"
    by (auto simp: delete_deployment_def split: option.splits)
  show "fold (\<lambda>(s, p, m). update_deployment_status did s p m) ups w' = w'"
    using gone by (induction ups) (auto simp: update_deployment_status_def)
qed

theorem update_missing_id_noop_witness:
  "deployments empty_world ''d1'' = None
   \<and> update_deployment_status ''d1'' ''detecting'' 10 ''Analyzing project structure...'' empty_world
       = empty_world
   \<and> delete_deployment ''d1'' demo_world
       = Inr (''Deployment d1 deleted successfully'', demo_world\<lparr>deployments := Map.empty\<rparr>)
   \<and> fold (\<lambda>(s, p, m). update_deployment_status ''d1'' s p m)
        [(''building'', 40, ''Building react project...''),
         (''success'', 100, ''Deployment completed successfully'')]
        (demo_world\<lparr>deployments := Map.empty\<rparr>)
       = demo_world\<lparr>deployments := Map.empty\<rparr>
   \<and> status (heap (demo_world\<lparr>deployments := Map.empty\<rparr>) ! 0) = ''pending''"
proof -
  have a: "deployments empty_world ''d1'' = None"
    by (simp add: empty_world_def)
  have b: "delete_deployment ''d1'' demo_world
       = Inr (''Deployment d1 deleted successfully'', demo_world\<lparr>deployments := Map.empty\<rparr>)"
    by (simp add: delete_deployment_def demo_world_eq)
  have c: "status (heap (demo_world\<lparr>deployments := Map.empty\<rparr>) ! 0) = ''pending''"
    by (simp add: demo_world_eq)
  note T1 = update_missing_id_noop [where w = empty_world and did = "''d1''" and s = "''detecting''"
      and p = 10 and m = "''Analyzing project structure...''"
      and msg = "''x''" and w' = empty_world and ups = "[]"]
  note T2 = update_missing_id_noop [where w = demo_world and did = "''d1''" and s = "''detecting''"
      and p = 10 and m = "''Analyzing project structure...''"
      and msg = "''Deployment d1 deleted successfully''"
      and w' = "demo_world\<lparr>deployments := Map.empty\<rparr>"
      and ups = "[(''building'', 40, ''Building react project...''),
         (''success'', 100, ''Deployment completed successfully'')]"]
  have "update_deployment_status ''d1'' ''detecting'' 10 ''Analyzing project structure...'' empty_world
       = empty_world"
    using T1 a by blast
  moreover have "fold (\<lambda>(s, p, m). update_deployment_status ''d1'' s p m)
        [(''building'', 40, ''Building react project...''),
         (''success'', 100, ''Deployment completed successfully'')]
        (demo_world\<lparr>deployments := Map.empty\<rparr>)
       = demo_world\<lparr>deployments := Map.empty\<rparr>"
    using T2 b by blast
  ultimately show ?thesis
    using a b c by blast
qed




end
